theory Spec2Isabelle
  imports Main "HOL-Library.AList"
begin

section \<open>JavaScript strings\<close>

text \<open>
  A string is a list of code units; the model covers the code units U+0000 to U+00FF,
  one \<open>char\<close> each. Among them the white space and line terminators that
  \<^verbatim>\<open>String.prototype.trim\<close> strips are TAB, LF, VT, FF, CR, SPACE and NBSP.
\<close>

definition isWhiteSpace :: "char \<Rightarrow> bool" where
  "isWhiteSpace c \<longleftrightarrow> c \<in> set [CHR 0x09, CHR 0x0A, CHR 0x0B, CHR 0x0C, CHR 0x0D, CHR 0x20, CHR 0xA0]"

definition trim :: "string \<Rightarrow> string" where
  "trim s = rev (dropWhile isWhiteSpace (rev (dropWhile isWhiteSpace s)))"

text \<open>\<^verbatim>\<open>toLowerCase\<close>: A to Z and the upper-case letters of Latin-1 (U+00C0 to U+00DE
  without the multiplication sign U+00D7) move up by 32.\<close>

definition lowerChar :: "char \<Rightarrow> char" where
  "lowerChar c =
     (let n = (of_char c :: nat)
      in if (65 \<le> n \<and> n \<le> 90) \<or> (192 \<le> n \<and> n \<le> 222 \<and> n \<noteq> 215) then char_of (n + 32) else c)"

definition toLowerCase :: "string \<Rightarrow> string" where
  "toLowerCase s = map lowerChar s"

definition startsWith :: "string \<Rightarrow> string \<Rightarrow> bool" where
  "startsWith s p \<longleftrightarrow> take (length p) s = p"

text \<open>\<^verbatim>\<open>s.split(sep)\<close> for a separator of one code unit: never the empty array.\<close>

fun split :: "char \<Rightarrow> string \<Rightarrow> string list" where
  "split sep [] = [[]]"
| "split sep (c # cs) =
     (if c = sep then [] # split sep cs
      else (case split sep cs of
              [] \<Rightarrow> [[c]]
            | w # ws \<Rightarrow> (c # w) # ws))"

text \<open>Reading an array element: \<^verbatim>\<open>undefined\<close> (here \<open>None\<close>) out of range.\<close>

definition at :: "'a list \<Rightarrow> nat \<Rightarrow> 'a option" where
  "at xs i = (if i < length xs then Some (xs ! i) else None)"

text \<open>
  \<^verbatim>\<open>s.replace(pattern, replacement)\<close> with a string pattern replaces the first
  occurrence only. In the replacement \<^verbatim>\<open>$$\<close> stands for a dollar sign, \<^verbatim>\<open>$&\<close> for the
  matched text, \<^verbatim>\<open>$`\<close> for the text before the match and \<^verbatim>\<open>$'\<close> for the text after it;
  a string pattern has no capture groups, so every other \<^verbatim>\<open>$\<close> is literal.
\<close>

fun findSub :: "string \<Rightarrow> string \<Rightarrow> (string \<times> string) option" where
  "findSub pat [] = (if pat = [] then Some ([], []) else None)"
| "findSub pat (c # cs) =
     (if take (length pat) (c # cs) = pat then Some ([], drop (length pat) (c # cs))
      else map_option (\<lambda>(b, a). (c # b, a)) (findSub pat cs))"

fun getSubstitution :: "string \<Rightarrow> string \<Rightarrow> string \<Rightarrow> string \<Rightarrow> string" where
  "getSubstitution m b a (c # d # r) =
     (if c = CHR ''$'' \<and> d = CHR ''$'' then CHR ''$'' # getSubstitution m b a r
      else if c = CHR ''$'' \<and> d = CHR ''&'' then m @ getSubstitution m b a r
      else if c = CHR ''$'' \<and> d = CHR 0x60 then b @ getSubstitution m b a r
      else if c = CHR ''$'' \<and> d = CHR 0x27 then a @ getSubstitution m b a r
      else c # getSubstitution m b a (d # r))"
| "getSubstitution m b a r = r"

definition replace :: "string \<Rightarrow> string \<Rightarrow> string \<Rightarrow> string" where
  "replace s pat rep =
     (case findSub pat s of
        None \<Rightarrow> s
      | Some (b, a) \<Rightarrow> b @ getSubstitution pat b a rep @ a)"

text \<open>
  A property read from parsed JSON is a string or absent. Absent and the empty string
  are falsy; an absent value appended to a string or to form data reads
  \<^verbatim>\<open>undefined\<close>.
\<close>

definition truthy :: "string option \<Rightarrow> bool" where
  "truthy v = (case v of None \<Rightarrow> False | Some s \<Rightarrow> s \<noteq> [])"

definition toStr :: "string option \<Rightarrow> string" where
  "toStr v = (case v of None \<Rightarrow> ''undefined'' | Some s \<Rightarrow> s)"


section \<open>Configuration and errors\<close>

record config =
  customer :: "string option"
  email :: "string option"
  password :: "string option"
  accesstoken :: "string option"
  authUrlTemplate :: "string option"
  authUrlV2Template :: "string option"
  applicationsUrlTemplate :: "string option"
  projectsUrlTemplate :: "string option"
  branchesUrlTemplate :: "string option"

text \<open>What the scripts throw, or what is thrown under them.\<close>

datatype error =
    MissingConfiguration    \<comment> \<open>\<^verbatim>\<open>Missing required configuration properties.\<close> and
                                \<^verbatim>\<open>One or more URL templates are missing ...\<close>\<close>
  | NoCredentials           \<comment> \<open>\<^verbatim>\<open>Neither password nor access token is provided in the config.\<close>\<close>
  | NoToken                 \<comment> \<open>\<^verbatim>\<open>No access token found in the response.\<close>\<close>
  | RequestRejected         \<comment> \<open>the promise of \<^verbatim>\<open>axios.request\<close> is rejected\<close>
  | FileSystemError         \<comment> \<open>\<^verbatim>\<open>fs.access\<close> fails with a code other than ENOENT\<close>
  | TypeError               \<comment> \<open>a property of \<^verbatim>\<open>undefined\<close> is read\<close>
  | UseAfterClose           \<comment> \<open>\<^verbatim>\<open>rl.question\<close> on a readline interface that is closed\<close>


section \<open>Session authenticator\<close>

text \<open>
  The same block opens every fetch stage (\<^verbatim>\<open>fetchApplicationsWithAuth\<close>,
  \<^verbatim>\<open>fetchProjectsWithAuth\<close>, \<^verbatim>\<open>fetchRoleAssignments\<close>, \<^verbatim>\<open>fetchBranchesWithAuth\<close>, in the
  scripts and in the main script alike): it builds \<^verbatim>\<open>authConfig\<close> from the configuration,
  sends it, and reads the token from the response.
\<close>

record authRequest =
  auth_url :: string
  auth_data :: "(string \<times> string) list"

text \<open>\<^verbatim>\<open>v && v.trim() !== ""\<close>: the test on the password and on the access token.\<close>

definition provided :: "string option \<Rightarrow> bool" where
  "provided v \<longleftrightarrow> truthy v \<and> trim (toStr v) \<noteq> []"

definition authConfig :: "config \<Rightarrow> string \<Rightarrow> string \<Rightarrow> error + authRequest" where
  "authConfig c authUrl authUrlV2 =
     (if provided (password c) then
        Inr \<lparr>auth_url = authUrl,
             auth_data = [(''email'', toStr (email c)), (''password'', toStr (password c))]\<rparr>
      else if provided (accesstoken c) then
        Inr \<lparr>auth_url = authUrlV2,
             auth_data = [(''email'', toStr (email c)), (''accesstoken'', toStr (accesstoken c))]\<rparr>
      else Inl NoCredentials)"


text \<open>
  The platform answers a request with a status and a content, or does not answer.
  \<^verbatim>\<open>axios.request\<close> settles its promise with the client's \<^verbatim>\<open>validateStatus\<close>, which no
  script overrides: the promise resolves to the response when
  \<^verbatim>\<open>status >= 200 && status < 300\<close>, and it is rejected otherwise, as it is when no response
  arrives. Awaiting a rejected promise throws.
\<close>

datatype 'a reply = Response nat 'a | NoResponse

datatype 'a settled = Resolved nat 'a | Rejected

definition validateStatus :: "nat \<Rightarrow> bool" where
  "validateStatus status \<longleftrightarrow> 200 \<le> status \<and> status < 300"

definition settle :: "'a reply \<Rightarrow> 'a settled" where
  "settle r =
     (case r of
        Response status data \<Rightarrow> (if validateStatus status then Resolved status data else Rejected)
      | NoResponse \<Rightarrow> Rejected)"

record authResponse =
  set_cookie :: "string list option"    \<comment> \<open>\<^verbatim>\<open>authResponse.headers['set-cookie']\<close>\<close>
  jwt :: "string option"                \<comment> \<open>\<^verbatim>\<open>authResponse.data.jwt\<close>, absent with the data\<close>

definition cookieToken :: "authResponse \<Rightarrow> string option" where
  "cookieToken r =
     (case set_cookie r of
        None \<Rightarrow> None
      | Some setCookieHeader \<Rightarrow>
          (case find (\<lambda>cookie. startsWith cookie ''access_token='') setCookieHeader of
             None \<Rightarrow> None
           | Some tokenCookie \<Rightarrow> at (split CHR ''='' (hd (split CHR '';'' tokenCookie))) 1))"

definition extractToken :: "authResponse \<Rightarrow> error + string" where
  "extractToken r =
     (let token = cookieToken r;
          token = (if \<not> truthy token \<and> truthy (jwt r) then jwt r else token)
      in if \<not> truthy token then Inl NoToken else Inr (toStr token))"


section \<open>Effects and control flow of a stage\<close>

text \<open>
  A stage is an async function whose body is a \<^verbatim>\<open>try\<close> block. A statement of the body
  goes on to the next one, returns from the function, or throws; with it comes the list
  of the effects it had on the file system, the console prompt, the readline interface
  and the network. Console output is left out.
\<close>

datatype access = Found | NoEntry | AccessFailure

datatype target =
    Page string nat nat          \<comment> \<open>\<^verbatim>\<open>${base}?page[limit]=${limit}&page[offset]=${offset}\<close>\<close>
  | BranchPage string nat        \<comment> \<open>\<^verbatim>\<open>branchesUrlTemplate.replace('{offset}', offset)\<close>\<close>
  | RoleAssignmentsOf string string   \<comment> \<open>tenant and project id of the role-assignments URL\<close>

datatype effect =
    Mkdir string
  | Question string
  | Unlink string
  | Post authRequest
  | Get target string            \<comment> \<open>the request and its bearer token\<close>
  | WriteFile string
  | Close                        \<comment> \<open>\<^verbatim>\<open>rl.close()\<close>\<close>

definition isNetwork :: "effect \<Rightarrow> bool" where
  "isNetwork e = (case e of Post request \<Rightarrow> True | Get t token \<Rightarrow> True | _ \<Rightarrow> False)"

text \<open>
  What the stages share: the files under \<^verbatim>\<open>./output\<close>, as \<^verbatim>\<open>fs.access\<close> finds them, and
  the one readline interface \<^verbatim>\<open>rl\<close> of the module, which is open until some stage has
  closed it. An effect changes them for the stages that follow; within a stage every
  path is looked up before the stage touches it. Creating the directory, deleting a file
  and writing one are taken to succeed.
\<close>

record state =
  files :: "string \<Rightarrow> access"
  rl_closed :: bool

definition effectOn :: "effect \<Rightarrow> state \<Rightarrow> state" where
  "effectOn e st =
     (case e of
        Mkdir path \<Rightarrow> st\<lparr>files := (files st)(path := Found)\<rparr>
      | Unlink path \<Rightarrow> st\<lparr>files := (files st)(path := NoEntry)\<rparr>
      | WriteFile path \<Rightarrow> st\<lparr>files := (files st)(path := Found)\<rparr>
      | Close \<Rightarrow> st\<lparr>rl_closed := True\<rparr>
      | _ \<Rightarrow> st)"

definition afterEffects :: "effect list \<Rightarrow> state \<Rightarrow> state" where
  "afterEffects log st = fold effectOn log st"

datatype ('a, 'r) step = Next 'a | Return 'r | Throw error

type_synonym ('a, 'r) act = "('a, 'r) step \<times> effect list"

definition andThen :: "('a, 'r) act \<Rightarrow> ('a \<Rightarrow> ('b, 'r) act) \<Rightarrow> ('b, 'r) act" where
  "andThen m f =
     (case m of
        (Next x, l) \<Rightarrow> (case f x of (s, l') \<Rightarrow> (s, l @ l'))
      | (Return r, l) \<Rightarrow> (Return r, l)
      | (Throw e, l) \<Rightarrow> (Throw e, l))"

definition outputDirectory :: string where "outputDirectory = ''./output''"
definition projectListPath :: string where "projectListPath = ''./output/projectList.json''"
definition detailsListPath :: string where "detailsListPath = ''./output/userDetailsList.json''"
definition detailsCsvPath :: string where "detailsCsvPath = ''./output/userDetailsList.csv''"
definition branchesListPath :: string where "branchesListPath = ''./output/branchesList.json''"
definition applicationsListPath :: string where "applicationsListPath = ''./output/applicationsList.json''"
definition applicationsCsvPath :: string where "applicationsCsvPath = ''./output/applicationsList.csv''"

definition ensureOutputDirectoryExists :: "state \<Rightarrow> (unit, 'r) act" where
  "ensureOutputDirectoryExists st =
     (case files st outputDirectory of
        Found \<Rightarrow> (Next (), [])
      | NoEntry \<Rightarrow> (Next (), [Mkdir outputDirectory])
      | AccessFailure \<Rightarrow> (Throw FileSystemError, []))"

text \<open>
  The guard in front of an artifact that may exist: \<^verbatim>\<open>fs.access\<close>, then the prompt, and
  either \<^verbatim>\<open>rl.close(); return []\<close> or \<^verbatim>\<open>fs.unlink\<close>. The prompt is \<^verbatim>\<open>rl.question\<close> inside a
  promise: on a closed interface \<^verbatim>\<open>rl.question\<close> throws (Node.js: ERR_USE_AFTER_CLOSE),
  the promise is rejected with that error and nothing is asked.
\<close>

definition declines :: "string \<Rightarrow> bool" where
  \<comment> \<open>\<^verbatim>\<open>!['yes', 'y'].includes(answer.toLowerCase())\<close>\<close>
  "declines answer \<longleftrightarrow> toLowerCase answer \<notin> set [''yes'', ''y'']"

definition confirmDelete :: "state \<Rightarrow> (string \<Rightarrow> string) \<Rightarrow> string \<Rightarrow> string \<Rightarrow> (unit, 'x list) act" where
  "confirmDelete st askQuestion query path =
     (case files st path of
        AccessFailure \<Rightarrow> (Throw FileSystemError, [])
      | NoEntry \<Rightarrow> (Next (), [])
      | Found \<Rightarrow>
          (if rl_closed st then (Throw UseAfterClose, [])
           else if declines (askQuestion query)
           then (Return [], [Question query, Close])
           else (Next (), [Question query, Unlink path])))"

text \<open>\<^verbatim>\<open>template.replace('{customer}', config.customer)\<close>, a TypeError on an absent template.\<close>

definition resolve :: "string option \<Rightarrow> string option \<Rightarrow> (string, 'r) act" where
  "resolve template cust =
     (case template of
        None \<Rightarrow> (Throw TypeError, [])
      | Some t \<Rightarrow> (Next (replace t ''{customer}'' (toStr cust)), []))"

definition authenticate ::
  "config \<Rightarrow> string \<Rightarrow> string \<Rightarrow> (authRequest \<Rightarrow> authResponse reply) \<Rightarrow> (string, 'r) act" where
  "authenticate c authUrl authUrlV2 api =
     (case authConfig c authUrl authUrlV2 of
        Inl e \<Rightarrow> (Throw e, [])
      | Inr request \<Rightarrow>
          (case settle (api request) of
             Rejected \<Rightarrow> (Throw RequestRejected, [Post request])
           | Resolved status authResponse \<Rightarrow>
               (case extractToken authResponse of
                  Inl e \<Rightarrow> (Throw e, [Post request])
                | Inr token \<Rightarrow> (Next token, [Post request]))))"


section \<open>Paginated resource fetcher\<close>

text \<open>
  Every paginated stage has the same \<^verbatim>\<open>while\<close> loop over \<^verbatim>\<open>offset\<close>, the accumulated
  items and the flag that ends it; they differ in the page size and in the mapping of
  the raw items. The loop ends after a page whose length is not the page size, after a
  response that is resolved with a status other than 200, or when the request is
  rejected, which throws out of the loop. No page count bounds it: on a server that
  answers full pages for ever it does not return, which is the value \<open>None\<close>. With the
  result come the offsets requested, in order.
\<close>

datatype stop = LastPage | HttpError nat | Thrown

partial_function (option) pageLoop ::
  "nat \<Rightarrow> ('a \<Rightarrow> 'b) \<Rightarrow> (nat \<Rightarrow> 'a list reply) \<Rightarrow> nat \<Rightarrow> 'b list \<Rightarrow> nat list
     \<Rightarrow> (stop \<times> 'b list \<times> nat list) option" where
  "pageLoop limit format api offset all requested =
     (case settle (api offset) of
        Rejected \<Rightarrow> Some (Thrown, all, requested @ [offset])
      | Resolved status data \<Rightarrow>
          (if status = 200 then
             (if length data = limit
              then pageLoop limit format api (offset + limit) (all @ map format data) (requested @ [offset])
              else Some (LastPage, all @ map format data, requested @ [offset]))
           else Some (HttpError status, all, requested @ [offset])))"

text \<open>What the loop saw, for the statements about it.\<close>

definition fullPage :: "nat \<Rightarrow> 'a list reply \<Rightarrow> bool" where
  "fullPage limit r =
     (case settle r of Resolved status data \<Rightarrow> status = 200 \<and> length data = limit | Rejected \<Rightarrow> False)"

definition received :: "'a list reply \<Rightarrow> 'a list" where
  "received r = (case settle r of Resolved status data \<Rightarrow> (if status = 200 then data else []) | Rejected \<Rightarrow> [])"

definition stopOf :: "'a list reply \<Rightarrow> stop" where
  "stopOf r =
     (case settle r of
        Resolved status data \<Rightarrow> (if status = 200 then LastPage else HttpError status)
      | Rejected \<Rightarrow> Thrown)"


section \<open>Resource collectors\<close>

record rawApplication =
  ra_id :: string                    \<comment> \<open>\<^verbatim>\<open>application.id\<close>\<close>
  ra_name :: string                  \<comment> \<open>\<^verbatim>\<open>application.attributes.name\<close>\<close>
  ra_description :: string           \<comment> \<open>\<^verbatim>\<open>application.attributes.description\<close>\<close>
  ra_projects :: "string list"       \<comment> \<open>the ids in \<^verbatim>\<open>application.relationships.projects.data\<close>\<close>

record application =
  app_id :: string
  app_name :: string
  app_description :: string
  app_projects :: "string list"

definition formatApplication :: "rawApplication \<Rightarrow> application" where
  "formatApplication a =
     \<lparr>app_id = ra_id a, app_name = ra_name a, app_description = ra_description a,
      app_projects = ra_projects a\<rparr>"

record rawProject =
  rp_id :: string                              \<comment> \<open>\<^verbatim>\<open>project.id\<close>\<close>
  rp_name :: string                            \<comment> \<open>\<^verbatim>\<open>project.attributes.name\<close>\<close>
  rp_type :: "string option"                   \<comment> \<open>\<^verbatim>\<open>project.attributes.type\<close>\<close>
  rp_properties :: "(string \<times> string) list"    \<comment> \<open>\<^verbatim>\<open>project.attributes.properties\<close>\<close>
  rp_branches :: string                        \<comment> \<open>\<^verbatim>\<open>project.relationships.branches.links.related\<close>\<close>

text \<open>An entry of the project snapshot; the three project fetchers fill different fields.\<close>

record project =
  project_id :: string
  project_name :: string
  project_type :: "string option"
  project_properties :: "(string \<times> string) list option"
  project_branches :: "string option"

definition placeholder :: "(string \<times> string) list \<Rightarrow> (string \<times> string) list" where
  "placeholder properties = (if length properties \<noteq> 0 then properties else [(''key'', ''value'')])"

definition formatProject :: "rawProject \<Rightarrow> project" where
  \<comment> \<open>the main script\<close>
  "formatProject p =
     \<lparr>project_id = rp_id p, project_name = rp_name p, project_type = None,
      project_properties = Some (placeholder (rp_properties p)),
      project_branches = Some (rp_branches p)\<rparr>"

definition formatProject_userInformation :: "rawProject \<Rightarrow> project" where
  \<comment> \<open>\<^verbatim>\<open>getProjectUserInformation.mjs\<close>\<close>
  "formatProject_userInformation p =
     \<lparr>project_id = rp_id p, project_name = rp_name p, project_type = None,
      project_properties = None, project_branches = None\<rparr>"

definition formatProject_properties :: "rawProject \<Rightarrow> project" where
  \<comment> \<open>\<^verbatim>\<open>getProjectProperties.mjs\<close>\<close>
  "formatProject_properties p =
     \<lparr>project_id = rp_id p, project_name = rp_name p, project_type = rp_type p,
      project_properties = Some (placeholder (rp_properties p)),
      project_branches = Some (rp_branches p)\<rparr>"

record branch =
  branch_name :: string        \<comment> \<open>\<^verbatim>\<open>branch.attributes.name\<close>\<close>
  branch_project :: string     \<comment> \<open>\<^verbatim>\<open>branch.relationships.project.data.id\<close>\<close>

text \<open>The pagination loops of the scripts, each with its page size.\<close>

definition applicationsPages ::
  "(nat \<Rightarrow> rawApplication list reply) \<Rightarrow> (stop \<times> application list \<times> nat list) option" where
  \<comment> \<open>\<^verbatim>\<open>fetchApplicationsWithAuth\<close>, in \<^verbatim>\<open>getApplicationList.mjs\<close> and in the main script\<close>
  "applicationsPages api = pageLoop 25 formatApplication api 0 [] []"

definition projectsPages ::
  "(nat \<Rightarrow> rawProject list reply) \<Rightarrow> (stop \<times> project list \<times> nat list) option" where
  \<comment> \<open>\<^verbatim>\<open>fetchProjectsWithAuth\<close> of the main script\<close>
  "projectsPages api = pageLoop 500 formatProject api 0 [] []"

definition projectsPages_userInformation ::
  "(nat \<Rightarrow> rawProject list reply) \<Rightarrow> (stop \<times> project list \<times> nat list) option" where
  \<comment> \<open>\<^verbatim>\<open>fetchProjectsWithAuth\<close> of \<^verbatim>\<open>getProjectUserInformation.mjs\<close>\<close>
  "projectsPages_userInformation api = pageLoop 500 formatProject_userInformation api 0 [] []"

definition projectsPages_properties ::
  "(nat \<Rightarrow> rawProject list reply) \<Rightarrow> (stop \<times> project list \<times> nat list) option" where
  \<comment> \<open>\<^verbatim>\<open>fetchProjectsWithAuth\<close> of \<^verbatim>\<open>getProjectProperties.mjs\<close>\<close>
  "projectsPages_properties api = pageLoop 5 formatProject_properties api 0 [] []"

definition branchesPages ::
  "(nat \<Rightarrow> branch list reply) \<Rightarrow> (stop \<times> branch list \<times> nat list) option" where
  \<comment> \<open>\<^verbatim>\<open>fetchBranchesWithAuth\<close>: the raw items are kept as they are\<close>
  "branchesPages api = pageLoop 500 (\<lambda>b. b) api 0 [] []"

text \<open>Role assignments: one request per project, no pagination.\<close>

record included =
  inc_type :: string          \<comment> \<open>\<^verbatim>\<open>item.type\<close>\<close>
  inc_name :: string          \<comment> \<open>\<^verbatim>\<open>item.attributes.name\<close>\<close>
  inc_email :: string         \<comment> \<open>\<^verbatim>\<open>item.attributes.email\<close>\<close>
  inc_groupname :: string     \<comment> \<open>\<^verbatim>\<open>item.attributes.groupname\<close>\<close>

record detail =
  detail_projectName :: string
  detail_projectId :: string
  detail_userType :: string
  detail_name :: string
  detail_email :: string

definition usersOf :: "project \<Rightarrow> included list \<Rightarrow> detail list" where
  "usersOf project incl =
     map (\<lambda>user. \<lparr>detail_projectName = project_name project, detail_projectId = project_id project,
                  detail_userType = ''User'', detail_name = inc_name user,
                  detail_email = inc_email user\<rparr>)
         (filter (\<lambda>item. inc_type item = ''users'') incl)"

definition groupsOf :: "project \<Rightarrow> included list \<Rightarrow> detail list" where
  "groupsOf project incl =
     map (\<lambda>group. \<lparr>detail_projectName = project_name project, detail_projectId = project_id project,
                   detail_userType = ''GroupName'', detail_name = inc_groupname group,
                   detail_email = ''''\<rparr>)
         (filter (\<lambda>item. inc_type item = ''groups'') incl)"

text \<open>
  The \<^verbatim>\<open>for\<close> loop over \<^verbatim>\<open>allProjects\<close>. The request is awaited in the \<^verbatim>\<open>try\<close> of the
  function, with no \<^verbatim>\<open>try\<close> of its own: a rejected request leaves the loop by its
  exception. A response resolved with a status other than 200 is logged and the loop goes
  on. With the result come the project ids requested, in order.
\<close>

fun roleAssignmentsLoop ::
  "(string \<Rightarrow> included list reply) \<Rightarrow> project list \<Rightarrow> detail list \<Rightarrow> string list
     \<Rightarrow> (error + detail list) \<times> string list" where
  "roleAssignmentsLoop api [] allDetails requested = (Inr allDetails, requested)"
| "roleAssignmentsLoop api (project # rest) allDetails requested =
     (case settle (api (project_id project)) of
        Rejected \<Rightarrow> (Inl RequestRejected, requested @ [project_id project])
      | Resolved status incl \<Rightarrow>
          (if status = 200
           then roleAssignmentsLoop api rest
                  (allDetails @ usersOf project incl @ groupsOf project incl)
                  (requested @ [project_id project])
           else roleAssignmentsLoop api rest allDetails (requested @ [project_id project])))"


section \<open>The stages of the main script\<close>

text \<open>
  What a run finds around it, besides the files: the answers typed at the prompt, the
  parsed configuration file, what parsing \<^verbatim>\<open>projectList.json\<close> gives when the file is
  there, and the platform's answers to the authentication request and to the requests
  for each resource.
\<close>

record env =
  askQuestion :: "string \<Rightarrow> string"
  configFile :: config
  projectList :: "project list"
  auth_api :: "authRequest \<Rightarrow> authResponse reply"
  applications_api :: "nat \<Rightarrow> rawApplication list reply"
  projects_api :: "nat \<Rightarrow> rawProject list reply"
  roleAssignments_api :: "string \<Rightarrow> included list reply"
  branches_api :: "nat \<Rightarrow> branch list reply"

definition applicationsJsonQuery :: string where
  "applicationsJsonQuery = ''applicationsList.json already exists. Do you want to delete it? [ yes | no ]: ''"

definition applicationsCsvQuery :: string where
  "applicationsCsvQuery = ''applicationsList.csv already exists. Do you want to delete it? [ yes | no ]: ''"

definition branchesJsonQuery :: string where
  "branchesJsonQuery = ''branchesList.json already exists. Do you want to delete it? [ yes | no ]: ''"

definition applicationsSetup :: "env \<Rightarrow> state \<Rightarrow> (string \<times> string, application list) act" where
  "applicationsSetup env st =
     (let config = configFile env in
      andThen (ensureOutputDirectoryExists st) (\<lambda>_.
      andThen (confirmDelete st (askQuestion env) applicationsJsonQuery applicationsListPath) (\<lambda>_.
      andThen (confirmDelete st (askQuestion env) applicationsCsvQuery applicationsCsvPath) (\<lambda>_.
      andThen (if \<not> truthy (authUrlTemplate config) \<or> \<not> truthy (authUrlV2Template config)
                  \<or> \<not> truthy (applicationsUrlTemplate config) \<or> \<not> truthy (customer config)
               then (Throw MissingConfiguration, []) else (Next (), [])) (\<lambda>_.
      andThen (resolve (authUrlTemplate config) (customer config)) (\<lambda>authUrl.
      andThen (resolve (authUrlV2Template config) (customer config)) (\<lambda>authUrlV2.
      andThen (resolve (applicationsUrlTemplate config) (customer config)) (\<lambda>applicationsUrl.
      andThen (authenticate config authUrl authUrlV2 (auth_api env)) (\<lambda>token.
        (Next (hd (split CHR ''?'' applicationsUrl), token), []))))))))))"

text \<open>
  The function with its \<^verbatim>\<open>catch\<close> and its \<^verbatim>\<open>finally\<close>: whatever is thrown in the body,
  a rejected request of the loop included, is logged and the function returns the empty
  array; on every way out the readline interface is closed. (The stand-alone script
  \<^verbatim>\<open>getApplicationList.mjs\<close> has the same body and returns nothing.)
\<close>

definition fetchApplicationsWithAuth ::
  "env \<Rightarrow> state \<Rightarrow> (application list \<times> effect list) option" where
  "fetchApplicationsWithAuth env st =
     (case applicationsSetup env st of
        (Throw e, log) \<Rightarrow> Some ([], log @ [Close])
      | (Return r, log) \<Rightarrow> Some (r, log @ [Close])
      | (Next (baseApplicationsUrl, token), log) \<Rightarrow>
          map_option
            (\<lambda>(stop, allApplications, requested).
               let log' = log @ map (\<lambda>offset. Get (Page baseApplicationsUrl 25 offset) token) requested
               in if stop = Thrown then ([], log' @ [Close])
                  else (allApplications,
                        log' @ [WriteFile applicationsListPath, WriteFile applicationsCsvPath, Close]))
            (applicationsPages (applications_api env)))"

definition projectsSetup :: "env \<Rightarrow> (string \<times> string, project list) act" where
  "projectsSetup env =
     (let config = configFile env in
      andThen (resolve (authUrlTemplate config) (customer config)) (\<lambda>authUrl.
      andThen (resolve (authUrlV2Template config) (customer config)) (\<lambda>authUrlV2.
      andThen (resolve (projectsUrlTemplate config) (customer config)) (\<lambda>projectsUrl.
      andThen (authenticate config authUrl authUrlV2 (auth_api env)) (\<lambda>token.
        (Next (hd (split CHR ''?'' projectsUrl), token), []))))))"

text \<open>
  The projects stage reads the snapshot when it is there and fetches only when it is
  not. It has no prompt and does not close the readline interface.
\<close>

definition fetchProjectsWithAuth ::
  "env \<Rightarrow> state \<Rightarrow> (project list \<times> effect list) option" where
  "fetchProjectsWithAuth env st =
     (case ensureOutputDirectoryExists st of
        (Throw e, log) \<Rightarrow> Some ([], log)
      | (Return r, log) \<Rightarrow> Some (r, log)
      | (Next _, log) \<Rightarrow>
          (case files st projectListPath of
             Found \<Rightarrow> Some (projectList env, log)
           | AccessFailure \<Rightarrow> Some ([], log)
           | NoEntry \<Rightarrow>
               (case projectsSetup env of
                  (Throw e, log1) \<Rightarrow> Some ([], log @ log1)
                | (Return r, log1) \<Rightarrow> Some (r, log @ log1)
                | (Next (baseProjectsUrl, token), log1) \<Rightarrow>
                    map_option
                      (\<lambda>(stop, allProjects, requested).
                         let log' = log @ log1
                                    @ map (\<lambda>offset. Get (Page baseProjectsUrl 500 offset) token) requested
                         in if stop = Thrown then ([], log')
                            else (allProjects, log' @ [WriteFile projectListPath]))
                      (projectsPages (projects_api env)))))"

definition roleAssignmentsSetup :: "env \<Rightarrow> (string, detail list) act" where
  "roleAssignmentsSetup env =
     (let config = configFile env in
      andThen (resolve (authUrlTemplate config) (customer config)) (\<lambda>authUrl.
      andThen (resolve (authUrlV2Template config) (customer config)) (\<lambda>authUrlV2.
      authenticate config authUrl authUrlV2 (auth_api env))))"

text \<open>
  The role-assignments stage: when a request of its loop is rejected, the \<^verbatim>\<open>catch\<close> of the
  function returns the empty array and nothing is written. (In
  \<^verbatim>\<open>getProjectUserInformation.mjs\<close> the same loop ends the function \<^verbatim>\<open>fetchProjectsWithAuth\<close>,
  which returns nothing.)
\<close>

definition fetchRoleAssignments ::
  "env \<Rightarrow> project list \<Rightarrow> detail list \<times> effect list" where
  "fetchRoleAssignments env allProjects =
     (case roleAssignmentsSetup env of
        (Throw e, log) \<Rightarrow> ([], log)
      | (Return r, log) \<Rightarrow> (r, log)
      | (Next token, log) \<Rightarrow>
          (case roleAssignmentsLoop (roleAssignments_api env) allProjects [] [] of
             (result, requested) \<Rightarrow>
               (let log' = log @ map (\<lambda>projectId.
                                   Get (RoleAssignmentsOf (toStr (customer (configFile env))) projectId) token)
                                 requested
                in case result of
                     Inl e \<Rightarrow> ([], log')
                   | Inr allDetails \<Rightarrow>
                       (allDetails, log' @ [WriteFile detailsListPath, WriteFile detailsCsvPath]))))"

definition branchesSetup :: "env \<Rightarrow> state \<Rightarrow> (string \<times> string, branch list) act" where
  "branchesSetup env st =
     (let config = configFile env in
      andThen (ensureOutputDirectoryExists st) (\<lambda>_.
      andThen (confirmDelete st (askQuestion env) branchesJsonQuery branchesListPath) (\<lambda>_.
      let authUrl = map_option (\<lambda>t. replace t ''{customer}'' (toStr (customer config))) (authUrlTemplate config);
          authUrlV2 = map_option (\<lambda>t. replace t ''{customer}'' (toStr (customer config))) (authUrlV2Template config);
          branchesUrl =
            map_option (\<lambda>t. replace t ''{customer}'' (toStr (customer config))) (branchesUrlTemplate config)
      in
      andThen (if \<not> truthy authUrl \<or> \<not> truthy authUrlV2 \<or> \<not> truthy branchesUrl
               then (Throw MissingConfiguration, []) else (Next (), [])) (\<lambda>_.
      andThen (authenticate config (toStr authUrl) (toStr authUrlV2) (auth_api env)) (\<lambda>token.
        (Next (toStr branchesUrl, token), []))))))"

text \<open>
  The branches loop has a \<^verbatim>\<open>try\<close> of its own around the request: a rejected request ends
  the loop and the branches fetched so far are kept, written and returned. The function
  closes the readline interface in its \<^verbatim>\<open>finally\<close>.
\<close>

definition fetchBranchesWithAuth ::
  "env \<Rightarrow> state \<Rightarrow> (branch list \<times> effect list) option" where
  "fetchBranchesWithAuth env st =
     (case branchesSetup env st of
        (Throw e, log) \<Rightarrow> Some ([], log @ [Close])
      | (Return r, log) \<Rightarrow> Some (r, log @ [Close])
      | (Next (branchesUrl, token), log) \<Rightarrow>
          map_option
            (\<lambda>(stop, allBranches, requested).
               (allBranches,
                log @ map (\<lambda>offset. Get (BranchPage branchesUrl offset) token) requested
                    @ [WriteFile branchesListPath, Close]))
            (branchesPages (branches_api env)))"


section \<open>The orchestrator\<close>

text \<open>
  \<^verbatim>\<open>main\<close> calls the stages in order, each in the state that the stages before it have
  left, and returns as soon as one of them gives an empty array. It starts with the
  readline interface open. The model returns the calls made, in order and with their
  arguments, and the effects of the fetch stages; what \<^verbatim>\<open>associateProjectsToBranches\<close>
  does with its arguments is not part of it.
\<close>

datatype call =
    FetchApplications
  | FetchProjects
  | FetchRoleAssignments "project list"
  | FetchBranches
  | AssociateProjectsToBranches "project list" "branch list"

definition main :: "env \<Rightarrow> (string \<Rightarrow> access) \<Rightarrow> (call list \<times> effect list) option" where
  "main env fs =
     (let st = \<lparr>files = fs, rl_closed = False\<rparr> in
      case fetchApplicationsWithAuth env st of
        None \<Rightarrow> None
      | Some (allApplications, l1) \<Rightarrow>
          if length allApplications = 0 then Some ([FetchApplications], l1)
          else
            (case fetchProjectsWithAuth env (afterEffects l1 st) of
               None \<Rightarrow> None
             | Some (allProjects, l2) \<Rightarrow>
                 if length allProjects = 0 then Some ([FetchApplications, FetchProjects], l1 @ l2)
                 else
                   (case fetchRoleAssignments env allProjects of
                      (allDetails, l3) \<Rightarrow>
                        if length allDetails = 0
                        then Some ([FetchApplications, FetchProjects, FetchRoleAssignments allProjects],
                                   l1 @ l2 @ l3)
                        else
                          (case fetchBranchesWithAuth env (afterEffects (l1 @ l2 @ l3) st) of
                             None \<Rightarrow> None
                           | Some (allBranches, l4) \<Rightarrow>
                               if length allBranches = 0
                               then Some ([FetchApplications, FetchProjects,
                                           FetchRoleAssignments allProjects, FetchBranches],
                                          l1 @ l2 @ l3 @ l4)
                               else Some ([FetchApplications, FetchProjects,
                                           FetchRoleAssignments allProjects, FetchBranches,
                                           AssociateProjectsToBranches allProjects allBranches],
                                          l1 @ l2 @ l3 @ l4)))))"

section \<open>Correlator and report builder\<close>

text \<open>
  \<^verbatim>\<open>combineDataAndGenerateCsv\<close> of \<^verbatim>\<open>createReport.mjs\<close> joins the four snapshots. Its two
  lookup tables are plain objects indexed by project id, so the model has what a plain
  object does with a property name:
  \<^item> the own properties are enumerated with the array indices first, in ascending numeric
    order, then the other names in the order of their creation;
  \<^item> a name that is not an own property is looked up in the prototype, where
    \<^verbatim>\<open>Object.prototype\<close> has members of its own;
  \<^item> an assignment to \<^verbatim>\<open>__proto__\<close> creates no property: it makes an object the
    prototype and ignores any other value.
\<close>

definition objectPrototypeKeys :: "string list" where
  "objectPrototypeKeys =
     [''constructor'', ''__defineGetter__'', ''__defineSetter__'', ''hasOwnProperty'',
      ''__lookupGetter__'', ''__lookupSetter__'', ''isPrototypeOf'', ''propertyIsEnumerable'',
      ''toString'', ''valueOf'', ''__proto__'', ''toLocaleString'']"

definition isDigit :: "char \<Rightarrow> bool" where
  "isDigit c \<longleftrightarrow> c \<in> set ''0123456789''"

definition indexValue :: "string \<Rightarrow> nat" where
  "indexValue s = fold (\<lambda>c n. 10 * n + (of_char c - 48)) s 0"

text \<open>An array index is the canonical decimal string of an integer below \<open>2 ^ 32 - 1\<close>.\<close>

definition isArrayIndex :: "string \<Rightarrow> bool" where
  "isArrayIndex s \<longleftrightarrow>
     s \<noteq> [] \<and> list_all isDigit s \<and> (s = ''0'' \<or> hd s \<noteq> CHR ''0'') \<and> indexValue s < 4294967295"

definition propertyOrder :: "string list \<Rightarrow> string list" where
  "propertyOrder ks = sort_key indexValue (filter isArrayIndex ks) @ filter (\<lambda>k. \<not> isArrayIndex k) ks"

text \<open>\<^verbatim>\<open>Object.values\<close> of the own properties, kept in the order of their creation.\<close>

definition objectValues :: "(string \<times> 'v) list \<Rightarrow> 'v list" where
  "objectValues ps =
     map snd (sort_key (\<lambda>p. indexValue (fst p)) (filter (\<lambda>p. isArrayIndex (fst p)) ps)
              @ filter (\<lambda>p. \<not> isArrayIndex (fst p)) ps)"

record user =
  user_name :: string
  user_email :: string
  user_type :: string

record "group" =
  group_name :: string
  group_type :: string

record aggregate =
  projectName :: string
  projectId :: string
  projectType :: "string option"
  branches :: "string list"
  users :: "user list"
  groups :: "group list"

record projectMap =
  own :: "(string \<times> aggregate) list"
  proto :: "aggregate option"    \<comment> \<open>the aggregate assigned to \<^verbatim>\<open>__proto__\<close>, if any\<close>

definition setProject :: "string \<Rightarrow> aggregate \<Rightarrow> projectMap \<Rightarrow> projectMap" where
  \<comment> \<open>\<^verbatim>\<open>map[project.id] = { ... }\<close>\<close>
  "setProject k a m =
     (if k = ''__proto__'' then m\<lparr>proto := Some a\<rparr> else m\<lparr>own := AList.update k a (own m)\<rparr>)"

text \<open>
  What \<^verbatim>\<open>projectMap[k]\<close> is: an aggregate of the map, the aggregate that is its
  prototype, another truthy value (a member of \<^verbatim>\<open>Object.prototype\<close>, or a field of the
  prototype aggregate), none of which has \<^verbatim>\<open>branches\<close>, \<^verbatim>\<open>users\<close> or \<^verbatim>\<open>groups\<close>, or a
  falsy value.
\<close>

datatype member = Own aggregate | Prototype aggregate | Other | Falsy

definition inherited :: "string \<Rightarrow> member" where
  "inherited k = (if k \<in> set objectPrototypeKeys then Other else Falsy)"

definition getProject :: "projectMap \<Rightarrow> string \<Rightarrow> member" where
  "getProject m k =
     (case map_of (own m) k of
        Some a \<Rightarrow> Own a
      | None \<Rightarrow>
          (case proto m of
             None \<Rightarrow> inherited k
           | Some a \<Rightarrow>
               if k = ''__proto__'' then Prototype a
               else if k = ''projectName'' then (if projectName a = [] then Falsy else Other)
               else if k = ''projectId'' then (if projectId a = [] then Falsy else Other)
               else if k = ''type'' then (if truthy (projectType a) then Other else Falsy)
               else if k \<in> set [''branches'', ''users'', ''groups''] then Other
               else inherited k))"

definition putProject :: "string \<Rightarrow> member \<Rightarrow> aggregate \<Rightarrow> projectMap \<Rightarrow> projectMap" where
  \<comment> \<open>the aggregate found under \<open>k\<close> after a \<^verbatim>\<open>push\<close> on one of its arrays\<close>
  "putProject k found a m =
     (case found of
        Own _ \<Rightarrow> m\<lparr>own := AList.update k a (own m)\<rparr>
      | Prototype _ \<Rightarrow> m\<lparr>proto := Some a\<rparr>
      | _ \<Rightarrow> m)"

definition addBranch :: "projectMap \<Rightarrow> branch \<Rightarrow> error + projectMap" where
  "addBranch m b =
     (case getProject m (branch_project b) of
        Falsy \<Rightarrow> Inr m
      | Other \<Rightarrow> Inl TypeError
      | Own a \<Rightarrow>
          Inr (putProject (branch_project b) (Own a) (a\<lparr>branches := branches a @ [branch_name b]\<rparr>) m)
      | Prototype a \<Rightarrow>
          Inr (putProject (branch_project b) (Prototype a) (a\<lparr>branches := branches a @ [branch_name b]\<rparr>) m))"

definition pushDetail :: "detail \<Rightarrow> aggregate \<Rightarrow> aggregate" where
  "pushDetail d a =
     (if detail_userType d = ''User''
      then a\<lparr>users := users a @ [\<lparr>user_name = detail_name d, user_email = detail_email d,
                                  user_type = ''Individual User''\<rparr>]\<rparr>
      else if detail_userType d = ''GroupName''
      then a\<lparr>groups := groups a @ [\<lparr>group_name = detail_name d, group_type = ''Group''\<rparr>]\<rparr>
      else a)"

definition addDetail :: "projectMap \<Rightarrow> detail \<Rightarrow> error + projectMap" where
  "addDetail m d =
     (case getProject m (detail_projectId d) of
        Falsy \<Rightarrow> Inr m
      | Other \<Rightarrow>
          (if detail_userType d = ''User'' \<or> detail_userType d = ''GroupName''
           then Inl TypeError else Inr m)
      | Own a \<Rightarrow> Inr (putProject (detail_projectId d) (Own a) (pushDetail d a) m)
      | Prototype a \<Rightarrow> Inr (putProject (detail_projectId d) (Prototype a) (pushDetail d a) m))"

text \<open>\<^verbatim>\<open>forEach\<close> with a callback that may throw.\<close>

fun forEach :: "('s \<Rightarrow> 'a \<Rightarrow> error + 's) \<Rightarrow> 'a list \<Rightarrow> 's \<Rightarrow> error + 's" where
  "forEach f [] s = Inr s"
| "forEach f (x # xs) s = (case f s x of Inl e \<Rightarrow> Inl e | Inr s' \<Rightarrow> forEach f xs s')"

definition initialAggregate :: "project \<Rightarrow> aggregate" where
  "initialAggregate project =
     \<lparr>projectName = project_name project, projectId = project_id project,
      projectType = project_type project, branches = [], users = [], groups = []\<rparr>"

definition buildProjectMap :: "project list \<Rightarrow> projectMap" where
  \<comment> \<open>\<^verbatim>\<open>allProjects.reduce(..., {})\<close>\<close>
  "buildProjectMap allProjects =
     fold (\<lambda>project m. setProject (project_id project) (initialAggregate project) m) allProjects
       \<lparr>own = [], proto = None\<rparr>"

text \<open>
  \<^verbatim>\<open>applicationMap\<close>: its values are strings, so an assignment to \<^verbatim>\<open>__proto__\<close> changes
  nothing, and its prototype stays \<^verbatim>\<open>Object.prototype\<close>.
\<close>

definition setApplication :: "projectMap \<Rightarrow> string \<Rightarrow> (string \<rightharpoonup> string) \<Rightarrow> string \<Rightarrow> (string \<rightharpoonup> string)" where
  "setApplication m name am k =
     (if getProject m k \<noteq> Falsy \<and> k \<noteq> ''__proto__'' then am(k \<mapsto> name) else am)"

definition buildApplicationMap :: "projectMap \<Rightarrow> application list \<Rightarrow> (string \<rightharpoonup> string)" where
  "buildApplicationMap m allApplications =
     fold (\<lambda>application am. fold (\<lambda>k am'. setApplication m (app_name application) am' k)
                                (app_projects application) am)
       allApplications Map.empty"

text \<open>
  A cell of the report is a string; under a project whose id names a member of
  \<^verbatim>\<open>Object.prototype\<close> the application name is that member instead.
\<close>

datatype cell = Text string | Member string

definition applicationNameOf :: "(string \<rightharpoonup> string) \<Rightarrow> string \<Rightarrow> cell" where
  \<comment> \<open>\<^verbatim>\<open>applicationMap[project.projectId] || 'No Application Name'\<close>\<close>
  "applicationNameOf am k =
     (case am k of
        Some name \<Rightarrow> (if name \<noteq> [] then Text name else Text ''No Application Name'')
      | None \<Rightarrow> (if k \<in> set objectPrototypeKeys then Member k else Text ''No Application Name''))"

definition branchSlots :: "string list \<Rightarrow> string list" where
  \<comment> \<open>\<^verbatim>\<open>slice(0, maxBranches)\<close>, then \<^verbatim>\<open>push('')\<close> while shorter than \<^verbatim>\<open>maxBranches\<close>\<close>
  "branchSlots bs = (let b = take 5 bs in b @ replicate (5 - length b) [])"

record row =
  row_applicationName :: cell
  row_projectName :: string
  row_projectId :: string
  row_type :: string
  row_name :: string
  row_email :: string
  row_branchNames :: "string list"    \<comment> \<open>\<^verbatim>\<open>branchName1\<close>, \<^verbatim>\<open>branchName2\<close>, ... in order\<close>

definition projectRows :: "(string \<rightharpoonup> string) \<Rightarrow> aggregate \<Rightarrow> row list" where
  "projectRows am project =
     (let slots = branchSlots (branches project);
          applicationName = applicationNameOf am (projectId project)
      in map (\<lambda>user. \<lparr>row_applicationName = applicationName, row_projectName = projectName project,
                       row_projectId = projectId project, row_type = user_type user,
                       row_name = user_name user, row_email = user_email user,
                       row_branchNames = slots\<rparr>) (users project)
         @ map (\<lambda>group. \<lparr>row_applicationName = applicationName, row_projectName = projectName project,
                          row_projectId = projectId project, row_type = group_type group,
                          row_name = group_name group, row_email = '''',
                          row_branchNames = slots\<rparr>) (groups project))"

text \<open>
  The rows handed to the CSV writer, or the error that the \<^verbatim>\<open>catch\<close> of the function
  logs instead of writing the report. The arguments are the parsed snapshots:
  \<^verbatim>\<open>projectList.json\<close>, \<^verbatim>\<open>userDetailsList.json\<close>, the \<^verbatim>\<open>data\<close> of \<^verbatim>\<open>branchesList.json\<close> and
  \<^verbatim>\<open>applicationsList.json\<close>.
\<close>

definition combineDataAndGenerateCsv ::
  "project list \<Rightarrow> detail list \<Rightarrow> branch list \<Rightarrow> application list \<Rightarrow> error + row list" where
  "combineDataAndGenerateCsv allProjects allDetails allBranches allApplications =
     (case forEach addBranch allBranches (buildProjectMap allProjects) of
        Inl e \<Rightarrow> Inl e
      | Inr m1 \<Rightarrow>
          (case forEach addDetail allDetails m1 of
             Inl e \<Rightarrow> Inl e
           | Inr m2 \<Rightarrow>
               Inr (concat (map (projectRows (buildApplicationMap m2 allApplications))
                                (objectValues (own m2))))))"


section \<open>Concrete inputs\<close>

text \<open>Platforms, configurations, files and snapshots at which the statements below are evaluated.\<close>

definition sampleApplication :: rawApplication where
  "sampleApplication = \<lparr>ra_id = ''a1'', ra_name = ''A'', ra_description = '''', ra_projects = [''P1'']\<rparr>"

definition sampleProject :: rawProject where
  "sampleProject =
     \<lparr>rp_id = ''P1'', rp_name = ''proj'', rp_type = None, rp_properties = [], rp_branches = ''/branches''\<rparr>"

definition sampleBranch :: branch where
  "sampleBranch = \<lparr>branch_name = ''main'', branch_project = ''P1''\<rparr>"

definition listedProject :: "string \<Rightarrow> project" where
  "listedProject k =
     \<lparr>project_id = k, project_name = ''proj'', project_type = None, project_properties = None,
      project_branches = None\<rparr>"

text \<open>A platform that ignores the page size and answers 26 applications.\<close>

definition oversizedPage :: "nat \<Rightarrow> rawApplication list reply" where
  "oversizedPage offset = Response 200 (replicate 26 sampleApplication)"

text \<open>The given items at offset 0 and none after them.\<close>

definition itemsAtZero :: "'a list \<Rightarrow> nat \<Rightarrow> 'a list reply" where
  "itemsAtZero items offset = (if offset = 0 then Response 200 items else Response 200 [])"

text \<open>A full page of the stage's size at offset 0, and nothing after it.\<close>

definition onePageOf :: "nat \<Rightarrow> 'a \<Rightarrow> nat \<Rightarrow> 'a list reply" where
  "onePageOf n item offset = (if offset = 0 then Response 200 (replicate n item) else Response 200 [])"

text \<open>A full page at offset 0, then the status 503 (Service Unavailable).\<close>

definition pageThenUnavailable :: "nat \<Rightarrow> 'a \<Rightarrow> nat \<Rightarrow> 'a list reply" where
  "pageThenUnavailable n item offset =
     (if offset = 0 then Response 200 (replicate n item) else Response 503 [])"

definition sampleConfig :: config where
  "sampleConfig =
     \<lparr>customer = Some ''acme'', email = Some ''me@acme.com'', password = None,
      accesstoken = Some ''key'',
      authUrlTemplate = Some ''h://{customer}/v1'',
      authUrlV2Template = Some ''h://{customer}/v2'',
      applicationsUrlTemplate = Some ''h://{customer}/apps?x'',
      projectsUrlTemplate = Some ''h://{customer}/projects?x'',
      branchesUrlTemplate = Some ''h://{customer}/branches/{offset}''\<rparr>"

text \<open>Configurations with a password, with a password of one space, and with no credentials.\<close>

definition passwordConfig :: config where
  "passwordConfig = sampleConfig\<lparr>password := Some ''secret''\<rparr>"

definition blankPasswordConfig :: config where
  "blankPasswordConfig = sampleConfig\<lparr>password := Some '' ''\<rparr>"

definition noCredentialsConfig :: config where
  "noCredentialsConfig = sampleConfig\<lparr>password := Some '''', accesstoken := None\<rparr>"

text \<open>
  Authentication responses: the token in a cookie, in the body only, nowhere, and in a
  cookie whose value has an equals sign.
\<close>

definition cookieResponse :: authResponse where
  "cookieResponse = \<lparr>set_cookie = Some [''sid=1'', ''access_token=abc; Path=/''], jwt = Some ''J''\<rparr>"

definition bodyResponse :: authResponse where
  "bodyResponse = \<lparr>set_cookie = None, jwt = Some ''J''\<rparr>"

definition emptyResponse :: authResponse where
  "emptyResponse = \<lparr>set_cookie = Some [''sid=1''], jwt = None\<rparr>"

definition paddedResponse :: authResponse where
  "paddedResponse = \<lparr>set_cookie = Some [''access_token=YWJjZA==; Path=/''], jwt = None\<rparr>"

definition cookieAuth :: "authRequest \<Rightarrow> authResponse reply" where
  "cookieAuth request = Response 200 cookieResponse"

definition emptyAuth :: "authRequest \<Rightarrow> authResponse reply" where
  "emptyAuth request = Response 200 emptyResponse"

definition paddedAuth :: "authRequest \<Rightarrow> authResponse reply" where
  "paddedAuth request = Response 200 paddedResponse"

text \<open>Role assignments: a user and a group on every project.\<close>

definition aliceAndQA :: "included list" where
  "aliceAndQA =
     [\<lparr>inc_type = ''users'', inc_name = ''Alice'', inc_email = ''alice@x.com'', inc_groupname = ''''\<rparr>,
      \<lparr>inc_type = ''groups'', inc_name = '''', inc_email = '''', inc_groupname = ''QA''\<rparr>]"

definition rolesOfAll :: "string \<Rightarrow> included list reply" where
  "rolesOfAll k = Response 200 aliceAndQA"

text \<open>The same, with the status 403 (Forbidden) for the project \<^verbatim>\<open>P2\<close>.\<close>

definition rolesForbiddenP2 :: "string \<Rightarrow> included list reply" where
  "rolesForbiddenP2 k = (if k = ''P2'' then Response 403 [] else Response 200 aliceAndQA)"

text \<open>The same, with no role assignment on the project \<^verbatim>\<open>P2\<close>.\<close>

definition rolesNoneP2 :: "string \<Rightarrow> included list reply" where
  "rolesNoneP2 k = (if k = ''P2'' then Response 200 [] else Response 200 aliceAndQA)"

text \<open>
  A run in which every stage has something to return: one application, one project, a
  user and a group on it, one branch. The answer at every prompt is \<^verbatim>\<open>no\<close>.
\<close>

definition sampleEnv :: env where
  "sampleEnv =
     \<lparr>askQuestion = (\<lambda>query. ''no''), configFile = sampleConfig,
      projectList = [listedProject ''P1''], auth_api = cookieAuth,
      applications_api = itemsAtZero [sampleApplication],
      projects_api = itemsAtZero [sampleProject],
      roleAssignments_api = rolesOfAll,
      branches_api = itemsAtZero [sampleBranch]\<rparr>"

text \<open>The output directory is there and empty; then with one file in it.\<close>

definition emptyOutput :: "string \<Rightarrow> access" where
  "emptyOutput path = (if path = outputDirectory then Found else NoEntry)"

definition outputWith :: "string \<Rightarrow> string \<Rightarrow> access" where
  "outputWith file path = (if path = outputDirectory \<or> path = file then Found else NoEntry)"

definition applicationsOutput :: "string \<Rightarrow> access" where
  "applicationsOutput path =
     (if path = outputDirectory \<or> path = applicationsListPath \<or> path = applicationsCsvPath
      then Found else NoEntry)"

text \<open>The answer \<^verbatim>\<open>yes\<close> at the prompt for \<^verbatim>\<open>applicationsList.json\<close>, and \<^verbatim>\<open>no\<close> at the others.\<close>

definition yesToJsonEnv :: env where
  "yesToJsonEnv =
     sampleEnv\<lparr>askQuestion := (\<lambda>query. if query = applicationsJsonQuery then ''yes'' else ''no'')\<rparr>"

text \<open>Platforms on which the second page of a resource, or one project, is not served.\<close>

definition unavailableEnv :: env where
  "unavailableEnv =
     sampleEnv\<lparr>applications_api := pageThenUnavailable 25 sampleApplication,
               projects_api := pageThenUnavailable 500 sampleProject,
               branches_api := pageThenUnavailable 500 sampleBranch\<rparr>"

definition forbiddenEnv :: env where
  "forbiddenEnv = sampleEnv\<lparr>roleAssignments_api := rolesForbiddenP2\<rparr>"

definition noneEnv :: env where
  "noneEnv = sampleEnv\<lparr>roleAssignments_api := rolesNoneP2\<rparr>"

definition noCredentialsEnv :: env where
  "noCredentialsEnv = sampleEnv\<lparr>configFile := noCredentialsConfig\<rparr>"

definition emptyAuthEnv :: env where
  "emptyAuthEnv = sampleEnv\<lparr>auth_api := emptyAuth\<rparr>"

definition paddedAuthEnv :: env where
  "paddedAuthEnv = sampleEnv\<lparr>auth_api := paddedAuth\<rparr>"

text \<open>Platforms with no project, and with no role assignment at all.\<close>

definition noProjectsEnv :: env where
  "noProjectsEnv = sampleEnv\<lparr>projects_api := itemsAtZero []\<rparr>"

definition noRolesEnv :: env where
  "noRolesEnv = sampleEnv\<lparr>roleAssignments_api := (\<lambda>k. Response 200 [])\<rparr>"

definition noBranchesEnv :: env where
  "noBranchesEnv = sampleEnv\<lparr>branches_api := itemsAtZero []\<rparr>"

text \<open>The effects of the four fetch stages in the run of \<open>sampleEnv\<close> on the empty output.\<close>

definition applicationsLog :: "effect list" where
  "applicationsLog =
     [Post \<lparr>auth_url = ''h://acme/v2'',
            auth_data = [(''email'', ''me@acme.com''), (''accesstoken'', ''key'')]\<rparr>,
      Get (Page ''h://acme/apps'' 25 0) ''abc'',
      WriteFile applicationsListPath, WriteFile applicationsCsvPath, Close]"

definition projectsLog :: "effect list" where
  "projectsLog =
     [Post \<lparr>auth_url = ''h://acme/v2'',
            auth_data = [(''email'', ''me@acme.com''), (''accesstoken'', ''key'')]\<rparr>,
      Get (Page ''h://acme/projects'' 500 0) ''abc'',
      WriteFile projectListPath]"

definition rolesLog :: "effect list" where
  "rolesLog =
     [Post \<lparr>auth_url = ''h://acme/v2'',
            auth_data = [(''email'', ''me@acme.com''), (''accesstoken'', ''key'')]\<rparr>,
      Get (RoleAssignmentsOf ''acme'' ''P1'') ''abc'',
      WriteFile detailsListPath, WriteFile detailsCsvPath]"

definition branchesLog :: "effect list" where
  "branchesLog =
     [Post \<lparr>auth_url = ''h://acme/v2'',
            auth_data = [(''email'', ''me@acme.com''), (''accesstoken'', ''key'')]\<rparr>,
      Get (BranchPage ''h://acme/branches/{offset}'' 0) ''abc'',
      WriteFile branchesListPath, Close]"

section \<open>The report, project by project\<close>

text \<open>
  What \<^verbatim>\<open>combineDataAndGenerateCsv\<close> builds, stated on the snapshots instead of the project
  map. The ids that become properties of the project map are the distinct ids of the
  project snapshot in the order of their first appearance, the id \<^verbatim>\<open>__proto__\<close> left out:
  an assignment to \<^verbatim>\<open>__proto__\<close> creates no property, so a project with this id is not
  among the values of the map. The name of a project is that of the last snapshot entry
  with its id.
\<close>

definition firstSeen :: "'a list \<Rightarrow> 'a list" where
  "firstSeen xs = rev (remdups (rev xs))"

definition ownProjectIds :: "project list \<Rightarrow> string list" where
  "ownProjectIds allProjects = firstSeen (filter (\<lambda>k. k \<noteq> ''__proto__'') (map project_id allProjects))"

definition projectOf :: "project list \<Rightarrow> string \<Rightarrow> project" where
  "projectOf allProjects k = last (filter (\<lambda>p. project_id p = k) allProjects)"

definition branchesOf :: "branch list \<Rightarrow> string \<Rightarrow> string list" where
  "branchesOf allBranches k = map branch_name (filter (\<lambda>b. branch_project b = k) allBranches)"

definition principalsOf :: "string \<Rightarrow> detail list \<Rightarrow> string \<Rightarrow> detail list" where
  "principalsOf kind allDetails k =
     filter (\<lambda>d. detail_projectId d = k \<and> detail_userType d = kind) allDetails"

text \<open>The applications that list a project, in snapshot order; the last one names it.\<close>

definition listing :: "application list \<Rightarrow> string \<Rightarrow> application list" where
  "listing allApplications k = filter (\<lambda>a. k \<in> set (app_projects a)) allApplications"

definition applicationCell :: "application list \<Rightarrow> string \<Rightarrow> cell" where
  "applicationCell allApplications k =
     (case rev (listing allApplications k) of
        [] \<Rightarrow> (if k \<in> set objectPrototypeKeys then Member k else Text ''No Application Name'')
      | a # _ \<Rightarrow> (if app_name a \<noteq> [] then Text (app_name a) else Text ''No Application Name''))"

definition rowsOfProject ::
  "project list \<Rightarrow> detail list \<Rightarrow> branch list \<Rightarrow> application list \<Rightarrow> string \<Rightarrow> row list" where
  "rowsOfProject allProjects allDetails allBranches allApplications k =
     map (\<lambda>d. \<lparr>row_applicationName = applicationCell allApplications k,
                row_projectName = project_name (projectOf allProjects k),
                row_projectId = k, row_type = ''Individual User'',
                row_name = detail_name d, row_email = detail_email d,
                row_branchNames = branchSlots (branchesOf allBranches k)\<rparr>)
         (principalsOf ''User'' allDetails k)
     @ map (\<lambda>d. \<lparr>row_applicationName = applicationCell allApplications k,
                  row_projectName = project_name (projectOf allProjects k),
                  row_projectId = k, row_type = ''Group'',
                  row_name = detail_name d, row_email = '''',
                  row_branchNames = branchSlots (branchesOf allBranches k)\<rparr>)
           (principalsOf ''GroupName'' allDetails k)"

definition reportRows ::
  "project list \<Rightarrow> detail list \<Rightarrow> branch list \<Rightarrow> application list \<Rightarrow> row list" where
  "reportRows allProjects allDetails allBranches allApplications =
     concat (map (rowsOfProject allProjects allDetails allBranches allApplications)
                 (propertyOrder (ownProjectIds allProjects)))"

text \<open>Snapshots for the report.\<close>

definition userDetail :: "string \<Rightarrow> string \<Rightarrow> string \<Rightarrow> detail" where
  "userDetail k n e =
     \<lparr>detail_projectName = ''proj'', detail_projectId = k, detail_userType = ''User'',
      detail_name = n, detail_email = e\<rparr>"

definition groupDetail :: "string \<Rightarrow> string \<Rightarrow> detail" where
  "groupDetail k n =
     \<lparr>detail_projectName = ''proj'', detail_projectId = k, detail_userType = ''GroupName'',
      detail_name = n, detail_email = ''''\<rparr>"

definition branchOn :: "string \<Rightarrow> string \<Rightarrow> branch" where
  "branchOn k n = \<lparr>branch_name = n, branch_project = k\<rparr>"

definition applicationNamed :: "string \<Rightarrow> string list \<Rightarrow> application" where
  "applicationNamed n ks = \<lparr>app_id = ''a1'', app_name = n, app_description = '''', app_projects = ks\<rparr>"

definition sevenBranches :: "branch list" where
  "sevenBranches = map (branchOn ''P1'') [''b1'', ''b2'', ''b3'', ''b4'', ''b5'', ''b6'', ''b7'']"

definition threeBranches :: "branch list" where
  "threeBranches = map (branchOn ''P1'') [''b1'', ''b2'', ''b3'']"



section \<open>Verified properties\<close>

subsection \<open>The pagination loop\<close>

lemma pageLoop_full:
  "fullPage limit (api offset) \<Longrightarrow>
   pageLoop limit f api offset all req =
   pageLoop limit f api (offset + limit) (all @ map f (received (api offset))) (req @ [offset])"
  by (subst pageLoop.simps) (auto simp: fullPage_def received_def settle_def split: reply.splits settled.splits)

lemma pageLoop_stop:
  "\<not> fullPage limit (api offset) \<Longrightarrow>
   pageLoop limit f api offset all req =
   Some (stopOf (api offset), all @ map f (received (api offset)), req @ [offset])"
  by (subst pageLoop.simps) (auto simp: fullPage_def received_def stopOf_def settle_def split: reply.splits settled.splits)

lemma pageLoop_unroll:
  "(\<And>j. j < k \<Longrightarrow> fullPage limit (api (offset + j * limit))) \<Longrightarrow>
   pageLoop limit f api offset all req =
   pageLoop limit f api (offset + k * limit)
     (all @ concat (map (\<lambda>j. map f (received (api (offset + j * limit)))) [0..<k]))
     (req @ map (\<lambda>j. offset + j * limit) [0..<k])"
proof (induction k)
  case 0
  then show ?case by simp
next
  case (Suc k)
  have full: "fullPage limit (api (offset + k * limit))" using Suc.prems by simp
  have "pageLoop limit f api offset all req =
        pageLoop limit f api (offset + k * limit)
          (all @ concat (map (\<lambda>j. map f (received (api (offset + j * limit)))) [0..<k]))
          (req @ map (\<lambda>j. offset + j * limit) [0..<k])"
    using Suc.IH Suc.prems by simp
  also have "\<dots> = pageLoop limit f api (offset + Suc k * limit)
          (all @ concat (map (\<lambda>j. map f (received (api (offset + j * limit)))) [0..<Suc k]))
          (req @ map (\<lambda>j. offset + j * limit) [0..<Suc k])"
    by (subst pageLoop_full [of limit api "offset + k * limit", OF full])
       (simp add: add.commute add.left_commute)
  finally show ?case .
qed

text \<open>A loop that returns has met a page that is not full.\<close>

lemma pageLoop_Some_stops:
  assumes "pageLoop limit f api offset all req = Some r"
  shows "\<exists>k. \<not> fullPage limit (api (offset + k * limit))"
proof (rule pageLoop.raw_induct
    [where P = "\<lambda>limit f api offset all req r. \<exists>k. \<not> fullPage limit (api (offset + k * limit))",
      OF _ assms], goal_cases)
  case (1 loop limit f api offset all req r)
  show ?case
  proof (cases "fullPage limit (api offset)")
    case False
    then have "\<not> fullPage limit (api (offset + 0 * limit))" by simp
    then show ?thesis by blast
  next
    case True
    then obtain data where d: "settle (api offset) = Resolved 200 data" "length data = limit"
      by (auto simp: fullPage_def split: settled.splits)
    with 1(2) have "loop limit f api (offset + limit) (all @ map f data) (req @ [offset]) = Some r"
      by simp
    then have "\<exists>k. \<not> fullPage limit (api (offset + limit + k * limit))" by (rule 1(1))
    then obtain k where "\<not> fullPage limit (api (offset + limit + k * limit))" by blast
    then have "\<not> fullPage limit (api (offset + Suc k * limit))" by (simp add: add.assoc)
    then show ?thesis by blast
  qed
qed

text \<open>The loop returns at the first page that is not full, with everything up to it.\<close>

lemma pageLoop_least:
  assumes "\<not> fullPage limit (api (offset + k * limit))"
  shows "\<exists>n\<le>k. (\<forall>j<n. fullPage limit (api (offset + j * limit)))
          \<and> \<not> fullPage limit (api (offset + n * limit))
          \<and> pageLoop limit f api offset all req =
              Some (stopOf (api (offset + n * limit)),
                    all @ concat (map (\<lambda>j. map f (received (api (offset + j * limit)))) [0..<Suc n]),
                    req @ map (\<lambda>j. offset + j * limit) [0..<Suc n])"
proof -
  define n where "n = (LEAST m. \<not> fullPage limit (api (offset + m * limit)))"
  have stop: "\<not> fullPage limit (api (offset + n * limit))"
    unfolding n_def using assms by (rule LeastI)
  have le: "n \<le> k" unfolding n_def using assms by (rule Least_le)
  have full: "\<And>j. j < n \<Longrightarrow> fullPage limit (api (offset + j * limit))"
    unfolding n_def using not_less_Least by blast
  have "pageLoop limit f api offset all req =
        pageLoop limit f api (offset + n * limit)
          (all @ concat (map (\<lambda>j. map f (received (api (offset + j * limit)))) [0..<n]))
          (req @ map (\<lambda>j. offset + j * limit) [0..<n])"
    using full by (rule pageLoop_unroll)
  also have "\<dots> = Some (stopOf (api (offset + n * limit)),
                    all @ concat (map (\<lambda>j. map f (received (api (offset + j * limit)))) [0..<Suc n]),
                    req @ map (\<lambda>j. offset + j * limit) [0..<Suc n])"
    by (subst pageLoop_stop [of limit api "offset + n * limit", OF stop]) simp
  finally show ?thesis using stop le full by blast
qed

lemma pageLoop_result:
  assumes "pageLoop limit f api 0 [] [] = Some (stop, items, requested)"
  shows "\<exists>k. requested = map (\<lambda>j. j * limit) [0..<Suc k]
           \<and> (\<forall>j<k. fullPage limit (api (j * limit)))
           \<and> \<not> fullPage limit (api (k * limit))
           \<and> stop = stopOf (api (k * limit))
           \<and> items = concat (map (\<lambda>j. map f (received (api (j * limit)))) [0..<Suc k])"
proof -
  from pageLoop_Some_stops [OF assms] obtain k where "\<not> fullPage limit (api (0 + k * limit))"
    by blast
  then have "\<exists>n\<le>k. (\<forall>j<n. fullPage limit (api (0 + j * limit)))
          \<and> \<not> fullPage limit (api (0 + n * limit))
          \<and> pageLoop limit f api 0 [] [] =
              Some (stopOf (api (0 + n * limit)),
                    [] @ concat (map (\<lambda>j. map f (received (api (0 + j * limit)))) [0..<Suc n]),
                    [] @ map (\<lambda>j. 0 + j * limit) [0..<Suc n])"
    by (rule pageLoop_least)
  with assms show ?thesis
    by auto
qed

lemma length_concat_map:
  "length (concat (map (\<lambda>j. map f (g j)) js)) = sum_list (map (\<lambda>j. length (g j)) js)"
  by (induction js) simp_all

text \<open>The loop returns as soon as some request meets a page that is not full.\<close>

lemma pageLoop_returns:
  assumes "\<not> fullPage limit (api (n * limit))"
  shows "\<exists>r. pageLoop limit format api 0 [] [] = Some r"
proof -
  from assms have "\<not> fullPage limit (api (0 + n * limit))" by simp
  then have "\<exists>m\<le>n. (\<forall>j<m. fullPage limit (api (0 + j * limit)))
          \<and> \<not> fullPage limit (api (0 + m * limit))
          \<and> pageLoop limit format api 0 [] [] =
              Some (stopOf (api (0 + m * limit)),
                    [] @ concat (map (\<lambda>j. map format (received (api (0 + j * limit)))) [0..<Suc m]),
                    [] @ map (\<lambda>j. 0 + j * limit) [0..<Suc m])"
    by (rule pageLoop_least)
  then show ?thesis by blast
qed

subsection \<open>The stages on the concrete inputs\<close>

lemmas path_defs = outputDirectory_def projectListPath_def detailsListPath_def detailsCsvPath_def
  branchesListPath_def applicationsListPath_def applicationsCsvPath_def

lemmas stage_eval =
  applicationsSetup_def projectsSetup_def roleAssignmentsSetup_def branchesSetup_def Let_def
  andThen_def ensureOutputDirectoryExists_def confirmDelete_def truthy_def resolve_def replace_def
  toStr_def authenticate_def authConfig_def provided_def trim_def isWhiteSpace_def settle_def
  validateStatus_def sampleEnv_def sampleConfig_def cookieAuth_def emptyOutput_def outputWith_def
  outputDirectory_def projectListPath_def detailsListPath_def detailsCsvPath_def branchesListPath_def
  applicationsListPath_def applicationsCsvPath_def

lemma cookieToken_cookieResponse: "cookieToken cookieResponse = Some ''abc''"
  by (simp add: cookieToken_def cookieResponse_def startsWith_def at_def)

lemma extractToken_cookieResponse: "extractToken cookieResponse = Inr ''abc''"
  by (simp add: extractToken_def cookieToken_cookieResponse truthy_def toStr_def)

lemma declines_no: "declines ''no''"
  by code_simp

lemma not_declines_yes: "\<not> declines ''yes''"
  by code_simp

lemma pageLoop_itemsAtZero:
  "length items \<noteq> n \<Longrightarrow>
   pageLoop n f (itemsAtZero items) 0 [] [] = Some (LastPage, map f items, [0])"
  by (simp add: pageLoop.simps itemsAtZero_def settle_def validateStatus_def)

lemma pageLoop_pageThenUnavailable:
  "0 < n \<Longrightarrow>
   pageLoop n f (pageThenUnavailable n item) 0 [] [] = Some (Thrown, replicate n (f item), [0, n])"
  by (simp add: pageLoop.simps pageThenUnavailable_def settle_def validateStatus_def)

text \<open>
  A request is rejected when the platform answers it with a status outside 200 to 299,
  or not at all; the loop that meets a rejected request ends by \<open>Thrown\<close>.
\<close>

lemma settle_Rejected:
  "settle (Response status data) = Rejected \<longleftrightarrow> \<not> (200 \<le> status \<and> status < 300)"
  "settle (NoResponse :: 'a reply) = Rejected"
  by (simp_all add: settle_def validateStatus_def)

lemma stopOf_Thrown: "stopOf r = Thrown \<longleftrightarrow> settle r = Rejected"
  by (simp add: stopOf_def split: settled.splits)

text \<open>
  What the stages do with the outcome of their loop: the applications stage and the
  projects stage drop the accumulated items after a rejected request, the branches stage
  keeps them.
\<close>

lemma applications_stage_outcome:
  assumes "applicationsSetup env st = (Next (base, token), log)"
    "applicationsPages (applications_api env) = Some (stop, items, offsets)"
  shows "fetchApplicationsWithAuth env st
           = Some (if stop = Thrown then [] else items,
                   log @ map (\<lambda>offset. Get (Page base 25 offset) token) offsets
                   @ (if stop = Thrown then [Close]
                      else [WriteFile applicationsListPath, WriteFile applicationsCsvPath, Close]))"
  using assms by (simp add: fetchApplicationsWithAuth_def Let_def)

lemma projects_stage_outcome:
  assumes "files st outputDirectory = Found" "files st projectListPath = NoEntry"
    "projectsSetup env = (Next (base, token), log)"
    "projectsPages (projects_api env) = Some (stop, items, offsets)"
  shows "fetchProjectsWithAuth env st
           = Some (if stop = Thrown then [] else items,
                   log @ map (\<lambda>offset. Get (Page base 500 offset) token) offsets
                   @ (if stop = Thrown then [] else [WriteFile projectListPath]))"
  using assms by (simp add: fetchProjectsWithAuth_def ensureOutputDirectoryExists_def Let_def)

lemma branches_stage_outcome:
  assumes "branchesSetup env st = (Next (url, token), log)"
    "branchesPages (branches_api env) = Some (stop, items, offsets)"
  shows "fetchBranchesWithAuth env st
           = Some (items,
                   log @ map (\<lambda>offset. Get (BranchPage url offset) token) offsets
                   @ [WriteFile branchesListPath, Close])"
  using assms by (simp add: fetchBranchesWithAuth_def)

text \<open>The stages of the sample runs.\<close>

lemma roleAssignmentsSetup_sample:
  "configFile env = sampleConfig \<Longrightarrow> auth_api env = cookieAuth \<Longrightarrow>
   roleAssignmentsSetup env
     = (Next ''abc'',
        [Post \<lparr>auth_url = ''h://acme/v2'',
               auth_data = [(''email'', ''me@acme.com''), (''accesstoken'', ''key'')]\<rparr>])"
  by (simp add: roleAssignmentsSetup_def Let_def andThen_def resolve_def replace_def toStr_def
      truthy_def authenticate_def authConfig_def provided_def trim_def isWhiteSpace_def settle_def
      validateStatus_def sampleConfig_def cookieAuth_def extractToken_cookieResponse)

lemma sample_setups:
  assumes "configFile env = sampleConfig" "auth_api env = cookieAuth"
  shows "files st outputDirectory = Found \<Longrightarrow> files st applicationsListPath = NoEntry \<Longrightarrow>
         files st applicationsCsvPath = NoEntry \<Longrightarrow>
         applicationsSetup env st
           = (Next (''h://acme/apps'', ''abc''),
              [Post \<lparr>auth_url = ''h://acme/v2'',
                     auth_data = [(''email'', ''me@acme.com''), (''accesstoken'', ''key'')]\<rparr>])"
    and "projectsSetup env
           = (Next (''h://acme/projects'', ''abc''),
              [Post \<lparr>auth_url = ''h://acme/v2'',
                     auth_data = [(''email'', ''me@acme.com''), (''accesstoken'', ''key'')]\<rparr>])"
    and "files st outputDirectory = Found \<Longrightarrow> files st branchesListPath = NoEntry \<Longrightarrow>
         branchesSetup env st
           = (Next (''h://acme/branches/{offset}'', ''abc''),
              [Post \<lparr>auth_url = ''h://acme/v2'',
                     auth_data = [(''email'', ''me@acme.com''), (''accesstoken'', ''key'')]\<rparr>])"
  using assms
  by (simp_all add: applicationsSetup_def projectsSetup_def branchesSetup_def Let_def andThen_def
      ensureOutputDirectoryExists_def confirmDelete_def truthy_def resolve_def replace_def toStr_def
      authenticate_def authConfig_def provided_def trim_def isWhiteSpace_def settle_def
      validateStatus_def sampleConfig_def cookieAuth_def extractToken_cookieResponse)

lemma applications_stage_sample:
  assumes "configFile env = sampleConfig" "auth_api env = cookieAuth"
    "applications_api env = itemsAtZero [sampleApplication]"
    "files st outputDirectory = Found" "files st applicationsListPath = NoEntry"
    "files st applicationsCsvPath = NoEntry"
  shows "fetchApplicationsWithAuth env st = Some ([formatApplication sampleApplication], applicationsLog)"
  using assms
  by (simp add: fetchApplicationsWithAuth_def sample_setups applicationsPages_def
      pageLoop_itemsAtZero applicationsLog_def)

lemma projects_stage_sample:
  assumes "configFile env = sampleConfig" "auth_api env = cookieAuth"
    "projects_api env = itemsAtZero items" "length items < 500"
    "files st outputDirectory = Found" "files st projectListPath = NoEntry"
  shows "fetchProjectsWithAuth env st = Some (map formatProject items, projectsLog)"
  using assms
  by (simp add: fetchProjectsWithAuth_def ensureOutputDirectoryExists_def sample_setups
      projectsPages_def pageLoop_itemsAtZero projectsLog_def)

lemma projects_stage_cached:
  assumes "files st outputDirectory = Found" "files st projectListPath = Found"
  shows "fetchProjectsWithAuth env st = Some (projectList env, [])"
  using assms
  by (simp add: fetchProjectsWithAuth_def ensureOutputDirectoryExists_def)

lemma roles_stage_sample:
  assumes "configFile env = sampleConfig" "auth_api env = cookieAuth"
    "roleAssignments_api env = (\<lambda>k. Response 200 incl)" "project_id p = ''P1''"
  shows "fetchRoleAssignments env [p] = (usersOf p incl @ groupsOf p incl, rolesLog)"
  using assms
  by (simp add: fetchRoleAssignments_def roleAssignmentsSetup_sample settle_def validateStatus_def
      rolesLog_def sampleConfig_def toStr_def)

lemma branches_stage_sample:
  assumes "configFile env = sampleConfig" "auth_api env = cookieAuth"
    "branches_api env = itemsAtZero items" "length items < 500"
    "files st outputDirectory = Found" "files st branchesListPath = NoEntry"
  shows "fetchBranchesWithAuth env st = Some (items, branchesLog)"
  using assms
  by (simp add: fetchBranchesWithAuth_def sample_setups branchesPages_def pageLoop_itemsAtZero
      branchesLog_def)

lemma after_sample_logs:
  "afterEffects applicationsLog \<lparr>files = fs, rl_closed = c\<rparr>
     = \<lparr>files = fs(applicationsListPath := Found, applicationsCsvPath := Found), rl_closed = True\<rparr>"
  "afterEffects projectsLog \<lparr>files = fs, rl_closed = c\<rparr>
     = \<lparr>files = fs(projectListPath := Found), rl_closed = c\<rparr>"
  "afterEffects rolesLog \<lparr>files = fs, rl_closed = c\<rparr>
     = \<lparr>files = fs(detailsListPath := Found, detailsCsvPath := Found), rl_closed = c\<rparr>"
  by (simp_all add: afterEffects_def effectOn_def applicationsLog_def projectsLog_def rolesLog_def)

text \<open>The stages on the platform whose second pages are not served.\<close>

lemma applicationsSetup_unavailableEnv:
  "applicationsSetup unavailableEnv \<lparr>files = emptyOutput, rl_closed = False\<rparr>
     = (Next (''h://acme/apps'', ''abc''),
        [Post \<lparr>auth_url = ''h://acme/v2'',
               auth_data = [(''email'', ''me@acme.com''), (''accesstoken'', ''key'')]\<rparr>])"
  by (simp add: stage_eval unavailableEnv_def extractToken_cookieResponse)

lemma fetchApplicationsWithAuth_unavailableEnv:
  "fetchApplicationsWithAuth unavailableEnv \<lparr>files = emptyOutput, rl_closed = False\<rparr>
       = Some ([], [Post \<lparr>auth_url = ''h://acme/v2'',
                           auth_data = [(''email'', ''me@acme.com''), (''accesstoken'', ''key'')]\<rparr>,
                    Get (Page ''h://acme/apps'' 25 0) ''abc'',
                    Get (Page ''h://acme/apps'' 25 25) ''abc'', Close])"
proof -
  have "applicationsPages (applications_api unavailableEnv)
          = Some (Thrown, replicate 25 (formatApplication sampleApplication), [0, 25])"
    unfolding applicationsPages_def unavailableEnv_def by (simp add: pageLoop_pageThenUnavailable)
  then show ?thesis
    by (simp add: fetchApplicationsWithAuth_def applicationsSetup_unavailableEnv)
qed

lemma fetchProjectsWithAuth_unavailableEnv:
  "fetchProjectsWithAuth unavailableEnv \<lparr>files = emptyOutput, rl_closed = True\<rparr>
       = Some ([], [Post \<lparr>auth_url = ''h://acme/v2'',
                           auth_data = [(''email'', ''me@acme.com''), (''accesstoken'', ''key'')]\<rparr>,
                    Get (Page ''h://acme/projects'' 500 0) ''abc'',
                    Get (Page ''h://acme/projects'' 500 500) ''abc''])"
proof -
  have "projectsPages (projects_api unavailableEnv)
          = Some (Thrown, replicate 500 (formatProject sampleProject), [0, 500])"
    unfolding projectsPages_def unavailableEnv_def by (simp add: pageLoop_pageThenUnavailable)
  moreover have "projectsSetup unavailableEnv
     = (Next (''h://acme/projects'', ''abc''),
        [Post \<lparr>auth_url = ''h://acme/v2'',
               auth_data = [(''email'', ''me@acme.com''), (''accesstoken'', ''key'')]\<rparr>])"
    by (simp add: stage_eval unavailableEnv_def extractToken_cookieResponse)
  ultimately show ?thesis
    by (simp add: fetchProjectsWithAuth_def ensureOutputDirectoryExists_def emptyOutput_def
        outputDirectory_def projectListPath_def)
qed

lemma fetchBranchesWithAuth_unavailableEnv:
  "fetchBranchesWithAuth unavailableEnv \<lparr>files = emptyOutput, rl_closed = True\<rparr>
       = Some (replicate 500 sampleBranch,
               [Post \<lparr>auth_url = ''h://acme/v2'',
                      auth_data = [(''email'', ''me@acme.com''), (''accesstoken'', ''key'')]\<rparr>,
                Get (BranchPage ''h://acme/branches/{offset}'' 0) ''abc'',
                Get (BranchPage ''h://acme/branches/{offset}'' 500) ''abc'',
                WriteFile branchesListPath, Close])"
proof -
  have "branchesPages (branches_api unavailableEnv)
          = Some (Thrown, replicate 500 sampleBranch, [0, 500])"
    unfolding branchesPages_def unavailableEnv_def by (simp add: pageLoop_pageThenUnavailable)
  moreover have "branchesSetup unavailableEnv \<lparr>files = emptyOutput, rl_closed = True\<rparr>
     = (Next (''h://acme/branches/{offset}'', ''abc''),
        [Post \<lparr>auth_url = ''h://acme/v2'',
               auth_data = [(''email'', ''me@acme.com''), (''accesstoken'', ''key'')]\<rparr>])"
    by (simp add: stage_eval unavailableEnv_def extractToken_cookieResponse)
  ultimately show ?thesis
    by (simp add: fetchBranchesWithAuth_def)
qed

subsection \<open>Pagination\<close>

text \<open>
  C1 (as amended). A paginated fetch that returns has requested the offsets 0, limit,
  2 * limit, ... one after the other; every answer before the last one was a status-200
  page of exactly \<open>limit\<close> items, and the last request is the first one whose answer is not
  such a page: a status-200 page of another length (shorter or longer), a response with
  another status, or no response. The items accumulated are those of all status-200
  pages received, in order, so their number is the sum of the page lengths. The fetch
  returns as soon as some request meets an answer that is not a full page. The
  applications stage and the projects stage, when their loop has not ended by a rejected
  request, and the branches stage in every case, write and return the accumulated items,
  having requested those offsets with their page size.
\<close>

theorem pagination_until_page_not_full:
  "(pageLoop limit format api 0 [] [] = Some (stop, items, requested) \<longrightarrow>
      (\<exists>k. requested = map (\<lambda>j. j * limit) [0..<Suc k]
         \<and> (\<forall>j<k. fullPage limit (api (j * limit)))
         \<and> \<not> fullPage limit (api (k * limit))
         \<and> stop = stopOf (api (k * limit))
         \<and> items = concat (map (\<lambda>j. map format (received (api (j * limit)))) [0..<Suc k])
         \<and> length items = sum_list (map (\<lambda>j. length (received (api (j * limit)))) [0..<Suc k])))
   \<and> (\<not> fullPage limit (api (n * limit)) \<longrightarrow> (\<exists>r. pageLoop limit format api 0 [] [] = Some r))
   \<and> (applicationsSetup env st = (Next (base, token), log)
        \<and> applicationsPages (applications_api env) = Some (stop, allApplications, offsets)
        \<and> stop \<noteq> Thrown \<longrightarrow>
        fetchApplicationsWithAuth env st
          = Some (allApplications,
                  log @ map (\<lambda>offset. Get (Page base 25 offset) token) offsets
                  @ [WriteFile applicationsListPath, WriteFile applicationsCsvPath, Close]))
   \<and> (files st outputDirectory = Found \<and> files st projectListPath = NoEntry
        \<and> projectsSetup env = (Next (base, token), log)
        \<and> projectsPages (projects_api env) = Some (stop, allProjects, offsets)
        \<and> stop \<noteq> Thrown \<longrightarrow>
        fetchProjectsWithAuth env st
          = Some (allProjects,
                  log @ map (\<lambda>offset. Get (Page base 500 offset) token) offsets
                  @ [WriteFile projectListPath]))
   \<and> (branchesSetup env st = (Next (base, token), log)
        \<and> branchesPages (branches_api env) = Some (stop, allBranches, offsets) \<longrightarrow>
        fetchBranchesWithAuth env st
          = Some (allBranches,
                  log @ map (\<lambda>offset. Get (BranchPage base offset) token) offsets
                  @ [WriteFile branchesListPath, Close]))"
proof (intro conjI impI)
  assume "pageLoop limit format api 0 [] [] = Some (stop, items, requested)"
  then obtain k where k: "requested = map (\<lambda>j. j * limit) [0..<Suc k]"
      "\<forall>j<k. fullPage limit (api (j * limit))"
      "\<not> fullPage limit (api (k * limit))"
      "stop = stopOf (api (k * limit))"
      "items = concat (map (\<lambda>j. map format (received (api (j * limit)))) [0..<Suc k])"
    using pageLoop_result by blast
  from k(5) have "length items = sum_list (map (\<lambda>j. length (received (api (j * limit)))) [0..<Suc k])"
    by (simp only: length_concat_map)
  with k show "\<exists>k. requested = map (\<lambda>j. j * limit) [0..<Suc k]
         \<and> (\<forall>j<k. fullPage limit (api (j * limit)))
         \<and> \<not> fullPage limit (api (k * limit))
         \<and> stop = stopOf (api (k * limit))
         \<and> items = concat (map (\<lambda>j. map format (received (api (j * limit)))) [0..<Suc k])
         \<and> length items = sum_list (map (\<lambda>j. length (received (api (j * limit)))) [0..<Suc k])"
    by blast
next
  assume "\<not> fullPage limit (api (n * limit))"
  then show "\<exists>r. pageLoop limit format api 0 [] [] = Some r"
    by (rule pageLoop_returns)
next
  assume "applicationsSetup env st = (Next (base, token), log)
        \<and> applicationsPages (applications_api env) = Some (stop, allApplications, offsets)
        \<and> stop \<noteq> Thrown"
  then show "fetchApplicationsWithAuth env st
          = Some (allApplications,
                  log @ map (\<lambda>offset. Get (Page base 25 offset) token) offsets
                  @ [WriteFile applicationsListPath, WriteFile applicationsCsvPath, Close])"
    by (simp add: applications_stage_outcome)
next
  assume "files st outputDirectory = Found \<and> files st projectListPath = NoEntry
        \<and> projectsSetup env = (Next (base, token), log)
        \<and> projectsPages (projects_api env) = Some (stop, allProjects, offsets)
        \<and> stop \<noteq> Thrown"
  then show "fetchProjectsWithAuth env st
          = Some (allProjects,
                  log @ map (\<lambda>offset. Get (Page base 500 offset) token) offsets
                  @ [WriteFile projectListPath])"
    by (simp add: projects_stage_outcome)
next
  assume "branchesSetup env st = (Next (base, token), log)
        \<and> branchesPages (branches_api env) = Some (stop, allBranches, offsets)"
  then show "fetchBranchesWithAuth env st
          = Some (allBranches,
                  log @ map (\<lambda>offset. Get (BranchPage base offset) token) offsets
                  @ [WriteFile branchesListPath, Close])"
    by (simp add: branches_stage_outcome)
qed

theorem pagination_until_page_not_full_witness:
  "pageLoop 25 formatApplication (pageThenUnavailable 25 sampleApplication) 0 [] []
     = Some (Thrown, replicate 25 (formatApplication sampleApplication), [0, 25])
   \<and> (\<exists>k. [0, 25] = map (\<lambda>j. j * 25) [0..<Suc k]
         \<and> (\<forall>j<k. fullPage 25 (pageThenUnavailable 25 sampleApplication (j * 25)))
         \<and> \<not> fullPage 25 (pageThenUnavailable 25 sampleApplication (k * 25))
         \<and> Thrown = stopOf (pageThenUnavailable 25 sampleApplication (k * 25))
         \<and> replicate 25 (formatApplication sampleApplication)
             = concat (map (\<lambda>j. map formatApplication
                                   (received (pageThenUnavailable 25 sampleApplication (j * 25))))
                           [0..<Suc k])
         \<and> length (replicate 25 (formatApplication sampleApplication))
             = sum_list (map (\<lambda>j. length (received (pageThenUnavailable 25 sampleApplication (j * 25))))
                             [0..<Suc k]))
   \<and> \<not> fullPage 25 (pageThenUnavailable 25 sampleApplication (1 * 25))
   \<and> (\<exists>r. pageLoop 25 formatApplication (pageThenUnavailable 25 sampleApplication) 0 [] [] = Some r)
   \<and> fetchApplicationsWithAuth sampleEnv \<lparr>files = emptyOutput, rl_closed = False\<rparr>
       = Some ([formatApplication sampleApplication],
               [Post \<lparr>auth_url = ''h://acme/v2'',
                      auth_data = [(''email'', ''me@acme.com''), (''accesstoken'', ''key'')]\<rparr>]
               @ map (\<lambda>offset. Get (Page ''h://acme/apps'' 25 offset) ''abc'') [0]
               @ [WriteFile applicationsListPath, WriteFile applicationsCsvPath, Close])
   \<and> fetchProjectsWithAuth sampleEnv \<lparr>files = emptyOutput, rl_closed = True\<rparr>
       = Some ([formatProject sampleProject],
               [Post \<lparr>auth_url = ''h://acme/v2'',
                      auth_data = [(''email'', ''me@acme.com''), (''accesstoken'', ''key'')]\<rparr>]
               @ map (\<lambda>offset. Get (Page ''h://acme/projects'' 500 offset) ''abc'') [0]
               @ [WriteFile projectListPath])
   \<and> fetchBranchesWithAuth unavailableEnv \<lparr>files = emptyOutput, rl_closed = True\<rparr>
       = Some (replicate 500 sampleBranch,
               [Post \<lparr>auth_url = ''h://acme/v2'',
                      auth_data = [(''email'', ''me@acme.com''), (''accesstoken'', ''key'')]\<rparr>]
               @ map (\<lambda>offset. Get (BranchPage ''h://acme/branches/{offset}'' offset) ''abc'') [0, 500]
               @ [WriteFile branchesListPath, Close])"
proof -
  let ?closed = "\<lparr>files = emptyOutput, rl_closed = True\<rparr>"
  let ?open = "\<lparr>files = emptyOutput, rl_closed = False\<rparr>"
  let ?post = "Post \<lparr>auth_url = ''h://acme/v2'',
                      auth_data = [(''email'', ''me@acme.com''), (''accesstoken'', ''key'')]\<rparr>"
  note T = pagination_until_page_not_full
  have run: "pageLoop 25 formatApplication (pageThenUnavailable 25 sampleApplication) 0 [] []
     = Some (Thrown, replicate 25 (formatApplication sampleApplication), [0, 25])"
    by (rule pageLoop_pageThenUnavailable) simp
  have last: "\<not> fullPage 25 (pageThenUnavailable 25 sampleApplication (1 * 25))"
    by (simp add: fullPage_def pageThenUnavailable_def settle_def validateStatus_def)
  note A = T [THEN conjunct1, THEN mp, OF run]
  have env: "configFile sampleEnv = sampleConfig" "auth_api sampleEnv = cookieAuth"
    "configFile unavailableEnv = sampleConfig" "auth_api unavailableEnv = cookieAuth"
    by (simp_all add: sampleEnv_def unavailableEnv_def)
  have sa: "applicationsSetup sampleEnv ?open = (Next (''h://acme/apps'', ''abc''), [?post])"
    by (rule sample_setups(1) [OF env(1,2)]) (simp_all add: emptyOutput_def path_defs)
  have pa: "applicationsPages (applications_api sampleEnv)
              = Some (LastPage, [formatApplication sampleApplication], [0])"
    by (simp add: applicationsPages_def sampleEnv_def pageLoop_itemsAtZero)
  have sp: "projectsSetup sampleEnv = (Next (''h://acme/projects'', ''abc''), [?post])"
    by (rule sample_setups(2) [OF env(1,2)])
  have pp: "projectsPages (projects_api sampleEnv) = Some (LastPage, [formatProject sampleProject], [0])"
    by (simp add: projectsPages_def sampleEnv_def pageLoop_itemsAtZero)
  have sb: "branchesSetup unavailableEnv ?closed
              = (Next (''h://acme/branches/{offset}'', ''abc''), [?post])"
    by (rule sample_setups(3) [OF env(3,4)]) (simp_all add: emptyOutput_def path_defs)
  have pb: "branchesPages (branches_api unavailableEnv)
              = Some (Thrown, replicate 500 sampleBranch, [0, 500])"
    unfolding branchesPages_def unavailableEnv_def by (simp add: pageLoop_pageThenUnavailable)
  have B: "fetchApplicationsWithAuth sampleEnv ?open
       = Some ([formatApplication sampleApplication],
               [?post] @ map (\<lambda>offset. Get (Page ''h://acme/apps'' 25 offset) ''abc'') [0]
               @ [WriteFile applicationsListPath, WriteFile applicationsCsvPath, Close])"
    by (rule T [where stop = LastPage, THEN conjunct2, THEN conjunct2, THEN conjunct1, THEN mp])
       (simp add: sa pa)
  have C: "fetchProjectsWithAuth sampleEnv ?closed
       = Some ([formatProject sampleProject],
               [?post] @ map (\<lambda>offset. Get (Page ''h://acme/projects'' 500 offset) ''abc'') [0]
               @ [WriteFile projectListPath])"
    by (rule T [where stop = LastPage,
                THEN conjunct2, THEN conjunct2, THEN conjunct2, THEN conjunct1, THEN mp])
       (simp add: sp pp emptyOutput_def path_defs)
  have D: "fetchBranchesWithAuth unavailableEnv ?closed
       = Some (replicate 500 sampleBranch,
               [?post] @ map (\<lambda>offset. Get (BranchPage ''h://acme/branches/{offset}'' offset) ''abc'')
                              [0, 500]
               @ [WriteFile branchesListPath, Close])"
    by (rule T [where stop = Thrown,
                THEN conjunct2, THEN conjunct2, THEN conjunct2, THEN conjunct2, THEN mp])
       (simp add: sb pb)
  have E: "\<exists>r. pageLoop 25 formatApplication (pageThenUnavailable 25 sampleApplication) 0 [] []
                 = Some r"
    by (rule T [where n = 1, THEN conjunct2, THEN conjunct1, THEN mp]) (rule last)
  show ?thesis
    by (intro conjI) (rule run, rule A, rule last, rule E, rule B, rule C, rule D)
qed

text \<open>
  C1 as stated fails: the applications fetch stops after a status-200 page of 26 items,
  which is neither shorter than the page size 25 nor an error; the test of the loop is
  \<^verbatim>\<open>data.length === limit\<close>.
\<close>

theorem pagination_oversized_page_counterexample:
  "applicationsPages oversizedPage
     = Some (LastPage, replicate 26 (formatApplication sampleApplication), [0])
   \<and> oversizedPage 0 = Response 200 (replicate 26 sampleApplication)
   \<and> \<not> length (replicate 26 sampleApplication) < 25"
  by (simp add: applicationsPages_def pageLoop.simps oversizedPage_def settle_def validateStatus_def)

text \<open>
  What the amended statement on pagination leaves out: the applications stage and the
  projects stage after a rejected request. The platform serves the first page of 25 applications and
  answers the request for the second page with the status 503. The 25 applications are
  not returned: the request is rejected, the exception leaves the loop and the function,
  whose \<^verbatim>\<open>catch\<close> returns the empty array with nothing written, and \<^verbatim>\<open>main\<close> stops. The
  projects stage does the same with its 500 projects. The branches stage, whose loop has
  a \<^verbatim>\<open>try\<close> of its own, keeps its 500 branches, writes and returns them.
\<close>

lemma unavailable_page_discards_fetched_items:
  "applications_api unavailableEnv 0 = Response 200 (replicate 25 sampleApplication)
   \<and> applications_api unavailableEnv 25 = Response 503 []
   \<and> fetchApplicationsWithAuth unavailableEnv \<lparr>files = emptyOutput, rl_closed = False\<rparr>
       = Some ([], [Post \<lparr>auth_url = ''h://acme/v2'',
                           auth_data = [(''email'', ''me@acme.com''), (''accesstoken'', ''key'')]\<rparr>,
                    Get (Page ''h://acme/apps'' 25 0) ''abc'',
                    Get (Page ''h://acme/apps'' 25 25) ''abc'', Close])
   \<and> main unavailableEnv emptyOutput
       = Some ([FetchApplications],
               [Post \<lparr>auth_url = ''h://acme/v2'',
                      auth_data = [(''email'', ''me@acme.com''), (''accesstoken'', ''key'')]\<rparr>,
                Get (Page ''h://acme/apps'' 25 0) ''abc'',
                Get (Page ''h://acme/apps'' 25 25) ''abc'', Close])
   \<and> fetchProjectsWithAuth unavailableEnv \<lparr>files = emptyOutput, rl_closed = True\<rparr>
       = Some ([], [Post \<lparr>auth_url = ''h://acme/v2'',
                           auth_data = [(''email'', ''me@acme.com''), (''accesstoken'', ''key'')]\<rparr>,
                    Get (Page ''h://acme/projects'' 500 0) ''abc'',
                    Get (Page ''h://acme/projects'' 500 500) ''abc''])
   \<and> fetchBranchesWithAuth unavailableEnv \<lparr>files = emptyOutput, rl_closed = True\<rparr>
       = Some (replicate 500 sampleBranch,
               [Post \<lparr>auth_url = ''h://acme/v2'',
                      auth_data = [(''email'', ''me@acme.com''), (''accesstoken'', ''key'')]\<rparr>,
                Get (BranchPage ''h://acme/branches/{offset}'' 0) ''abc'',
                Get (BranchPage ''h://acme/branches/{offset}'' 500) ''abc'',
                WriteFile branchesListPath, Close])"
  by (simp add: fetchApplicationsWithAuth_unavailableEnv fetchProjectsWithAuth_unavailableEnv
      fetchBranchesWithAuth_unavailableEnv main_def)
     (simp add: unavailableEnv_def pageThenUnavailable_def)

subsection \<open>Page sizes\<close>

lemma pageLoop_offsets:
  assumes "pageLoop limit f api 0 [] [] = Some (stop, items, requested)"
  shows "\<exists>k. requested = map (\<lambda>j. j * limit) [0..<Suc k]
           \<and> (\<forall>j<k. fullPage limit (api (j * limit)))
           \<and> \<not> fullPage limit (api (k * limit))"
  using pageLoop_result [OF assms] by blast

text \<open>
  C2 (as amended). The page size is a constant of each fetch loop: 25 for the
  applications fetch, 500 for the projects fetch of the main script and of
  \<^verbatim>\<open>getProjectUserInformation.mjs\<close> and for the branches fetch, and 5 for the projects
  fetch of \<^verbatim>\<open>getProjectProperties.mjs\<close>. Each loop requests the multiples of its size and
  goes on exactly after the status-200 pages of that many items.
\<close>

theorem page_size_of_each_fetch:
  "(applicationsPages a = Some (s1, i1, r1) \<longrightarrow>
      (\<exists>k. r1 = map (\<lambda>j. j * 25) [0..<Suc k]
         \<and> (\<forall>j<k. fullPage 25 (a (j * 25))) \<and> \<not> fullPage 25 (a (k * 25))))
   \<and> (projectsPages p = Some (s2, i2, r2) \<longrightarrow>
      (\<exists>k. r2 = map (\<lambda>j. j * 500) [0..<Suc k]
         \<and> (\<forall>j<k. fullPage 500 (p (j * 500))) \<and> \<not> fullPage 500 (p (k * 500))))
   \<and> (projectsPages_userInformation p' = Some (s3, i3, r3) \<longrightarrow>
      (\<exists>k. r3 = map (\<lambda>j. j * 500) [0..<Suc k]
         \<and> (\<forall>j<k. fullPage 500 (p' (j * 500))) \<and> \<not> fullPage 500 (p' (k * 500))))
   \<and> (projectsPages_properties p'' = Some (s4, i4, r4) \<longrightarrow>
      (\<exists>k. r4 = map (\<lambda>j. j * 5) [0..<Suc k]
         \<and> (\<forall>j<k. fullPage 5 (p'' (j * 5))) \<and> \<not> fullPage 5 (p'' (k * 5))))
   \<and> (branchesPages b = Some (s5, i5, r5) \<longrightarrow>
      (\<exists>k. r5 = map (\<lambda>j. j * 500) [0..<Suc k]
         \<and> (\<forall>j<k. fullPage 500 (b (j * 500))) \<and> \<not> fullPage 500 (b (k * 500))))"
  unfolding applicationsPages_def projectsPages_def projectsPages_userInformation_def
    projectsPages_properties_def branchesPages_def
  by (intro conjI impI) (erule pageLoop_offsets)+

lemma pageLoop_onePageOf:
  "0 < n \<Longrightarrow>
   pageLoop n f (onePageOf n item) 0 [] [] = Some (LastPage, replicate n (f item), [0, n])"
  by (simp add: pageLoop.simps onePageOf_def settle_def validateStatus_def)

theorem page_size_of_each_fetch_witness:
  "applicationsPages (onePageOf 25 sampleApplication)
     = Some (LastPage, replicate 25 (formatApplication sampleApplication), [0, 25])
   \<and> projectsPages (onePageOf 500 sampleProject)
     = Some (LastPage, replicate 500 (formatProject sampleProject), [0, 500])
   \<and> projectsPages_userInformation (onePageOf 500 sampleProject)
     = Some (LastPage, replicate 500 (formatProject_userInformation sampleProject), [0, 500])
   \<and> projectsPages_properties (onePageOf 5 sampleProject)
     = Some (LastPage, replicate 5 (formatProject_properties sampleProject), [0, 5])
   \<and> branchesPages (onePageOf 500 sampleBranch)
     = Some (LastPage, replicate 500 sampleBranch, [0, 500])
   \<and> (\<exists>k. [0, 25] = map (\<lambda>j. j * 25) [0..<Suc k]
         \<and> (\<forall>j<k. fullPage 25 (onePageOf 25 sampleApplication (j * 25)))
         \<and> \<not> fullPage 25 (onePageOf 25 sampleApplication (k * 25)))
   \<and> (\<exists>k. [0, 500] = map (\<lambda>j. j * 500) [0..<Suc k]
         \<and> (\<forall>j<k. fullPage 500 (onePageOf 500 sampleProject (j * 500)))
         \<and> \<not> fullPage 500 (onePageOf 500 sampleProject (k * 500)))
   \<and> (\<exists>k. [0, 5] = map (\<lambda>j. j * 5) [0..<Suc k]
         \<and> (\<forall>j<k. fullPage 5 (onePageOf 5 sampleProject (j * 5)))
         \<and> \<not> fullPage 5 (onePageOf 5 sampleProject (k * 5)))
   \<and> (\<exists>k. [0, 500] = map (\<lambda>j. j * 500) [0..<Suc k]
         \<and> (\<forall>j<k. fullPage 500 (onePageOf 500 sampleBranch (j * 500)))
         \<and> \<not> fullPage 500 (onePageOf 500 sampleBranch (k * 500)))"
proof -
  have a: "applicationsPages (onePageOf 25 sampleApplication)
     = Some (LastPage, replicate 25 (formatApplication sampleApplication), [0, 25])"
    unfolding applicationsPages_def by (rule pageLoop_onePageOf) simp
  have p: "projectsPages (onePageOf 500 sampleProject)
     = Some (LastPage, replicate 500 (formatProject sampleProject), [0, 500])"
    unfolding projectsPages_def by (rule pageLoop_onePageOf) simp
  have p': "projectsPages_userInformation (onePageOf 500 sampleProject)
     = Some (LastPage, replicate 500 (formatProject_userInformation sampleProject), [0, 500])"
    unfolding projectsPages_userInformation_def by (rule pageLoop_onePageOf) simp
  have p'': "projectsPages_properties (onePageOf 5 sampleProject)
     = Some (LastPage, replicate 5 (formatProject_properties sampleProject), [0, 5])"
    unfolding projectsPages_properties_def by (rule pageLoop_onePageOf) simp
  have b: "branchesPages (onePageOf 500 sampleBranch)
     = Some (LastPage, replicate 500 sampleBranch, [0, 500])"
    unfolding branchesPages_def by (rule pageLoop_onePageOf) simp
  note inst = page_size_of_each_fetch
    [of "onePageOf 25 sampleApplication" LastPage _ "[0, 25]"
        "onePageOf 500 sampleProject" LastPage _ "[0, 500]"
        "onePageOf 500 sampleProject" LastPage _ "[0, 500]"
        "onePageOf 5 sampleProject" LastPage _ "[0, 5]"
        "onePageOf 500 sampleBranch" LastPage _ "[0, 500]"]
  note A = inst [THEN conjunct1, THEN mp, OF a]
  note P = inst [THEN conjunct2, THEN conjunct1, THEN mp, OF p]
  note P'' = inst [THEN conjunct2, THEN conjunct2, THEN conjunct2, THEN conjunct1, THEN mp, OF p'']
  note B = inst [THEN conjunct2, THEN conjunct2, THEN conjunct2, THEN conjunct2, THEN mp, OF b]
  show ?thesis
    by (intro conjI) (rule a, rule p, rule p', rule p'', rule b, rule A, rule P, rule P'', rule B)
qed

text \<open>
  C2 as stated fails for \<^verbatim>\<open>getProjectProperties.mjs\<close>: after a page of five projects its
  fetch asks for offset 5, where a fetch of page size 500 stops at that short page.
\<close>

theorem page_size_five_counterexample:
  "projectsPages_properties (onePageOf 5 sampleProject)
     = Some (LastPage, replicate 5 (formatProject_properties sampleProject), [0, 5])
   \<and> pageLoop 500 formatProject_properties (onePageOf 5 sampleProject) 0 [] []
     = Some (LastPage, replicate 5 (formatProject_properties sampleProject), [0])"
  by (simp add: projectsPages_properties_def pageLoop.simps onePageOf_def settle_def validateStatus_def)


subsection \<open>Role assignments\<close>

text \<open>
  One step of the loop: a rejected request ends it, whatever projects remain; a response
  resolved with another status than 200 adds nothing and the loop goes on.
\<close>

lemma roleAssignmentsLoop_step:
  "settle (api (project_id project)) = Rejected \<Longrightarrow>
   roleAssignmentsLoop api (project # rest) allDetails requested
     = (Inl RequestRejected, requested @ [project_id project])"
  "settle (api (project_id project)) = Resolved 200 incl \<Longrightarrow>
   roleAssignmentsLoop api (project # rest) allDetails requested
     = roleAssignmentsLoop api rest (allDetails @ usersOf project incl @ groupsOf project incl)
         (requested @ [project_id project])"
  "settle (api (project_id project)) = Resolved status incl \<Longrightarrow> status \<noteq> 200 \<Longrightarrow>
   roleAssignmentsLoop api (project # rest) allDetails requested
     = roleAssignmentsLoop api rest allDetails (requested @ [project_id project])"
  by simp_all

text \<open>
  C10, at the input where the code departs from it. The platform answers the
  role-assignments request of the project \<^verbatim>\<open>P2\<close> with the status 403. The stage does not
  go on: the request is rejected, the exception leaves the loop, the project \<^verbatim>\<open>P3\<close> is
  never requested, and the \<^verbatim>\<open>catch\<close> of the function returns the empty array with nothing
  written, the details of \<^verbatim>\<open>P1\<close> included. When the project \<^verbatim>\<open>P2\<close> is answered with the
  status 200 and no role assignment, the stage requests all three projects and returns
  the details of \<^verbatim>\<open>P1\<close> and \<^verbatim>\<open>P3\<close>.
\<close>

theorem forbidden_project_ends_role_assignments:
  "roleAssignments_api forbiddenEnv ''P2'' = Response 403 []
   \<and> fetchRoleAssignments forbiddenEnv [listedProject ''P1'', listedProject ''P2'', listedProject ''P3'']
       = ([], [Post \<lparr>auth_url = ''h://acme/v2'',
                      auth_data = [(''email'', ''me@acme.com''), (''accesstoken'', ''key'')]\<rparr>,
               Get (RoleAssignmentsOf ''acme'' ''P1'') ''abc'',
               Get (RoleAssignmentsOf ''acme'' ''P2'') ''abc''])
   \<and> roleAssignments_api noneEnv ''P2'' = Response 200 []
   \<and> fetchRoleAssignments noneEnv [listedProject ''P1'', listedProject ''P2'', listedProject ''P3'']
       = ([\<lparr>detail_projectName = ''proj'', detail_projectId = ''P1'', detail_userType = ''User'',
            detail_name = ''Alice'', detail_email = ''alice@x.com''\<rparr>,
           \<lparr>detail_projectName = ''proj'', detail_projectId = ''P1'', detail_userType = ''GroupName'',
            detail_name = ''QA'', detail_email = ''''\<rparr>,
           \<lparr>detail_projectName = ''proj'', detail_projectId = ''P3'', detail_userType = ''User'',
            detail_name = ''Alice'', detail_email = ''alice@x.com''\<rparr>,
           \<lparr>detail_projectName = ''proj'', detail_projectId = ''P3'', detail_userType = ''GroupName'',
            detail_name = ''QA'', detail_email = ''''\<rparr>],
          [Post \<lparr>auth_url = ''h://acme/v2'',
                 auth_data = [(''email'', ''me@acme.com''), (''accesstoken'', ''key'')]\<rparr>,
           Get (RoleAssignmentsOf ''acme'' ''P1'') ''abc'',
           Get (RoleAssignmentsOf ''acme'' ''P2'') ''abc'',
           Get (RoleAssignmentsOf ''acme'' ''P3'') ''abc'',
           WriteFile detailsListPath, WriteFile detailsCsvPath])"
proof -
  have f: "roleAssignmentsSetup forbiddenEnv
     = (Next ''abc'',
        [Post \<lparr>auth_url = ''h://acme/v2'',
               auth_data = [(''email'', ''me@acme.com''), (''accesstoken'', ''key'')]\<rparr>])"
    by (rule roleAssignmentsSetup_sample) (simp_all add: forbiddenEnv_def sampleEnv_def)
  have n: "roleAssignmentsSetup noneEnv
     = (Next ''abc'',
        [Post \<lparr>auth_url = ''h://acme/v2'',
               auth_data = [(''email'', ''me@acme.com''), (''accesstoken'', ''key'')]\<rparr>])"
    by (rule roleAssignmentsSetup_sample) (simp_all add: noneEnv_def sampleEnv_def)
  show ?thesis
    by (simp add: fetchRoleAssignments_def f n)
       (simp add: forbiddenEnv_def noneEnv_def sampleEnv_def sampleConfig_def toStr_def
          rolesForbiddenP2_def rolesNoneP2_def aliceAndQA_def listedProject_def settle_def
          validateStatus_def usersOf_def groupsOf_def)
qed

subsection \<open>Authentication\<close>

lemma authenticate_no_credentials:
  "\<not> provided (password c) \<Longrightarrow> \<not> provided (accesstoken c) \<Longrightarrow>
   authenticate c authUrl authUrlV2 api = (Throw NoCredentials, [])"
  by (simp add: authenticate_def authConfig_def)

lemma authenticate_posts_once:
  "authConfig c authUrl authUrlV2 = Inr request \<Longrightarrow>
   \<exists>s. authenticate c authUrl authUrlV2 api = (s, [Post request])"
  by (auto simp: authenticate_def split: settled.splits sum.splits)

text \<open>No stage reaches the network without credentials.\<close>

lemma applicationsSetup_no_credentials:
  assumes "\<not> provided (password (configFile env))" "\<not> provided (accesstoken (configFile env))"
  shows "\<exists>s log. applicationsSetup env st = (s, log) \<and> (\<forall>x. s \<noteq> Next x) \<and> \<not> list_ex isNetwork log"
  using assms
  by (auto simp: applicationsSetup_def Let_def andThen_def ensureOutputDirectoryExists_def
      confirmDelete_def resolve_def authenticate_no_credentials isNetwork_def
      split: access.splits option.splits)

lemma fetchApplicationsWithAuth_no_credentials:
  assumes "\<not> provided (password (configFile env))" "\<not> provided (accesstoken (configFile env))"
  shows "\<exists>log. fetchApplicationsWithAuth env st = Some ([], log) \<and> \<not> list_ex isNetwork log"
proof -
  from applicationsSetup_no_credentials [OF assms] obtain s log
    where s: "applicationsSetup env st = (s, log)" "\<forall>x. s \<noteq> Next x" "\<not> list_ex isNetwork log"
    by blast
  have "s = Return [] \<or> (\<exists>e. s = Throw e)"
    using s(1,2) assms
    by (cases s) (auto simp: applicationsSetup_def Let_def andThen_def ensureOutputDirectoryExists_def
      confirmDelete_def resolve_def authenticate_no_credentials
      split: access.splits option.splits if_splits)
  with s show ?thesis
    by (auto simp: fetchApplicationsWithAuth_def isNetwork_def)
qed

lemma fetchRoleAssignments_no_credentials:
  assumes "\<not> provided (password (configFile env))" "\<not> provided (accesstoken (configFile env))"
  shows "\<exists>log. fetchRoleAssignments env projects = ([], log) \<and> \<not> list_ex isNetwork log"
  using assms
  by (auto simp: fetchRoleAssignments_def roleAssignmentsSetup_def Let_def andThen_def resolve_def
      authenticate_no_credentials split: option.splits)

text \<open>
  C3 (as amended). A password or an access token counts as present when it is not empty
  after trimming white space. With such a password the one authentication request goes to
  the password endpoint (the v1 URL) with the password, whatever the access token is;
  without it and with such an access token the request goes to the token endpoint (the v2
  URL) with the token; with neither, \<^verbatim>\<open>authConfig\<close> fails with the configuration error and
  the stage ends with an empty result and no request sent.
\<close>

theorem credentials_choose_endpoint:
  "(provided (password c) \<longrightarrow>
      authConfig c authUrl authUrlV2
        = Inr \<lparr>auth_url = authUrl,
               auth_data = [(''email'', toStr (email c)), (''password'', toStr (password c))]\<rparr>
      \<and> (\<exists>s. authenticate c authUrl authUrlV2 api
                = (s :: (string, unit) step,
                   [Post \<lparr>auth_url = authUrl,
                          auth_data = [(''email'', toStr (email c)), (''password'', toStr (password c))]\<rparr>])))
   \<and> (\<not> provided (password c) \<and> provided (accesstoken c) \<longrightarrow>
      authConfig c authUrl authUrlV2
        = Inr \<lparr>auth_url = authUrlV2,
               auth_data = [(''email'', toStr (email c)), (''accesstoken'', toStr (accesstoken c))]\<rparr>
      \<and> (\<exists>s. authenticate c authUrl authUrlV2 api
                = (s :: (string, unit) step,
                   [Post \<lparr>auth_url = authUrlV2,
                          auth_data = [(''email'', toStr (email c)),
                                       (''accesstoken'', toStr (accesstoken c))]\<rparr>])))
   \<and> (\<not> provided (password c) \<and> \<not> provided (accesstoken c) \<longrightarrow>
      authConfig c authUrl authUrlV2 = Inl NoCredentials
      \<and> authenticate c authUrl authUrlV2 api = (Throw NoCredentials :: (string, unit) step, []))
   \<and> (\<not> provided (password (configFile env)) \<and> \<not> provided (accesstoken (configFile env)) \<longrightarrow>
      (\<exists>log. fetchApplicationsWithAuth env st = Some ([], log) \<and> \<not> list_ex isNetwork log))
   \<and> (\<not> provided (password (configFile env')) \<and> \<not> provided (accesstoken (configFile env')) \<longrightarrow>
      (\<exists>log. fetchRoleAssignments env' projects = ([], log) \<and> \<not> list_ex isNetwork log))"
proof (intro conjI impI)
  assume p: "provided (password c)"
  then show "authConfig c authUrl authUrlV2
        = Inr \<lparr>auth_url = authUrl,
               auth_data = [(''email'', toStr (email c)), (''password'', toStr (password c))]\<rparr>"
    by (simp add: authConfig_def)
  then show "\<exists>s. authenticate c authUrl authUrlV2 api
                = (s :: (string, unit) step,
                   [Post \<lparr>auth_url = authUrl,
                          auth_data = [(''email'', toStr (email c)), (''password'', toStr (password c))]\<rparr>])"
    by (rule authenticate_posts_once)
next
  assume t: "\<not> provided (password c) \<and> provided (accesstoken c)"
  then show "authConfig c authUrl authUrlV2
        = Inr \<lparr>auth_url = authUrlV2,
               auth_data = [(''email'', toStr (email c)), (''accesstoken'', toStr (accesstoken c))]\<rparr>"
    by (simp add: authConfig_def)
  then show "\<exists>s. authenticate c authUrl authUrlV2 api
                = (s :: (string, unit) step,
                   [Post \<lparr>auth_url = authUrlV2,
                          auth_data = [(''email'', toStr (email c)),
                                       (''accesstoken'', toStr (accesstoken c))]\<rparr>])"
    by (rule authenticate_posts_once)
next
  assume n: "\<not> provided (password c) \<and> \<not> provided (accesstoken c)"
  then show "authConfig c authUrl authUrlV2 = Inl NoCredentials"
    by (simp add: authConfig_def)
  from n show "authenticate c authUrl authUrlV2 api = (Throw NoCredentials :: (string, unit) step, [])"
    by (simp add: authenticate_no_credentials)
next
  assume "\<not> provided (password (configFile env)) \<and> \<not> provided (accesstoken (configFile env))"
  then show "\<exists>log. fetchApplicationsWithAuth env st = Some ([], log) \<and> \<not> list_ex isNetwork log"
    by (simp add: fetchApplicationsWithAuth_no_credentials)
next
  assume "\<not> provided (password (configFile env')) \<and> \<not> provided (accesstoken (configFile env'))"
  then show "\<exists>log. fetchRoleAssignments env' projects = ([], log) \<and> \<not> list_ex isNetwork log"
    by (simp add: fetchRoleAssignments_no_credentials)
qed

lemma provided_samples:
  "provided (password passwordConfig)"
  "\<not> provided (password sampleConfig)" "provided (accesstoken sampleConfig)"
  "\<not> provided (password blankPasswordConfig)" "provided (accesstoken blankPasswordConfig)"
  "\<not> provided (password noCredentialsConfig)" "\<not> provided (accesstoken noCredentialsConfig)"
  by (simp_all add: provided_def truthy_def toStr_def trim_def isWhiteSpace_def
      passwordConfig_def sampleConfig_def blankPasswordConfig_def noCredentialsConfig_def)

theorem credentials_choose_endpoint_witness:
  "provided (password passwordConfig)
   \<and> authConfig passwordConfig ''h://acme/v1'' ''h://acme/v2''
       = Inr \<lparr>auth_url = ''h://acme/v1'',
              auth_data = [(''email'', ''me@acme.com''), (''password'', ''secret'')]\<rparr>
   \<and> \<not> provided (password sampleConfig) \<and> provided (accesstoken sampleConfig)
   \<and> authConfig sampleConfig ''h://acme/v1'' ''h://acme/v2''
       = Inr \<lparr>auth_url = ''h://acme/v2'',
              auth_data = [(''email'', ''me@acme.com''), (''accesstoken'', ''key'')]\<rparr>
   \<and> \<not> provided (password noCredentialsConfig) \<and> \<not> provided (accesstoken noCredentialsConfig)
   \<and> authConfig noCredentialsConfig ''h://acme/v1'' ''h://acme/v2'' = Inl NoCredentials
   \<and> (\<exists>log. fetchApplicationsWithAuth noCredentialsEnv \<lparr>files = emptyOutput, rl_closed = False\<rparr>
               = Some ([], log)
             \<and> \<not> list_ex isNetwork log)
   \<and> (\<exists>log. fetchRoleAssignments noCredentialsEnv [listedProject ''P1''] = ([], log)
             \<and> \<not> list_ex isNetwork log)"
proof -
  have envs: "configFile noCredentialsEnv = noCredentialsConfig"
    by (simp add: noCredentialsEnv_def)
  have none: "\<not> provided (password (configFile noCredentialsEnv))
              \<and> \<not> provided (accesstoken (configFile noCredentialsEnv))"
    by (simp add: envs provided_samples)
  note P = credentials_choose_endpoint
             [of passwordConfig "''h://acme/v1''" "''h://acme/v2''",
              THEN conjunct1, THEN mp, OF provided_samples(1), THEN conjunct1]
  note T = credentials_choose_endpoint
             [of sampleConfig "''h://acme/v1''" "''h://acme/v2''",
              THEN conjunct2, THEN conjunct1, THEN mp,
              OF conjI [OF provided_samples(2) provided_samples(3)], THEN conjunct1]
  note N = credentials_choose_endpoint
             [of noCredentialsConfig "''h://acme/v1''" "''h://acme/v2''" _
                 noCredentialsEnv "\<lparr>files = emptyOutput, rl_closed = False\<rparr>" noCredentialsEnv
                 "[listedProject ''P1'']"]
  note N1 = N [THEN conjunct2, THEN conjunct2, THEN conjunct1, THEN mp,
               OF conjI [OF provided_samples(6) provided_samples(7)], THEN conjunct1]
  note N2 = N [THEN conjunct2, THEN conjunct2, THEN conjunct2, THEN conjunct1, THEN mp, OF none]
  note N3 = N [THEN conjunct2, THEN conjunct2, THEN conjunct2, THEN conjunct2, THEN mp, OF none]
  have P': "authConfig passwordConfig ''h://acme/v1'' ''h://acme/v2''
       = Inr \<lparr>auth_url = ''h://acme/v1'',
              auth_data = [(''email'', ''me@acme.com''), (''password'', ''secret'')]\<rparr>"
    using P by (simp add: passwordConfig_def sampleConfig_def toStr_def)
  have T': "authConfig sampleConfig ''h://acme/v1'' ''h://acme/v2''
       = Inr \<lparr>auth_url = ''h://acme/v2'',
              auth_data = [(''email'', ''me@acme.com''), (''accesstoken'', ''key'')]\<rparr>"
    using T by (simp add: sampleConfig_def toStr_def)
  show ?thesis
    by (intro conjI) (rule provided_samples(1), rule P', rule provided_samples(2),
        rule provided_samples(3), rule T', rule provided_samples(6), rule provided_samples(7),
        rule N1, rule N2, rule N3)
qed

text \<open>
  C3 as stated fails: a password of one space is not empty, and the request goes to the
  token endpoint with the access token.
\<close>

theorem blank_password_counterexample:
  "password blankPasswordConfig = Some '' '' \<and> '' '' \<noteq> ''''
   \<and> authConfig blankPasswordConfig ''h://acme/v1'' ''h://acme/v2''
       = Inr \<lparr>auth_url = ''h://acme/v2'',
              auth_data = [(''email'', ''me@acme.com''), (''accesstoken'', ''key'')]\<rparr>"
proof -
  have "authConfig blankPasswordConfig ''h://acme/v1'' ''h://acme/v2''
       = Inr \<lparr>auth_url = ''h://acme/v2'',
              auth_data = [(''email'', toStr (email blankPasswordConfig)),
                           (''accesstoken'', toStr (accesstoken blankPasswordConfig))]\<rparr>"
    by (simp add: authConfig_def provided_samples)
  then show ?thesis
    by (simp add: blankPasswordConfig_def sampleConfig_def toStr_def)
qed


subsection \<open>Token extraction\<close>

lemma split_not_Nil: "split sep s \<noteq> []"
  by (induction s) (auto split: list.splits)

lemma hd_split: "hd (split sep s) = takeWhile (\<lambda>c. c \<noteq> sep) s"
  by (induction s) (auto simp: split_not_Nil split: list.splits)

lemma at_split_1:
  "at (split sep s) 1 =
     (if sep \<in> set s then Some (takeWhile (\<lambda>c. c \<noteq> sep) (tl (dropWhile (\<lambda>c. c \<noteq> sep) s)))
      else None)"
proof (induction s)
  case Nil
  then show ?case by (simp add: at_def)
next
  case (Cons c cs)
  show ?case
  proof (cases "c = sep")
    case True
    have "at ([] # split sep cs) 1 = Some (hd (split sep cs))"
      using split_not_Nil [of sep cs] by (cases "split sep cs") (simp_all add: at_def)
    with True show ?thesis by (simp add: hd_split)
  next
    case False
    obtain w ws where w: "split sep cs = w # ws"
      using split_not_Nil [of sep cs] by (cases "split sep cs") auto
    have "at ((c # w) # ws) 1 = at (w # ws) 1" by (simp add: at_def)
    with False w Cons.IH show ?thesis by simp
  qed
qed

lemma takeWhile_twice:
  "takeWhile P (takeWhile Q xs) = takeWhile (\<lambda>x. P x \<and> Q x) xs"
  by (induction xs) auto

text \<open>The token of a cookie: what follows \<^verbatim>\<open>access_token=\<close>, up to the next \<^verbatim>\<open>=\<close> or \<^verbatim>\<open>;\<close>.\<close>

lemma cookie_value:
  assumes "startsWith cookie ''access_token=''"
  shows "at (split CHR ''='' (hd (split CHR '';'' cookie))) 1
           = Some (takeWhile (\<lambda>c. c \<noteq> CHR ''='' \<and> c \<noteq> CHR '';'') (drop 13 cookie))"
proof -
  have len: "length ''access_token='' = 13" by simp
  have "take (length ''access_token='') cookie = ''access_token=''"
    using assms unfolding startsWith_def .
  then have "take 13 cookie = ''access_token=''" unfolding len .
  then have cookie: "cookie = ''access_token='' @ drop 13 cookie"
    by (metis append_take_drop_id)
  define rest where "rest = drop 13 cookie"
  have "hd (split CHR '';'' (''access_token='' @ rest))
          = ''access_token='' @ takeWhile (\<lambda>c. c \<noteq> CHR '';'') rest"
    by (simp only: hd_split) simp
  moreover have "at (split CHR ''='' (''access_token='' @ takeWhile (\<lambda>c. c \<noteq> CHR '';'') rest)) 1
          = Some (takeWhile (\<lambda>c. c \<noteq> CHR ''='') (takeWhile (\<lambda>c. c \<noteq> CHR '';'') rest))"
    by (simp only: at_split_1) simp
  ultimately have "at (split CHR ''='' (hd (split CHR '';'' (''access_token='' @ rest)))) 1
          = Some (takeWhile (\<lambda>c. c \<noteq> CHR ''='' \<and> c \<noteq> CHR '';'') rest)"
    by (simp only: takeWhile_twice)
  then show ?thesis
    unfolding rest_def using cookie by (simp only:)
qed

text \<open>
  The order of the two sources: the \<^verbatim>\<open>set-cookie\<close> header first, in its first cookie that
  starts with \<^verbatim>\<open>access_token=\<close>; the \<^verbatim>\<open>jwt\<close> field of the body only when the header
  gives nothing (no header, no such cookie, or an empty text); an error when both give
  nothing.
\<close>

lemma extractToken_order:
  "extractToken r =
     (if truthy (cookieToken r) then Inr (toStr (cookieToken r))
      else if truthy (jwt r) then Inr (toStr (jwt r))
      else Inl NoToken)"
  by (simp add: extractToken_def Let_def)

lemma cookieToken_found:
  assumes "set_cookie r = Some cookies"
    "find (\<lambda>cookie. startsWith cookie ''access_token='') cookies = Some tokenCookie"
  shows "cookieToken r
           = Some (takeWhile (\<lambda>c. c \<noteq> CHR ''='' \<and> c \<noteq> CHR '';'') (drop 13 tokenCookie))"
proof -
  from assms(2) have "startsWith tokenCookie ''access_token=''"
    by (auto simp: find_Some_iff)
  from cookie_value [OF this] assms show ?thesis
    by (simp add: cookieToken_def)
qed

lemma cookieToken_absent:
  "set_cookie r = None \<Longrightarrow> cookieToken r = None"
  "set_cookie r = Some cookies \<Longrightarrow>
   find (\<lambda>cookie. startsWith cookie ''access_token='') cookies = None \<Longrightarrow> cookieToken r = None"
  by (simp_all add: cookieToken_def)

text \<open>The authenticator hands on the token that it has extracted, or throws.\<close>

lemma authenticate_token:
  "authConfig c authUrl authUrlV2 = Inr request \<Longrightarrow> settle (api request) = Resolved status r \<Longrightarrow>
   extractToken r = Inr token \<Longrightarrow>
   authenticate c authUrl authUrlV2 api = (Next token, [Post request])"
  by (simp add: authenticate_def)

lemma authenticate_no_token:
  "authConfig c authUrl authUrlV2 = Inr request \<Longrightarrow> settle (api request) = Resolved status r \<Longrightarrow>
   \<not> truthy (cookieToken r) \<Longrightarrow> \<not> truthy (jwt r) \<Longrightarrow>
   authenticate c authUrl authUrlV2 api = (Throw NoToken, [Post request])"
  by (simp add: authenticate_def extractToken_order)

lemma authenticate_rejected:
  "authConfig c authUrl authUrlV2 = Inr request \<Longrightarrow> settle (api request) = Rejected \<Longrightarrow>
   authenticate c authUrl authUrlV2 api = (Throw RequestRejected, [Post request])"
  by (simp add: authenticate_def)

text \<open>A failed authentication ends the applications stage and the run.\<close>

lemma fetchApplicationsWithAuth_thrown:
  "applicationsSetup env st = (Throw e, log) \<Longrightarrow>
   fetchApplicationsWithAuth env st = Some ([], log @ [Close])"
  by (simp add: fetchApplicationsWithAuth_def)

lemma main_stops_after_applications:
  "fetchApplicationsWithAuth env \<lparr>files = fs, rl_closed = False\<rparr> = Some ([], log) \<Longrightarrow>
   main env fs = Some ([FetchApplications], log)"
  by (simp add: main_def)

lemma token_samples:
  "cookieToken cookieResponse = Some ''abc''" "extractToken cookieResponse = Inr ''abc''"
  "cookieToken bodyResponse = None" "extractToken bodyResponse = Inr ''J''"
  "cookieToken emptyResponse = None" "extractToken emptyResponse = Inl NoToken"
  by (simp_all add: extractToken_order cookieToken_def cookieResponse_def bodyResponse_def
      emptyResponse_def startsWith_def at_def truthy_def toStr_def)

lemma main_emptyAuthEnv:
  "main emptyAuthEnv emptyOutput
     = Some ([FetchApplications],
             [Post \<lparr>auth_url = ''h://acme/v2'',
                    auth_data = [(''email'', ''me@acme.com''), (''accesstoken'', ''key'')]\<rparr>, Close])"
proof -
  have "applicationsSetup emptyAuthEnv \<lparr>files = emptyOutput, rl_closed = False\<rparr>
     = (Throw NoToken,
        [Post \<lparr>auth_url = ''h://acme/v2'',
               auth_data = [(''email'', ''me@acme.com''), (''accesstoken'', ''key'')]\<rparr>])"
    by (simp add: stage_eval emptyAuthEnv_def emptyAuth_def token_samples)
  from fetchApplicationsWithAuth_thrown [OF this] show ?thesis
    by (simp add: main_stops_after_applications)
qed

text \<open>
  C4, at the input where the code departs from it. The response has the cookie
  \<^verbatim>\<open>access_token=YWJjZA==; Path=/\<close>, whose value is \<^verbatim>\<open>YWJjZA==\<close>. The authenticator does not
  extract that value: \<^verbatim>\<open>tokenCookie.split(';')[0].split('=')[1]\<close> ends at the first equals
  sign of the value, the token is \<^verbatim>\<open>YWJjZA\<close>, and this is the bearer of the requests that
  follow. For the cookie \<^verbatim>\<open>access_token=abc; Path=/\<close> the token is the value \<^verbatim>\<open>abc\<close>.
\<close>

theorem padded_cookie_value_is_cut:
  "set_cookie paddedResponse = Some [''access_token=YWJjZA==; Path=/'']
   \<and> ''access_token=YWJjZA==; Path=/'' = ''access_token='' @ ''YWJjZA=='' @ ''; Path=/''
   \<and> cookieToken paddedResponse = Some ''YWJjZA''
   \<and> extractToken paddedResponse = Inr ''YWJjZA''
   \<and> authenticate sampleConfig ''h://acme/v1'' ''h://acme/v2'' paddedAuth
       = (Next ''YWJjZA'' :: (string, unit) step,
          [Post \<lparr>auth_url = ''h://acme/v2'',
                 auth_data = [(''email'', ''me@acme.com''), (''accesstoken'', ''key'')]\<rparr>])
   \<and> fetchApplicationsWithAuth paddedAuthEnv \<lparr>files = emptyOutput, rl_closed = False\<rparr>
       = Some ([formatApplication sampleApplication],
               [Post \<lparr>auth_url = ''h://acme/v2'',
                      auth_data = [(''email'', ''me@acme.com''), (''accesstoken'', ''key'')]\<rparr>,
                Get (Page ''h://acme/apps'' 25 0) ''YWJjZA'',
                WriteFile applicationsListPath, WriteFile applicationsCsvPath, Close])
   \<and> set_cookie cookieResponse = Some [''sid=1'', ''access_token=abc; Path=/'']
   \<and> cookieToken cookieResponse = Some ''abc''"
proof -
  have t: "cookieToken paddedResponse = Some ''YWJjZA''"
    by (simp add: cookieToken_def paddedResponse_def startsWith_def at_def)
  then have e: "extractToken paddedResponse = Inr ''YWJjZA''"
    by (simp add: extractToken_order truthy_def toStr_def)
  have a: "authenticate sampleConfig ''h://acme/v1'' ''h://acme/v2'' paddedAuth
       = (Next ''YWJjZA'' :: (string, unit) step,
          [Post \<lparr>auth_url = ''h://acme/v2'',
                 auth_data = [(''email'', ''me@acme.com''), (''accesstoken'', ''key'')]\<rparr>])"
    by (simp add: authenticate_def authConfig_def provided_def trim_def isWhiteSpace_def truthy_def
        toStr_def sampleConfig_def paddedAuth_def settle_def validateStatus_def e)
  have s: "applicationsSetup paddedAuthEnv \<lparr>files = emptyOutput, rl_closed = False\<rparr>
     = (Next (''h://acme/apps'', ''YWJjZA''),
        [Post \<lparr>auth_url = ''h://acme/v2'',
               auth_data = [(''email'', ''me@acme.com''), (''accesstoken'', ''key'')]\<rparr>])"
    by (simp add: stage_eval paddedAuthEnv_def paddedAuth_def e)
  have p: "applicationsPages (applications_api paddedAuthEnv)
     = Some (LastPage, [formatApplication sampleApplication], [0])"
    by (simp add: applicationsPages_def pageLoop.simps paddedAuthEnv_def sampleEnv_def
        itemsAtZero_def settle_def validateStatus_def)
  have f: "fetchApplicationsWithAuth paddedAuthEnv \<lparr>files = emptyOutput, rl_closed = False\<rparr>
       = Some ([formatApplication sampleApplication],
               [Post \<lparr>auth_url = ''h://acme/v2'',
                      auth_data = [(''email'', ''me@acme.com''), (''accesstoken'', ''key'')]\<rparr>,
                Get (Page ''h://acme/apps'' 25 0) ''YWJjZA'',
                WriteFile applicationsListPath, WriteFile applicationsCsvPath, Close])"
    by (simp add: fetchApplicationsWithAuth_def s p)
  show ?thesis
    by (simp add: t e a f token_samples) (simp add: paddedResponse_def cookieResponse_def)
qed

subsection \<open>Declined prompts and the orchestrator\<close>

lemma afterEffects_append: "afterEffects (a @ b) st = afterEffects b (afterEffects a st)"
  by (simp add: afterEffects_def)

lemma rl_closed_afterEffects: "rl_closed st \<Longrightarrow> rl_closed (afterEffects log st)"
proof (induction log arbitrary: st)
  case Nil
  then show ?case by (simp add: afterEffects_def)
next
  case (Cons e log)
  have "rl_closed (effectOn e st)"
    using Cons.prems by (cases e) (simp_all add: effectOn_def)
  from Cons.IH [OF this] show ?case by (simp add: afterEffects_def)
qed

text \<open>The applications stage closes the readline interface on every way out.\<close>

lemma fetchApplicationsWithAuth_Close:
  assumes "fetchApplicationsWithAuth env st = Some (r, log)"
  shows "\<exists>log'. log = log' @ [Close]"
proof (cases "applicationsSetup env st")
  case (Pair s l)
  show ?thesis
  proof (cases s)
    case (Next x)
    obtain base token where x: "x = (base, token)" by (cases x)
    from assms Pair Next x obtain stop items requested where
      "applicationsPages (applications_api env) = Some (stop, items, requested)"
      and "(r, log) = (let log' = l @ map (\<lambda>offset. Get (Page base 25 offset) token) requested
               in if stop = Thrown then ([], log' @ [Close])
                  else (items, log' @ [WriteFile applicationsListPath, WriteFile applicationsCsvPath, Close]))"
      by (auto simp: fetchApplicationsWithAuth_def)
    then show ?thesis
      by (cases "stop = Thrown") (simp_all add: Let_def)
  next
    case (Return x)
    with assms Pair show ?thesis by (auto simp: fetchApplicationsWithAuth_def)
  next
    case (Throw e)
    with assms Pair show ?thesis by (auto simp: fetchApplicationsWithAuth_def)
  qed
qed

lemma closed_after_applications:
  assumes "fetchApplicationsWithAuth env st = Some (r, l1)"
  shows "rl_closed (afterEffects (l1 @ l) st)"
proof -
  from fetchApplicationsWithAuth_Close [OF assms] obtain l' where "l1 = l' @ [Close]" by blast
  then have "afterEffects (l1 @ l) st = afterEffects l (effectOn Close (afterEffects l' st))"
    by (simp add: afterEffects_def)
  moreover have "rl_closed (effectOn Close (afterEffects l' st))"
    by (simp add: effectOn_def)
  ultimately show ?thesis by (simp add: rl_closed_afterEffects)
qed

lemma declined_json:
  assumes "files st outputDirectory = Found" "files st applicationsListPath = Found" "\<not> rl_closed st"
    "declines (askQuestion env applicationsJsonQuery)"
  shows "fetchApplicationsWithAuth env st = Some ([], [Question applicationsJsonQuery, Close, Close])"
  using assms
  by (simp add: fetchApplicationsWithAuth_def applicationsSetup_def Let_def andThen_def
      ensureOutputDirectoryExists_def confirmDelete_def)

lemma declined_csv:
  assumes "files st outputDirectory = Found" "files st applicationsListPath = NoEntry"
    "files st applicationsCsvPath = Found" "\<not> rl_closed st"
    "declines (askQuestion env applicationsCsvQuery)"
  shows "fetchApplicationsWithAuth env st = Some ([], [Question applicationsCsvQuery, Close, Close])"
  using assms
  by (simp add: fetchApplicationsWithAuth_def applicationsSetup_def Let_def andThen_def
      ensureOutputDirectoryExists_def confirmDelete_def)

lemma declined_csv_after_json:
  assumes "files st outputDirectory = Found" "files st applicationsListPath = Found"
    "\<not> declines (askQuestion env applicationsJsonQuery)"
    "files st applicationsCsvPath = Found" "\<not> rl_closed st"
    "declines (askQuestion env applicationsCsvQuery)"
  shows "fetchApplicationsWithAuth env st
           = Some ([], [Question applicationsJsonQuery, Unlink applicationsListPath,
                        Question applicationsCsvQuery, Close, Close])"
  using assms
  by (simp add: fetchApplicationsWithAuth_def applicationsSetup_def Let_def andThen_def
      ensureOutputDirectoryExists_def confirmDelete_def)

lemma branches_prompt_closed:
  assumes "files st outputDirectory = Found" "files st branchesListPath = Found" "rl_closed st"
  shows "fetchBranchesWithAuth env st = Some ([], [Close])"
  using assms
  by (simp add: fetchBranchesWithAuth_def branchesSetup_def Let_def andThen_def
      ensureOutputDirectoryExists_def confirmDelete_def)

text \<open>
  C8. When \<^verbatim>\<open>applicationsList.json\<close> or \<^verbatim>\<open>applicationsList.csv\<close> is there and the answer at
  the prompt is not \<^verbatim>\<open>yes\<close> or \<^verbatim>\<open>y\<close>, the applications stage returns the empty array by its
  \<^verbatim>\<open>return\<close> statement: it does not throw, it sends no request and it deletes and writes no
  file after the answer. The branches stage is the other one with a prompt; \<^verbatim>\<open>main\<close> reaches
  it only after the applications stage has closed the readline interface, so when
  \<^verbatim>\<open>branchesList.json\<close> is there nobody is asked: the prompt throws, the \<^verbatim>\<open>catch\<close> of the stage
  returns the empty array, and nothing else happens. Whenever a stage gives an empty
  array, \<^verbatim>\<open>main\<close> returns: the calls and the effects of the run are those of the stages up
  to that one, and no later stage is called.
\<close>

theorem decline_returns_empty_and_main_halts:
  "(files st outputDirectory = Found \<and> files st applicationsListPath = Found \<and> \<not> rl_closed st
      \<and> declines (askQuestion env applicationsJsonQuery) \<longrightarrow>
      fetchApplicationsWithAuth env st = Some ([], [Question applicationsJsonQuery, Close, Close]))
   \<and> (files st outputDirectory = Found \<and> files st applicationsListPath = NoEntry
      \<and> files st applicationsCsvPath = Found \<and> \<not> rl_closed st
      \<and> declines (askQuestion env applicationsCsvQuery) \<longrightarrow>
      fetchApplicationsWithAuth env st = Some ([], [Question applicationsCsvQuery, Close, Close]))
   \<and> (files st outputDirectory = Found \<and> files st applicationsListPath = Found
      \<and> \<not> declines (askQuestion env applicationsJsonQuery)
      \<and> files st applicationsCsvPath = Found \<and> \<not> rl_closed st
      \<and> declines (askQuestion env applicationsCsvQuery) \<longrightarrow>
      fetchApplicationsWithAuth env st
        = Some ([], [Question applicationsJsonQuery, Unlink applicationsListPath,
                     Question applicationsCsvQuery, Close, Close]))
   \<and> (fetchApplicationsWithAuth env st = Some (allApplications, l1) \<longrightarrow>
      rl_closed (afterEffects (l1 @ l2 @ l3) st))
   \<and> (files st outputDirectory = Found \<and> files st branchesListPath = Found \<and> rl_closed st \<longrightarrow>
      fetchBranchesWithAuth env st = Some ([], [Close]))
   \<and> (fetchApplicationsWithAuth env \<lparr>files = fs, rl_closed = False\<rparr> = Some ([], l1) \<longrightarrow>
      main env fs = Some ([FetchApplications], l1))
   \<and> (fetchApplicationsWithAuth env \<lparr>files = fs, rl_closed = False\<rparr> = Some (allApplications, l1)
      \<and> allApplications \<noteq> []
      \<and> fetchProjectsWithAuth env (afterEffects l1 \<lparr>files = fs, rl_closed = False\<rparr>) = Some ([], l2) \<longrightarrow>
      main env fs = Some ([FetchApplications, FetchProjects], l1 @ l2))
   \<and> (fetchApplicationsWithAuth env \<lparr>files = fs, rl_closed = False\<rparr> = Some (allApplications, l1)
      \<and> allApplications \<noteq> []
      \<and> fetchProjectsWithAuth env (afterEffects l1 \<lparr>files = fs, rl_closed = False\<rparr>)
          = Some (allProjects, l2)
      \<and> allProjects \<noteq> []
      \<and> fetchRoleAssignments env allProjects = ([], l3) \<longrightarrow>
      main env fs
        = Some ([FetchApplications, FetchProjects, FetchRoleAssignments allProjects], l1 @ l2 @ l3))
   \<and> (fetchApplicationsWithAuth env \<lparr>files = fs, rl_closed = False\<rparr> = Some (allApplications, l1)
      \<and> allApplications \<noteq> []
      \<and> fetchProjectsWithAuth env (afterEffects l1 \<lparr>files = fs, rl_closed = False\<rparr>)
          = Some (allProjects, l2)
      \<and> allProjects \<noteq> []
      \<and> fetchRoleAssignments env allProjects = (allDetails, l3) \<and> allDetails \<noteq> []
      \<and> fetchBranchesWithAuth env (afterEffects (l1 @ l2 @ l3) \<lparr>files = fs, rl_closed = False\<rparr>)
          = Some ([], l4) \<longrightarrow>
      main env fs
        = Some ([FetchApplications, FetchProjects, FetchRoleAssignments allProjects, FetchBranches],
                l1 @ l2 @ l3 @ l4))
   \<and> (fetchApplicationsWithAuth env \<lparr>files = fs, rl_closed = False\<rparr> = Some (allApplications, l1)
      \<and> allApplications \<noteq> []
      \<and> fetchProjectsWithAuth env (afterEffects l1 \<lparr>files = fs, rl_closed = False\<rparr>)
          = Some (allProjects, l2)
      \<and> allProjects \<noteq> []
      \<and> fetchRoleAssignments env allProjects = (allDetails, l3) \<and> allDetails \<noteq> []
      \<and> fetchBranchesWithAuth env (afterEffects (l1 @ l2 @ l3) \<lparr>files = fs, rl_closed = False\<rparr>)
          = Some (allBranches, l4)
      \<and> allBranches \<noteq> [] \<longrightarrow>
      main env fs
        = Some ([FetchApplications, FetchProjects, FetchRoleAssignments allProjects, FetchBranches,
                 AssociateProjectsToBranches allProjects allBranches],
                l1 @ l2 @ l3 @ l4))"
proof (intro conjI impI)
  assume "files st outputDirectory = Found \<and> files st applicationsListPath = Found \<and> \<not> rl_closed st
      \<and> declines (askQuestion env applicationsJsonQuery)"
  then show "fetchApplicationsWithAuth env st = Some ([], [Question applicationsJsonQuery, Close, Close])"
    by (simp add: declined_json)
next
  assume "files st outputDirectory = Found \<and> files st applicationsListPath = NoEntry
      \<and> files st applicationsCsvPath = Found \<and> \<not> rl_closed st
      \<and> declines (askQuestion env applicationsCsvQuery)"
  then show "fetchApplicationsWithAuth env st = Some ([], [Question applicationsCsvQuery, Close, Close])"
    by (simp add: declined_csv)
next
  assume "files st outputDirectory = Found \<and> files st applicationsListPath = Found
      \<and> \<not> declines (askQuestion env applicationsJsonQuery)
      \<and> files st applicationsCsvPath = Found \<and> \<not> rl_closed st
      \<and> declines (askQuestion env applicationsCsvQuery)"
  then show "fetchApplicationsWithAuth env st
        = Some ([], [Question applicationsJsonQuery, Unlink applicationsListPath,
                     Question applicationsCsvQuery, Close, Close])"
    by (simp add: declined_csv_after_json)
next
  assume "fetchApplicationsWithAuth env st = Some (allApplications, l1)"
  then show "rl_closed (afterEffects (l1 @ l2 @ l3) st)"
    by (rule closed_after_applications)
next
  assume "files st outputDirectory = Found \<and> files st branchesListPath = Found \<and> rl_closed st"
  then show "fetchBranchesWithAuth env st = Some ([], [Close])"
    by (simp add: branches_prompt_closed)
qed (simp_all add: main_def)

theorem decline_returns_empty_and_main_halts_witness:
  "fetchApplicationsWithAuth sampleEnv \<lparr>files = outputWith applicationsListPath, rl_closed = False\<rparr>
     = Some ([], [Question applicationsJsonQuery, Close, Close])
   \<and> fetchApplicationsWithAuth sampleEnv \<lparr>files = outputWith applicationsCsvPath, rl_closed = False\<rparr>
     = Some ([], [Question applicationsCsvQuery, Close, Close])
   \<and> fetchApplicationsWithAuth yesToJsonEnv \<lparr>files = applicationsOutput, rl_closed = False\<rparr>
     = Some ([], [Question applicationsJsonQuery, Unlink applicationsListPath,
                  Question applicationsCsvQuery, Close, Close])
   \<and> fetchApplicationsWithAuth sampleEnv \<lparr>files = emptyOutput, rl_closed = False\<rparr>
     = Some ([formatApplication sampleApplication], applicationsLog)
   \<and> rl_closed (afterEffects (applicationsLog @ projectsLog @ rolesLog)
                   \<lparr>files = emptyOutput, rl_closed = False\<rparr>)
   \<and> fetchBranchesWithAuth sampleEnv \<lparr>files = outputWith branchesListPath, rl_closed = True\<rparr>
     = Some ([], [Close])
   \<and> main sampleEnv (outputWith applicationsListPath)
     = Some ([FetchApplications], [Question applicationsJsonQuery, Close, Close])
   \<and> main noProjectsEnv emptyOutput
     = Some ([FetchApplications, FetchProjects], applicationsLog @ projectsLog)
   \<and> main noRolesEnv emptyOutput
     = Some ([FetchApplications, FetchProjects, FetchRoleAssignments [formatProject sampleProject]],
             applicationsLog @ projectsLog @ rolesLog)
   \<and> main sampleEnv (outputWith branchesListPath)
     = Some ([FetchApplications, FetchProjects, FetchRoleAssignments [formatProject sampleProject],
              FetchBranches],
             applicationsLog @ projectsLog @ rolesLog @ [Close])
   \<and> main noBranchesEnv emptyOutput
     = Some ([FetchApplications, FetchProjects, FetchRoleAssignments [formatProject sampleProject],
              FetchBranches],
             applicationsLog @ projectsLog @ rolesLog @ branchesLog)
   \<and> main sampleEnv emptyOutput
     = Some ([FetchApplications, FetchProjects, FetchRoleAssignments [formatProject sampleProject],
              FetchBranches,
              AssociateProjectsToBranches [formatProject sampleProject] [sampleBranch]],
             applicationsLog @ projectsLog @ rolesLog @ branchesLog)"
proof -
  let ?open = "\<lambda>fs. \<lparr>files = fs, rl_closed = False\<rparr>"
  let ?p = "formatProject sampleProject"
  let ?d = "usersOf ?p aliceAndQA @ groupsOf ?p aliceAndQA"
  note T = decline_returns_empty_and_main_halts
  have envs:
    "\<And>e. e \<in> {sampleEnv, noProjectsEnv, noRolesEnv, noBranchesEnv} \<Longrightarrow>
       configFile e = sampleConfig \<and> auth_api e = cookieAuth
       \<and> applications_api e = itemsAtZero [sampleApplication]"
    by (auto simp: sampleEnv_def noProjectsEnv_def noRolesEnv_def noBranchesEnv_def)
  have no: "askQuestion sampleEnv = (\<lambda>query. ''no'')"
    by (simp add: sampleEnv_def)
  have pid: "project_id ?p = ''P1''"
    by (simp add: formatProject_def sampleProject_def)
  have d: "?d \<noteq> []"
    by (simp add: usersOf_def groupsOf_def aliceAndQA_def)

  \<comment> \<open>the prompts\<close>
  have j: "fetchApplicationsWithAuth sampleEnv (?open (outputWith applicationsListPath))
             = Some ([], [Question applicationsJsonQuery, Close, Close])"
    by (rule T [where env = sampleEnv and st = "?open (outputWith applicationsListPath)",
                THEN conjunct1, THEN mp])
       (simp add: outputWith_def no declines_no)
  have c: "fetchApplicationsWithAuth sampleEnv (?open (outputWith applicationsCsvPath))
             = Some ([], [Question applicationsCsvQuery, Close, Close])"
    by (rule T [where env = sampleEnv and st = "?open (outputWith applicationsCsvPath)",
                THEN conjunct2, THEN conjunct1, THEN mp])
       (simp add: outputWith_def no declines_no path_defs)
  have y: "fetchApplicationsWithAuth yesToJsonEnv (?open applicationsOutput)
             = Some ([], [Question applicationsJsonQuery, Unlink applicationsListPath,
                          Question applicationsCsvQuery, Close, Close])"
    by (rule T [where env = yesToJsonEnv and st = "?open applicationsOutput",
                THEN conjunct2, THEN conjunct2, THEN conjunct1, THEN mp])
       (simp add: applicationsOutput_def yesToJsonEnv_def sampleEnv_def declines_no not_declines_yes
          applicationsJsonQuery_def applicationsCsvQuery_def)

  \<comment> \<open>the stages of the sample runs\<close>
  have a: "fetchApplicationsWithAuth e (?open emptyOutput)
             = Some ([formatApplication sampleApplication], applicationsLog)"
    if "e \<in> {sampleEnv, noProjectsEnv, noRolesEnv, noBranchesEnv}" for e
    using envs [OF that]
    by (intro applications_stage_sample) (simp_all add: emptyOutput_def path_defs)
  have a': "fetchApplicationsWithAuth sampleEnv (?open (outputWith branchesListPath))
             = Some ([formatApplication sampleApplication], applicationsLog)"
    using envs [of sampleEnv]
    by (intro applications_stage_sample) (simp_all add: outputWith_def path_defs)
  have p: "fetchProjectsWithAuth e (afterEffects applicationsLog (?open fs)) = Some ([?p], projectsLog)"
    if "e \<in> {sampleEnv, noRolesEnv, noBranchesEnv}" "fs \<in> {emptyOutput, outputWith branchesListPath}"
    for e fs
  proof -
    have "projects_api e = itemsAtZero [sampleProject]"
      using that(1) by (auto simp: sampleEnv_def noRolesEnv_def noBranchesEnv_def)
    moreover have "configFile e = sampleConfig" "auth_api e = cookieAuth"
      using envs [of e] that(1) by auto
    moreover have "files (afterEffects applicationsLog (?open fs)) outputDirectory = Found"
      "files (afterEffects applicationsLog (?open fs)) projectListPath = NoEntry"
      using that(2) by (auto simp: after_sample_logs emptyOutput_def outputWith_def path_defs)
    ultimately have "fetchProjectsWithAuth e (afterEffects applicationsLog (?open fs))
                       = Some (map formatProject [sampleProject], projectsLog)"
      by (intro projects_stage_sample) simp_all
    then show ?thesis by simp
  qed
  have p0: "fetchProjectsWithAuth noProjectsEnv (afterEffects applicationsLog (?open emptyOutput))
              = Some ([], projectsLog)"
  proof -
    have "fetchProjectsWithAuth noProjectsEnv (afterEffects applicationsLog (?open emptyOutput))
            = Some (map formatProject [], projectsLog)"
      using envs [of noProjectsEnv]
      by (intro projects_stage_sample)
         (simp_all add: noProjectsEnv_def after_sample_logs emptyOutput_def path_defs)
    then show ?thesis by simp
  qed
  have r: "fetchRoleAssignments e [?p] = (?d, rolesLog)" if "e \<in> {sampleEnv, noBranchesEnv}" for e
    using envs [of e] that
    by (intro roles_stage_sample)
       (auto simp: sampleEnv_def noBranchesEnv_def rolesOfAll_def pid)
  have r0: "fetchRoleAssignments noRolesEnv [?p] = ([], rolesLog)"
  proof -
    have "fetchRoleAssignments noRolesEnv [?p] = (usersOf ?p [] @ groupsOf ?p [], rolesLog)"
      using envs [of noRolesEnv]
      by (intro roles_stage_sample) (simp_all add: noRolesEnv_def pid)
    then show ?thesis by (simp add: usersOf_def groupsOf_def)
  qed
  have after3: "afterEffects (applicationsLog @ projectsLog @ rolesLog) (?open fs)
          = \<lparr>files = fs(applicationsListPath := Found, applicationsCsvPath := Found,
                         projectListPath := Found, detailsListPath := Found, detailsCsvPath := Found),
             rl_closed = True\<rparr>" for fs
    by (simp add: afterEffects_append after_sample_logs)
  have b: "fetchBranchesWithAuth sampleEnv
             (afterEffects (applicationsLog @ projectsLog @ rolesLog) (?open emptyOutput))
           = Some ([sampleBranch], branchesLog)"
    using envs [of sampleEnv]
    by (intro branches_stage_sample)
       (simp_all add: sampleEnv_def after3 emptyOutput_def path_defs)
  have b0: "fetchBranchesWithAuth noBranchesEnv
             (afterEffects (applicationsLog @ projectsLog @ rolesLog) (?open emptyOutput))
           = Some ([], branchesLog)"
    using envs [of noBranchesEnv]
    by (intro branches_stage_sample)
       (simp_all add: noBranchesEnv_def after3 emptyOutput_def path_defs)

  \<comment> \<open>the readline interface at the branches stage\<close>
  have closed: "rl_closed (afterEffects (applicationsLog @ projectsLog @ rolesLog) (?open emptyOutput))"
    by (rule T [where env = sampleEnv and st = "?open emptyOutput"
                  and ?l1.0 = applicationsLog and ?l2.0 = projectsLog and ?l3.0 = rolesLog,
                THEN conjunct2, THEN conjunct2, THEN conjunct2, THEN conjunct1, THEN mp])
       (rule a, simp)
  have bc: "fetchBranchesWithAuth sampleEnv \<lparr>files = outputWith branchesListPath, rl_closed = True\<rparr>
              = Some ([], [Close])"
    by (rule T [where env = sampleEnv and st = "\<lparr>files = outputWith branchesListPath, rl_closed = True\<rparr>",
                THEN conjunct2, THEN conjunct2, THEN conjunct2, THEN conjunct2, THEN conjunct1,
                THEN mp])
       (simp add: outputWith_def)
  have bc': "fetchBranchesWithAuth sampleEnv
               (afterEffects (applicationsLog @ projectsLog @ rolesLog)
                  (?open (outputWith branchesListPath)))
              = Some ([], [Close])"
    by (rule T [where env = sampleEnv
                  and st = "afterEffects (applicationsLog @ projectsLog @ rolesLog)
                              (?open (outputWith branchesListPath))",
                THEN conjunct2, THEN conjunct2, THEN conjunct2, THEN conjunct2, THEN conjunct1,
                THEN mp])
       (simp add: after3 outputWith_def path_defs)

  \<comment> \<open>the runs\<close>
  note A = T [where allApplications = "[formatApplication sampleApplication]" and allDetails = ?d,
               THEN conjunct2, THEN conjunct2, THEN conjunct2, THEN conjunct2, THEN conjunct2]
  have m1: "main sampleEnv (outputWith applicationsListPath)
     = Some ([FetchApplications], [Question applicationsJsonQuery, Close, Close])"
    by (rule A [THEN conjunct1, THEN mp]) (rule j)
  have m2: "main noProjectsEnv emptyOutput
     = Some ([FetchApplications, FetchProjects], applicationsLog @ projectsLog)"
    by (rule A [THEN conjunct2, THEN conjunct1, THEN mp]) (simp add: a p0)
  have m3: "main noRolesEnv emptyOutput
     = Some ([FetchApplications, FetchProjects, FetchRoleAssignments [?p]],
             applicationsLog @ projectsLog @ rolesLog)"
    by (rule A [THEN conjunct2, THEN conjunct2, THEN conjunct1, THEN mp]) (simp add: a p r0)
  have m4: "main sampleEnv (outputWith branchesListPath)
     = Some ([FetchApplications, FetchProjects, FetchRoleAssignments [?p], FetchBranches],
             applicationsLog @ projectsLog @ rolesLog @ [Close])"
    by (rule A [THEN conjunct2, THEN conjunct2, THEN conjunct2, THEN conjunct1, THEN mp])
       (insert d, simp add: a' p r bc')
  have m5: "main noBranchesEnv emptyOutput
     = Some ([FetchApplications, FetchProjects, FetchRoleAssignments [?p], FetchBranches],
             applicationsLog @ projectsLog @ rolesLog @ branchesLog)"
    by (rule A [THEN conjunct2, THEN conjunct2, THEN conjunct2, THEN conjunct1, THEN mp])
       (insert d, simp add: a p r b0)
  have m6: "main sampleEnv emptyOutput
     = Some ([FetchApplications, FetchProjects, FetchRoleAssignments [?p], FetchBranches,
              AssociateProjectsToBranches [?p] [sampleBranch]],
             applicationsLog @ projectsLog @ rolesLog @ branchesLog)"
    by (rule A [THEN conjunct2, THEN conjunct2, THEN conjunct2, THEN conjunct2, THEN mp])
       (insert d, simp add: a p r b)
  show ?thesis
    by (intro conjI) (rule j, rule c, rule y, rule a, simp, rule closed, rule bc, rule m1, rule m2,
        rule m3, rule m4, rule m5, rule m6)
qed

subsection \<open>The project map\<close>

text \<open>The own properties as a table: the keys in creation order, each with its aggregate.\<close>

lemma map_of_table:
  "map_of (map (\<lambda>k. (k, g k)) ks) k = (if k \<in> set ks then Some (g k) else None)"
  by (induction ks) auto

lemma update_table_in:
  "distinct ks \<Longrightarrow> k \<in> set ks \<Longrightarrow>
   AList.update k v (map (\<lambda>k'. (k', g k')) ks) = map (\<lambda>k'. (k', if k' = k then v else g k')) ks"
  by (induction ks) auto

lemma update_table_notin:
  "k \<notin> set ks \<Longrightarrow>
   AList.update k v (map (\<lambda>k'. (k', g k')) ks) = map (\<lambda>k'. (k', g k')) ks @ [(k, v)]"
  by (induction ks) auto

lemma firstSeen_snoc:
  "firstSeen (xs @ [x]) = (if x \<in> set xs then firstSeen xs else firstSeen xs @ [x])"
  by (simp add: firstSeen_def)

lemma distinct_firstSeen: "distinct (firstSeen xs)"
  by (simp add: firstSeen_def)

lemma set_firstSeen: "set (firstSeen xs) = set xs"
  by (simp add: firstSeen_def)

lemma set_ownProjectIds:
  "set (ownProjectIds ps) = {k. k \<noteq> ''__proto__'' \<and> (\<exists>p\<in>set ps. project_id p = k)}"
  by (auto simp: ownProjectIds_def set_firstSeen)

lemma own_buildProjectMap:
  "own (buildProjectMap ps)
     = map (\<lambda>k. (k, initialAggregate (projectOf ps k))) (ownProjectIds ps)"
proof (induction ps rule: rev_induct)
  case Nil
  then show ?case by (simp add: buildProjectMap_def ownProjectIds_def firstSeen_def)
next
  case (snoc p ps)
  let ?m = "buildProjectMap ps"
  have step: "buildProjectMap (ps @ [p]) = setProject (project_id p) (initialAggregate p) ?m"
    by (simp add: buildProjectMap_def)
  show ?case
  proof (cases "project_id p = ''__proto__''")
    case True
    have keys: "ownProjectIds (ps @ [p]) = ownProjectIds ps"
      using True by (simp add: ownProjectIds_def)
    have "\<And>k. k \<in> set (ownProjectIds ps) \<Longrightarrow> projectOf (ps @ [p]) k = projectOf ps k"
      using True by (auto simp: set_ownProjectIds projectOf_def)
    then have "map (\<lambda>k. (k, initialAggregate (projectOf (ps @ [p]) k))) (ownProjectIds ps)
             = map (\<lambda>k. (k, initialAggregate (projectOf ps k))) (ownProjectIds ps)"
      by simp
    with True snoc.IH keys show ?thesis
      by (simp add: step setProject_def)
  next
    case False
    have own: "own (buildProjectMap (ps @ [p]))
        = AList.update (project_id p) (initialAggregate p)
            (map (\<lambda>k. (k, initialAggregate (projectOf ps k))) (ownProjectIds ps))"
      using False snoc.IH by (simp add: step setProject_def)
    have last: "projectOf (ps @ [p]) (project_id p) = p"
      by (simp add: projectOf_def)
    have other: "\<And>k. k \<noteq> project_id p \<Longrightarrow> projectOf (ps @ [p]) k = projectOf ps k"
      by (simp add: projectOf_def)
    show ?thesis
    proof (cases "project_id p \<in> set (ownProjectIds ps)")
      case True
      then have keys: "ownProjectIds (ps @ [p]) = ownProjectIds ps"
        using False by (simp add: ownProjectIds_def firstSeen_snoc set_firstSeen)
      have "own (buildProjectMap (ps @ [p]))
          = map (\<lambda>k. (k, if k = project_id p then initialAggregate p
                          else initialAggregate (projectOf ps k))) (ownProjectIds ps)"
        unfolding own using distinct_firstSeen True
        by (intro update_table_in) (simp_all add: ownProjectIds_def)
      also have "\<dots> = map (\<lambda>k. (k, initialAggregate (projectOf (ps @ [p]) k))) (ownProjectIds ps)"
        using last other by (intro map_cong) auto
      finally show ?thesis by (simp add: keys)
    next
      case notin: False
      then have keys: "ownProjectIds (ps @ [p]) = ownProjectIds ps @ [project_id p]"
        using False by (simp add: ownProjectIds_def firstSeen_snoc set_firstSeen)
      have "own (buildProjectMap (ps @ [p]))
          = map (\<lambda>k. (k, initialAggregate (projectOf ps k))) (ownProjectIds ps)
            @ [(project_id p, initialAggregate p)]"
        unfolding own using notin by (rule update_table_notin)
      also have "map (\<lambda>k. (k, initialAggregate (projectOf ps k))) (ownProjectIds ps)
          = map (\<lambda>k. (k, initialAggregate (projectOf (ps @ [p]) k))) (ownProjectIds ps)"
      proof (intro map_cong refl)
        fix k assume "k \<in> set (ownProjectIds ps)"
        with notin have "k \<noteq> project_id p" by auto
        then show "(k, initialAggregate (projectOf ps k))
                     = (k, initialAggregate (projectOf (ps @ [p]) k))"
          by (simp add: other)
      qed
      finally show ?thesis by (simp add: keys last)
    qed
  qed
qed

text \<open>
  A \<^verbatim>\<open>forEach\<close> that ends without an error has changed the aggregates under the keys of
  its items and nothing else of the own properties.
\<close>

lemma forEach_own:
  assumes step: "\<And>m x m' g. f m x = Inr m' \<Longrightarrow> own m = map (\<lambda>k. (k, g k)) ks \<Longrightarrow>
                   own m' = map (\<lambda>k. (k, if k = key x then upd x (g k) else g k)) ks"
  shows "forEach f xs m = Inr m' \<Longrightarrow> own m = map (\<lambda>k. (k, g k)) ks \<Longrightarrow>
         own m' = map (\<lambda>k. (k, fold upd (filter (\<lambda>x. key x = k) xs) (g k))) ks"
proof (induction xs arbitrary: m g)
  case Nil
  then show ?case by simp
next
  case (Cons x xs)
  from Cons.prems(1) obtain m1 where m1: "f m x = Inr m1" "forEach f xs m1 = Inr m'"
    by (auto split: sum.splits)
  from step [OF m1(1) Cons.prems(2)]
  have "own m1 = map (\<lambda>k. (k, if k = key x then upd x (g k) else g k)) ks" .
  from Cons.IH [OF m1(2) this]
  have "own m' = map (\<lambda>k. (k, fold upd (filter (\<lambda>x. key x = k) xs)
                               (if k = key x then upd x (g k) else g k))) ks" .
  also have "\<dots> = map (\<lambda>k. (k, fold upd (filter (\<lambda>x. key x = k) (x # xs)) (g k))) ks"
    by (intro map_cong) auto
  finally show ?case .
qed

lemma inherited_not_Own: "inherited k \<noteq> Own a"
  by (simp add: inherited_def)

lemma getProject_Own_iff: "getProject m k = Own a \<longleftrightarrow> map_of (own m) k = Some a"
  by (simp add: getProject_def inherited_not_Own split: option.splits)

lemma getProject_Own:
  "own m = map (\<lambda>k. (k, g k)) ks \<Longrightarrow>
   getProject m k = Own a \<longleftrightarrow> k \<in> set ks \<and> a = g k"
  by (auto simp: getProject_Own_iff map_of_table)

lemma getProject_not_own:
  "own m = map (\<lambda>k. (k, g k)) ks \<Longrightarrow> k \<notin> set ks \<Longrightarrow> getProject m k \<noteq> Own a"
  by (simp add: getProject_Own)

lemma putProject_own:
  assumes "own m = map (\<lambda>k. (k, g k)) ks" "distinct ks"
  shows "own (putProject k (getProject m k) (upd (case getProject m k of Own a \<Rightarrow> a | Prototype a \<Rightarrow> a)) m)
           = map (\<lambda>k'. (k', if k' = k then upd (g k') else g k')) ks"
proof (cases "getProject m k")
  case (Own a)
  with getProject_Own [OF assms(1)] have k: "k \<in> set ks" "a = g k" by auto
  have "AList.update k (upd a) (map (\<lambda>k. (k, g k)) ks)
          = map (\<lambda>k'. (k', if k' = k then upd a else g k')) ks"
    using assms(2) k(1) by (rule update_table_in)
  also have "\<dots> = map (\<lambda>k'. (k', if k' = k then upd (g k') else g k')) ks"
    using k(2) by (intro map_cong) auto
  finally show ?thesis using Own assms(1) by (simp add: putProject_def)
next
  case (Prototype a)
  with getProject_Own [OF assms(1), of k "g k"] have "k \<notin> set ks" by auto
  then have "map (\<lambda>k. (k, g k)) ks = map (\<lambda>k'. (k', if k' = k then upd (g k') else g k')) ks"
    by (intro map_cong) auto
  with Prototype assms(1) show ?thesis by (simp add: putProject_def)
next
  case Other
  with getProject_Own [OF assms(1), of k "g k"] have "k \<notin> set ks" by auto
  then have "map (\<lambda>k. (k, g k)) ks = map (\<lambda>k'. (k', if k' = k then upd (g k') else g k')) ks"
    by (intro map_cong) auto
  with Other assms(1) show ?thesis by (simp add: putProject_def)
next
  case Falsy
  with getProject_Own [OF assms(1), of k "g k"] have "k \<notin> set ks" by auto
  then have "map (\<lambda>k. (k, g k)) ks = map (\<lambda>k'. (k', if k' = k then upd (g k') else g k')) ks"
    by (intro map_cong) auto
  with Falsy assms(1) show ?thesis by (simp add: putProject_def)
qed

lemma addBranch_Inr:
  "addBranch m b = Inr m' \<Longrightarrow>
   m' = putProject (branch_project b) (getProject m (branch_project b))
          ((\<lambda>a. a\<lparr>branches := branches a @ [branch_name b]\<rparr>)
             (case getProject m (branch_project b) of Own a \<Rightarrow> a | Prototype a \<Rightarrow> a)) m"
  by (auto simp: addBranch_def putProject_def split: member.splits)

lemma addDetail_Inr:
  "addDetail m d = Inr m' \<Longrightarrow>
   m' = putProject (detail_projectId d) (getProject m (detail_projectId d))
          (pushDetail d (case getProject m (detail_projectId d) of Own a \<Rightarrow> a | Prototype a \<Rightarrow> a)) m"
  by (auto simp: addDetail_def putProject_def split: member.splits if_splits)

lemma forEach_addBranch_own:
  assumes "forEach addBranch bs m = Inr m'" "own m = map (\<lambda>k. (k, g k)) ks" "distinct ks"
  shows "own m' = map (\<lambda>k. (k, fold (\<lambda>b a. a\<lparr>branches := branches a @ [branch_name b]\<rparr>)
                                  (filter (\<lambda>b. branch_project b = k) bs) (g k))) ks"
proof (rule forEach_own [where f = addBranch and key = branch_project, OF _ assms(1,2)])
  fix m b m' g
  assume "addBranch m b = Inr m'" and own: "own m = map (\<lambda>k. (k, g k)) ks"
  note m' = addBranch_Inr [OF this(1)]
  have "own (putProject (branch_project b) (getProject m (branch_project b))
          ((\<lambda>a. a\<lparr>branches := branches a @ [branch_name b]\<rparr>)
             (case getProject m (branch_project b) of Own a \<Rightarrow> a | Prototype a \<Rightarrow> a)) m)
        = map (\<lambda>k. (k, if k = branch_project b
                        then (\<lambda>a. a\<lparr>branches := branches a @ [branch_name b]\<rparr>) (g k)
                        else g k)) ks"
    by (rule putProject_own [OF own assms(3)])
  then show "own m' = map (\<lambda>k. (k, if k = branch_project b
                               then (g k)\<lparr>branches := branches (g k) @ [branch_name b]\<rparr>
                               else g k)) ks"
    unfolding m' .
qed

lemma forEach_addDetail_own:
  assumes "forEach addDetail ds m = Inr m'" "own m = map (\<lambda>k. (k, g k)) ks" "distinct ks"
  shows "own m' = map (\<lambda>k. (k, fold pushDetail (filter (\<lambda>d. detail_projectId d = k) ds) (g k))) ks"
proof (rule forEach_own [where f = addDetail and key = detail_projectId, OF _ assms(1,2)])
  fix m d m' g
  assume "addDetail m d = Inr m'" and own: "own m = map (\<lambda>k. (k, g k)) ks"
  note m' = addDetail_Inr [OF this(1)]
  have "own (putProject (detail_projectId d) (getProject m (detail_projectId d))
          (pushDetail d (case getProject m (detail_projectId d) of Own a \<Rightarrow> a | Prototype a \<Rightarrow> a)) m)
        = map (\<lambda>k. (k, if k = detail_projectId d then pushDetail d (g k) else g k)) ks"
    by (rule putProject_own [OF own assms(3)])
  then show "own m' = map (\<lambda>k. (k, if k = detail_projectId d then pushDetail d (g k) else g k)) ks"
    unfolding m' .
qed

lemma fold_push_branches:
  "fold (\<lambda>b a. a\<lparr>branches := branches a @ [branch_name b]\<rparr>) bs a
     = a\<lparr>branches := branches a @ map branch_name bs\<rparr>"
  by (induction bs arbitrary: a) simp_all

lemma fold_pushDetail:
  "fold pushDetail ds a
     = a\<lparr>users := users a
            @ map (\<lambda>d. \<lparr>user_name = detail_name d, user_email = detail_email d,
                         user_type = ''Individual User''\<rparr>)
                  (filter (\<lambda>d. detail_userType d = ''User'') ds),
          groups := groups a
            @ map (\<lambda>d. \<lparr>group_name = detail_name d, group_type = ''Group''\<rparr>)
                  (filter (\<lambda>d. detail_userType d = ''GroupName'') ds)\<rparr>"
  by (induction ds arbitrary: a) (simp_all add: pushDetail_def)

text \<open>The aggregate of a project once the branches and the details are in.\<close>

lemma own_after_loops:
  assumes "forEach addBranch bs (buildProjectMap ps) = Inr m1" "forEach addDetail ds m1 = Inr m2"
  shows "own m2 = map (\<lambda>k. (k,
            \<lparr>projectName = project_name (projectOf ps k), projectId = project_id (projectOf ps k),
             projectType = project_type (projectOf ps k),
             branches = branchesOf bs k,
             users = map (\<lambda>d. \<lparr>user_name = detail_name d, user_email = detail_email d,
                                 user_type = ''Individual User''\<rparr>) (principalsOf ''User'' ds k),
             groups = map (\<lambda>d. \<lparr>group_name = detail_name d, group_type = ''Group''\<rparr>)
                          (principalsOf ''GroupName'' ds k)\<rparr>)) (ownProjectIds ps)"
proof -
  have d: "distinct (ownProjectIds ps)"
    by (simp add: ownProjectIds_def distinct_firstSeen)
  note own1 = forEach_addBranch_own [OF assms(1) own_buildProjectMap d]
  note own2 = forEach_addDetail_own [OF assms(2) own1 d]
  show ?thesis
    unfolding own2
    by (simp add: fold_push_branches fold_pushDetail initialAggregate_def branchesOf_def
        principalsOf_def conj_commute)
qed

subsection \<open>The application map and the order of the rows\<close>

lemma fold_setApplication:
  "fold (\<lambda>k am'. setApplication m n am' k) ks am
     = (\<lambda>k. if k \<in> set ks \<and> getProject m k \<noteq> Falsy \<and> k \<noteq> ''__proto__'' then Some n else am k)"
  by (induction ks arbitrary: am) (auto simp: setApplication_def fun_eq_iff)

lemma fold_applications:
  assumes "getProject m k \<noteq> Falsy" "k \<noteq> ''__proto__''"
  shows "fold (\<lambda>application am. fold (\<lambda>k am'. setApplication m (app_name application) am' k)
                                      (app_projects application) am) apps am k
           = (case rev (listing apps k) of [] \<Rightarrow> am k | a # _ \<Rightarrow> Some (app_name a))"
proof (induction apps arbitrary: am)
  case Nil
  then show ?case by (simp add: listing_def)
next
  case (Cons a apps)
  let ?am = "fold (\<lambda>k am'. setApplication m (app_name a) am' k) (app_projects a) am"
  have first: "?am k = (if k \<in> set (app_projects a) then Some (app_name a) else am k)"
    using assms by (simp add: fold_setApplication)
  have "fold (\<lambda>application am. fold (\<lambda>k am'. setApplication m (app_name application) am' k)
                                      (app_projects application) am) (a # apps) am k
          = (case rev (listing apps k) of [] \<Rightarrow> ?am k | a # _ \<Rightarrow> Some (app_name a))"
    by (simp only: fold_simps Cons.IH)
  also have "\<dots> = (case rev (listing (a # apps) k) of [] \<Rightarrow> am k | a # _ \<Rightarrow> Some (app_name a))"
    by (cases "rev (listing apps k)") (simp_all add: first listing_def)
  finally show ?case .
qed

lemma applicationNameOf_buildApplicationMap:
  assumes "getProject m k \<noteq> Falsy" "k \<noteq> ''__proto__''"
  shows "applicationNameOf (buildApplicationMap m apps) k = applicationCell apps k"
  unfolding buildApplicationMap_def applicationNameOf_def applicationCell_def
    fold_applications [OF assms]
  by (simp split: list.splits)

lemma insort_key_map:
  "insort_key h (f x) (map f xs) = map f (insort_key (\<lambda>x. h (f x)) x xs)"
  by (induction xs) simp_all

lemma sort_key_map:
  "sort_key h (map f xs) = map f (sort_key (\<lambda>x. h (f x)) xs)"
  by (induction xs) (simp_all add: insort_key_map)

lemma objectValues_table:
  "objectValues (map (\<lambda>k. (k, g k)) ks) = map g (propertyOrder ks)"
  by (simp add: objectValues_def propertyOrder_def filter_map sort_key_map comp_def)

text \<open>Refinement: the rows that the function builds are the rows of the specification.\<close>

lemma combine_reportRows:
  assumes "combineDataAndGenerateCsv ps ds bs apps = Inr rows"
  shows "rows = reportRows ps ds bs apps"
proof -
  from assms obtain m1 m2 where
    m1: "forEach addBranch bs (buildProjectMap ps) = Inr m1" and
    m2: "forEach addDetail ds m1 = Inr m2" and
    rows: "rows = concat (map (projectRows (buildApplicationMap m2 apps)) (objectValues (own m2)))"
    by (auto simp: combineDataAndGenerateCsv_def split: sum.splits)
  let ?g = "\<lambda>k. \<lparr>projectName = project_name (projectOf ps k), projectId = project_id (projectOf ps k),
             projectType = project_type (projectOf ps k),
             branches = branchesOf bs k,
             users = map (\<lambda>d. \<lparr>user_name = detail_name d, user_email = detail_email d,
                                 user_type = ''Individual User''\<rparr>) (principalsOf ''User'' ds k),
             groups = map (\<lambda>d. \<lparr>group_name = detail_name d, group_type = ''Group''\<rparr>)
                          (principalsOf ''GroupName'' ds k)\<rparr>"
  have own: "own m2 = map (\<lambda>k. (k, ?g k)) (ownProjectIds ps)"
    by (rule own_after_loops [OF m1 m2])
  have row: "projectRows (buildApplicationMap m2 apps) (?g k) = rowsOfProject ps ds bs apps k"
    if k: "k \<in> set (ownProjectIds ps)" for k
  proof -
    from k have proto: "k \<noteq> ''__proto__''" and ex: "filter (\<lambda>p. project_id p = k) ps \<noteq> []"
      by (auto simp: set_ownProjectIds filter_empty_conv)
    from ex have "last (filter (\<lambda>p. project_id p = k) ps) \<in> set (filter (\<lambda>p. project_id p = k) ps)"
      by (rule last_in_set)
    then have id: "project_id (projectOf ps k) = k"
      by (simp add: projectOf_def)
    have "getProject m2 k = Own (?g k)"
      using getProject_Own [OF own, of k "?g k"] k by simp
    then have "getProject m2 k \<noteq> Falsy" by simp
    from applicationNameOf_buildApplicationMap [OF this proto]
    show ?thesis
      by (simp add: projectRows_def rowsOfProject_def id Let_def)
  qed
  have "rows = concat (map (projectRows (buildApplicationMap m2 apps))
                           (map ?g (propertyOrder (ownProjectIds ps))))"
    unfolding rows own by (simp only: objectValues_table)
  also have "\<dots> = concat (map (\<lambda>k. projectRows (buildApplicationMap m2 apps) (?g k))
                             (propertyOrder (ownProjectIds ps)))"
    by (simp add: comp_def)
  also have "\<dots> = concat (map (rowsOfProject ps ds bs apps) (propertyOrder (ownProjectIds ps)))"
  proof -
    have "set (propertyOrder (ownProjectIds ps)) = set (ownProjectIds ps)"
      by (auto simp: propertyOrder_def)
    then have "map (\<lambda>k. projectRows (buildApplicationMap m2 apps) (?g k))
                   (propertyOrder (ownProjectIds ps))
             = map (rowsOfProject ps ds bs apps) (propertyOrder (ownProjectIds ps))"
      by (intro map_cong refl row) simp
    then show ?thesis by (rule arg_cong [where f = concat])
  qed
  finally show ?thesis by (simp add: reportRows_def)
qed

subsection \<open>The rows of the report\<close>

lemma replicate_small:
  "replicate 5 x = [x, x, x, x, x]" "replicate 4 x = [x, x, x, x]" "replicate 3 x = [x, x, x]"
  "replicate 2 x = [x, x]" "replicate 1 x = [x]"
  by (simp_all add: numeral_eq_Suc)

lemmas report_eval = Let_def replicate_small
  combineDataAndGenerateCsv_def buildProjectMap_def setProject_def initialAggregate_def
  addBranch_def addDetail_def getProject_def putProject_def pushDetail_def objectValues_def
  isArrayIndex_def isDigit_def indexValue_def projectRows_def buildApplicationMap_def
  setApplication_def applicationNameOf_def objectPrototypeKeys_def branchSlots_def inherited_def
  listedProject_def userDetail_def groupDetail_def branchOn_def applicationNamed_def








subsection \<open>Branch slots and application names\<close>

lemma length_branchSlots: "length (branchSlots bs) = 5"
  by (simp add: branchSlots_def Let_def)

lemma nth_branchSlots:
  "i < 5 \<Longrightarrow> branchSlots bs ! i = (if i < length bs then bs ! i else [])"
  by (simp add: branchSlots_def Let_def nth_append)

lemma row_of_project:
  "r \<in> set (rowsOfProject ps ds bs apps k) \<Longrightarrow>
   row_projectId r = k \<and> row_branchNames r = branchSlots (branchesOf bs k)
   \<and> row_applicationName r = applicationCell apps k"
  by (auto simp: rowsOfProject_def)

lemma row_of_report:
  assumes "combineDataAndGenerateCsv ps ds bs apps = Inr rows" "r \<in> set rows"
  shows "r \<in> set (rowsOfProject ps ds bs apps (row_projectId r))
         \<and> row_projectId r \<in> set (ownProjectIds ps)"
proof -
  from combine_reportRows [OF assms(1)] assms(2)
  obtain k where k: "k \<in> set (propertyOrder (ownProjectIds ps))" "r \<in> set (rowsOfProject ps ds bs apps k)"
    by (auto simp: reportRows_def)
  from k(2) have "row_projectId r = k"
    by (auto simp: rowsOfProject_def)
  moreover from k(1) have "k \<in> set (ownProjectIds ps)"
    by (auto simp: propertyOrder_def)
  ultimately show ?thesis using k(2) by simp
qed

text \<open>
  C6. In every row of the report the five branch-name slots hold the first five names of
  the branches of the row's project, in the order of the branches snapshot: slot \<open>i\<close> is the
  \<open>i\<close>-th name when the project has that many branches and the empty string otherwise, and
  names after the fifth are left out.
\<close>

theorem five_branch_slots:
  "combineDataAndGenerateCsv allProjects allDetails allBranches allApplications = Inr rows \<longrightarrow>
     (\<forall>r\<in>set rows.
        length (row_branchNames r) = 5
        \<and> row_branchNames r
            = take 5 (branchesOf allBranches (row_projectId r))
              @ replicate (5 - length (branchesOf allBranches (row_projectId r))) ''''
        \<and> (\<forall>i<5. row_branchNames r ! i
                    = (if i < length (branchesOf allBranches (row_projectId r))
                       then branchesOf allBranches (row_projectId r) ! i else '''')))"
proof (intro impI ballI)
  fix r
  assume "combineDataAndGenerateCsv allProjects allDetails allBranches allApplications = Inr rows"
    and "r \<in> set rows"
  then have "r \<in> set (rowsOfProject allProjects allDetails allBranches allApplications (row_projectId r))"
    by (simp add: row_of_report)
  then have slots: "row_branchNames r = branchSlots (branchesOf allBranches (row_projectId r))"
    by (rule row_of_project [THEN conjunct2, THEN conjunct1])
  have eq: "branchSlots (branchesOf allBranches (row_projectId r))
          = take 5 (branchesOf allBranches (row_projectId r))
            @ replicate (5 - length (branchesOf allBranches (row_projectId r))) ''''"
    by (simp add: branchSlots_def Let_def min_def)
  show "length (row_branchNames r) = 5
        \<and> row_branchNames r
            = take 5 (branchesOf allBranches (row_projectId r))
              @ replicate (5 - length (branchesOf allBranches (row_projectId r))) ''''
        \<and> (\<forall>i<5. row_branchNames r ! i
                    = (if i < length (branchesOf allBranches (row_projectId r))
                       then branchesOf allBranches (row_projectId r) ! i else ''''))"
  proof (intro conjI allI impI)
    show "length (row_branchNames r) = 5"
      unfolding slots by (rule length_branchSlots)
    show "row_branchNames r
            = take 5 (branchesOf allBranches (row_projectId r))
              @ replicate (5 - length (branchesOf allBranches (row_projectId r))) ''''"
      unfolding slots by (rule eq)
    fix i :: nat
    assume "i < 5"
    then show "row_branchNames r ! i
                    = (if i < length (branchesOf allBranches (row_projectId r))
                       then branchesOf allBranches (row_projectId r) ! i else '''')"
      unfolding slots by (rule nth_branchSlots)
  qed
qed

lemma seven_branches_rows:
  "combineDataAndGenerateCsv [listedProject ''P1''] [userDetail ''P1'' ''Alice'' ''alice@x.com'']
     sevenBranches []
   = Inr [\<lparr>row_applicationName = Text ''No Application Name'', row_projectName = ''proj'',
           row_projectId = ''P1'', row_type = ''Individual User'', row_name = ''Alice'',
           row_email = ''alice@x.com'',
           row_branchNames = [''b1'', ''b2'', ''b3'', ''b4'', ''b5'']\<rparr>]"
  by (simp add: report_eval sevenBranches_def)

lemma three_branches_rows:
  "combineDataAndGenerateCsv [listedProject ''P1''] [userDetail ''P1'' ''Alice'' ''alice@x.com'']
     threeBranches []
   = Inr [\<lparr>row_applicationName = Text ''No Application Name'', row_projectName = ''proj'',
           row_projectId = ''P1'', row_type = ''Individual User'', row_name = ''Alice'',
           row_email = ''alice@x.com'',
           row_branchNames = [''b1'', ''b2'', ''b3'', '''', '''']\<rparr>]"
  by (simp add: report_eval threeBranches_def)

theorem five_branch_slots_witness:
  "combineDataAndGenerateCsv [listedProject ''P1''] [userDetail ''P1'' ''Alice'' ''alice@x.com'']
     sevenBranches []
   = Inr [\<lparr>row_applicationName = Text ''No Application Name'', row_projectName = ''proj'',
           row_projectId = ''P1'', row_type = ''Individual User'', row_name = ''Alice'',
           row_email = ''alice@x.com'',
           row_branchNames = [''b1'', ''b2'', ''b3'', ''b4'', ''b5'']\<rparr>]
   \<and> branchesOf sevenBranches ''P1'' = [''b1'', ''b2'', ''b3'', ''b4'', ''b5'', ''b6'', ''b7'']
   \<and> [''b1'', ''b2'', ''b3'', ''b4'', ''b5'']
       = take 5 (branchesOf sevenBranches ''P1'') @ replicate (5 - length (branchesOf sevenBranches ''P1'')) ''''
   \<and> combineDataAndGenerateCsv [listedProject ''P1''] [userDetail ''P1'' ''Alice'' ''alice@x.com'']
       threeBranches []
     = Inr [\<lparr>row_applicationName = Text ''No Application Name'', row_projectName = ''proj'',
             row_projectId = ''P1'', row_type = ''Individual User'', row_name = ''Alice'',
             row_email = ''alice@x.com'',
             row_branchNames = [''b1'', ''b2'', ''b3'', '''', '''']\<rparr>]
   \<and> branchesOf threeBranches ''P1'' = [''b1'', ''b2'', ''b3'']
   \<and> [''b1'', ''b2'', ''b3'', '''', '''']
       = take 5 (branchesOf threeBranches ''P1'') @ replicate (5 - length (branchesOf threeBranches ''P1'')) ''''"
proof -
  let ?r7 = "\<lparr>row_applicationName = Text ''No Application Name'', row_projectName = ''proj'',
           row_projectId = ''P1'', row_type = ''Individual User'', row_name = ''Alice'',
           row_email = ''alice@x.com'',
           row_branchNames = [''b1'', ''b2'', ''b3'', ''b4'', ''b5'']\<rparr>"
  let ?r3 = "\<lparr>row_applicationName = Text ''No Application Name'', row_projectName = ''proj'',
           row_projectId = ''P1'', row_type = ''Individual User'', row_name = ''Alice'',
           row_email = ''alice@x.com'',
           row_branchNames = [''b1'', ''b2'', ''b3'', '''', '''']\<rparr>"
  have b7: "branchesOf sevenBranches ''P1'' = [''b1'', ''b2'', ''b3'', ''b4'', ''b5'', ''b6'', ''b7'']"
    by (simp add: branchesOf_def sevenBranches_def branchOn_def)
  have b3: "branchesOf threeBranches ''P1'' = [''b1'', ''b2'', ''b3'']"
    by (simp add: branchesOf_def threeBranches_def branchOn_def)
  have "\<forall>r\<in>set [?r7]. length (row_branchNames r) = 5
        \<and> row_branchNames r
            = take 5 (branchesOf sevenBranches (row_projectId r))
              @ replicate (5 - length (branchesOf sevenBranches (row_projectId r))) ''''
        \<and> (\<forall>i<5. row_branchNames r ! i
                    = (if i < length (branchesOf sevenBranches (row_projectId r))
                       then branchesOf sevenBranches (row_projectId r) ! i else ''''))"
    by (rule five_branch_slots [THEN mp, OF seven_branches_rows])
  then have s7: "[''b1'', ''b2'', ''b3'', ''b4'', ''b5'']
       = take 5 (branchesOf sevenBranches ''P1'') @ replicate (5 - length (branchesOf sevenBranches ''P1'')) ''''"
    by (simp add: b7 replicate_small)
  have "\<forall>r\<in>set [?r3]. length (row_branchNames r) = 5
        \<and> row_branchNames r
            = take 5 (branchesOf threeBranches (row_projectId r))
              @ replicate (5 - length (branchesOf threeBranches (row_projectId r))) ''''
        \<and> (\<forall>i<5. row_branchNames r ! i
                    = (if i < length (branchesOf threeBranches (row_projectId r))
                       then branchesOf threeBranches (row_projectId r) ! i else ''''))"
    by (rule five_branch_slots [THEN mp, OF three_branches_rows])
  then have s3: "[''b1'', ''b2'', ''b3'', '''', '''']
       = take 5 (branchesOf threeBranches ''P1'') @ replicate (5 - length (branchesOf threeBranches ''P1'')) ''''"
    by (simp add: b3 replicate_small)
  show ?thesis
    by (intro conjI) (rule seven_branches_rows, rule b7, rule s7, rule three_branches_rows,
        rule b3, rule s3)
qed

lemma applicationCell_cases:
  "applicationCell apps k =
     (if listing apps k = []
      then (if k \<in> set objectPrototypeKeys then Member k else Text ''No Application Name'')
      else if app_name (last (listing apps k)) \<noteq> [] then Text (app_name (last (listing apps k)))
      else Text ''No Application Name'')"
  by (cases "listing apps k" rule: rev_cases) (simp_all add: applicationCell_def)

text \<open>
  C5 (as amended). In the report, a project that no application lists, and whose id is
  not the name of a member of \<^verbatim>\<open>Object.prototype\<close>, has the application name
  \<^verbatim>\<open>No Application Name\<close>; a project that some application lists has the name of the last
  application of the snapshot that lists it, and \<^verbatim>\<open>No Application Name\<close> when that name is
  empty.
\<close>

theorem application_name_or_sentinel:
  "combineDataAndGenerateCsv allProjects allDetails allBranches allApplications = Inr rows \<longrightarrow>
     (\<forall>r\<in>set rows.
        (listing allApplications (row_projectId r) = []
           \<and> row_projectId r \<notin> set objectPrototypeKeys \<longrightarrow>
         row_applicationName r = Text ''No Application Name'')
      \<and> (listing allApplications (row_projectId r) \<noteq> []
           \<and> app_name (last (listing allApplications (row_projectId r))) \<noteq> '''' \<longrightarrow>
         row_applicationName r = Text (app_name (last (listing allApplications (row_projectId r)))))
      \<and> (listing allApplications (row_projectId r) \<noteq> []
           \<and> app_name (last (listing allApplications (row_projectId r))) = '''' \<longrightarrow>
         row_applicationName r = Text ''No Application Name''))"
proof (intro impI ballI)
  fix r
  assume "combineDataAndGenerateCsv allProjects allDetails allBranches allApplications = Inr rows"
    and "r \<in> set rows"
  then have "r \<in> set (rowsOfProject allProjects allDetails allBranches allApplications (row_projectId r))"
    by (simp add: row_of_report)
  then have "row_applicationName r = applicationCell allApplications (row_projectId r)"
    by (rule row_of_project [THEN conjunct2, THEN conjunct2])
  then show "(listing allApplications (row_projectId r) = []
           \<and> row_projectId r \<notin> set objectPrototypeKeys \<longrightarrow>
         row_applicationName r = Text ''No Application Name'')
      \<and> (listing allApplications (row_projectId r) \<noteq> []
           \<and> app_name (last (listing allApplications (row_projectId r))) \<noteq> '''' \<longrightarrow>
         row_applicationName r = Text (app_name (last (listing allApplications (row_projectId r)))))
      \<and> (listing allApplications (row_projectId r) \<noteq> []
           \<and> app_name (last (listing allApplications (row_projectId r))) = '''' \<longrightarrow>
         row_applicationName r = Text ''No Application Name'')"
    by (simp only: applicationCell_cases) simp
qed

lemma unlisted_rows:
  "combineDataAndGenerateCsv [listedProject ''P1''] [userDetail ''P1'' ''Alice'' ''alice@x.com''] []
     [applicationNamed ''A'' [''P2'']]
   = Inr [\<lparr>row_applicationName = Text ''No Application Name'', row_projectName = ''proj'',
           row_projectId = ''P1'', row_type = ''Individual User'', row_name = ''Alice'',
           row_email = ''alice@x.com'', row_branchNames = ['''', '''', '''', '''', '''']\<rparr>]"
  by (simp add: report_eval)

lemma twice_listed_rows:
  "combineDataAndGenerateCsv [listedProject ''P1''] [userDetail ''P1'' ''Alice'' ''alice@x.com''] []
     [applicationNamed ''A'' [''P1''], applicationNamed ''B'' [''P2'', ''P1'']]
   = Inr [\<lparr>row_applicationName = Text ''B'', row_projectName = ''proj'',
           row_projectId = ''P1'', row_type = ''Individual User'', row_name = ''Alice'',
           row_email = ''alice@x.com'', row_branchNames = ['''', '''', '''', '''', '''']\<rparr>]"
  by (simp add: report_eval)

lemma unnamed_application_rows:
  "combineDataAndGenerateCsv [listedProject ''P1''] [userDetail ''P1'' ''Alice'' ''alice@x.com''] []
     [applicationNamed '''' [''P1'']]
   = Inr [\<lparr>row_applicationName = Text ''No Application Name'', row_projectName = ''proj'',
           row_projectId = ''P1'', row_type = ''Individual User'', row_name = ''Alice'',
           row_email = ''alice@x.com'', row_branchNames = ['''', '''', '''', '''', '''']\<rparr>]"
  by (simp add: report_eval)

theorem application_name_or_sentinel_witness:
  "listing [applicationNamed ''A'' [''P2'']] ''P1'' = [] \<and> ''P1'' \<notin> set objectPrototypeKeys
   \<and> combineDataAndGenerateCsv [listedProject ''P1''] [userDetail ''P1'' ''Alice'' ''alice@x.com''] []
        [applicationNamed ''A'' [''P2'']]
      = Inr [\<lparr>row_applicationName = Text ''No Application Name'', row_projectName = ''proj'',
              row_projectId = ''P1'', row_type = ''Individual User'', row_name = ''Alice'',
              row_email = ''alice@x.com'', row_branchNames = ['''', '''', '''', '''', '''']\<rparr>]
   \<and> last (listing [applicationNamed ''A'' [''P1''], applicationNamed ''B'' [''P2'', ''P1'']] ''P1'')
      = applicationNamed ''B'' [''P2'', ''P1'']
   \<and> combineDataAndGenerateCsv [listedProject ''P1''] [userDetail ''P1'' ''Alice'' ''alice@x.com''] []
        [applicationNamed ''A'' [''P1''], applicationNamed ''B'' [''P2'', ''P1'']]
      = Inr [\<lparr>row_applicationName = Text ''B'', row_projectName = ''proj'',
              row_projectId = ''P1'', row_type = ''Individual User'', row_name = ''Alice'',
              row_email = ''alice@x.com'', row_branchNames = ['''', '''', '''', '''', '''']\<rparr>]
   \<and> last (listing [applicationNamed '''' [''P1'']] ''P1'') = applicationNamed '''' [''P1'']
   \<and> combineDataAndGenerateCsv [listedProject ''P1''] [userDetail ''P1'' ''Alice'' ''alice@x.com''] []
        [applicationNamed '''' [''P1'']]
      = Inr [\<lparr>row_applicationName = Text ''No Application Name'', row_projectName = ''proj'',
              row_projectId = ''P1'', row_type = ''Individual User'', row_name = ''Alice'',
              row_email = ''alice@x.com'', row_branchNames = ['''', '''', '''', '''', '''']\<rparr>]
   \<and> (Text ''B'' = Text (app_name (applicationNamed ''B'' [''P2'', ''P1''])))"
proof -
  have l1: "listing [applicationNamed ''A'' [''P2'']] ''P1'' = []"
    and l2: "last (listing [applicationNamed ''A'' [''P1''], applicationNamed ''B'' [''P2'', ''P1'']] ''P1'')
      = applicationNamed ''B'' [''P2'', ''P1'']"
    and l3: "last (listing [applicationNamed '''' [''P1'']] ''P1'') = applicationNamed '''' [''P1'']"
    by (simp_all add: listing_def applicationNamed_def)
  have plain: "''P1'' \<notin> set objectPrototypeKeys"
    by (simp add: objectPrototypeKeys_def)
  have "\<forall>r\<in>set [\<lparr>row_applicationName = Text ''B'', row_projectName = ''proj'',
           row_projectId = ''P1'', row_type = ''Individual User'', row_name = ''Alice'',
           row_email = ''alice@x.com'', row_branchNames = ['''', '''', '''', '''', '''']\<rparr>].
        (listing [applicationNamed ''A'' [''P1''], applicationNamed ''B'' [''P2'', ''P1'']]
             (row_projectId r) = []
           \<and> row_projectId r \<notin> set objectPrototypeKeys \<longrightarrow>
         row_applicationName r = Text ''No Application Name'')
      \<and> (listing [applicationNamed ''A'' [''P1''], applicationNamed ''B'' [''P2'', ''P1'']]
             (row_projectId r) \<noteq> []
           \<and> app_name (last (listing [applicationNamed ''A'' [''P1''],
                                        applicationNamed ''B'' [''P2'', ''P1'']] (row_projectId r)))
               \<noteq> '''' \<longrightarrow>
         row_applicationName r
           = Text (app_name (last (listing [applicationNamed ''A'' [''P1''],
                                             applicationNamed ''B'' [''P2'', ''P1'']]
                                     (row_projectId r)))))
      \<and> (listing [applicationNamed ''A'' [''P1''], applicationNamed ''B'' [''P2'', ''P1'']]
             (row_projectId r) \<noteq> []
           \<and> app_name (last (listing [applicationNamed ''A'' [''P1''],
                                        applicationNamed ''B'' [''P2'', ''P1'']] (row_projectId r)))
               = '''' \<longrightarrow>
         row_applicationName r = Text ''No Application Name'')"
    by (rule application_name_or_sentinel [THEN mp, OF twice_listed_rows])
  then have named: "Text ''B'' = Text (app_name (applicationNamed ''B'' [''P2'', ''P1'']))"
    by (simp add: l2) (simp add: listing_def applicationNamed_def)
  show ?thesis
    by (intro conjI) (rule l1, rule plain, rule unlisted_rows, rule l2, rule twice_listed_rows,
        rule l3, rule unnamed_application_rows, rule named)
qed

text \<open>
  C5 as stated fails: a project listed by an application whose name is empty has the
  application name \<^verbatim>\<open>No Application Name\<close>, not that application's name.
\<close>

theorem unnamed_application_counterexample:
  "app_name (applicationNamed '''' [''P1'']) = ''''
   \<and> ''P1'' \<in> set (app_projects (applicationNamed '''' [''P1'']))
   \<and> combineDataAndGenerateCsv [listedProject ''P1''] [userDetail ''P1'' ''Alice'' ''alice@x.com''] []
        [applicationNamed '''' [''P1'']]
      = Inr [\<lparr>row_applicationName = Text ''No Application Name'', row_projectName = ''proj'',
              row_projectId = ''P1'', row_type = ''Individual User'', row_name = ''Alice'',
              row_email = ''alice@x.com'', row_branchNames = ['''', '''', '''', '''', '''']\<rparr>]
   \<and> Text ''No Application Name'' \<noteq> Text (app_name (applicationNamed '''' [''P1'']))"
  by (simp add: report_eval)

subsection \<open>Records of unknown projects\<close>

lemma proto_fold_setProject:
  "proto m = None \<Longrightarrow> \<forall>p\<in>set ps. project_id p \<noteq> ''__proto__'' \<Longrightarrow>
   proto (fold (\<lambda>project m. setProject (project_id project) (initialAggregate project) m) ps m) = None"
  by (induction ps arbitrary: m) (simp_all add: setProject_def)

lemma getProject_plain:
  "proto m = None \<Longrightarrow> k \<notin> set objectPrototypeKeys \<Longrightarrow>
   getProject m k = (case map_of (own m) k of Some a \<Rightarrow> Own a | None \<Rightarrow> Falsy)"
  by (cases "map_of (own m) k") (simp_all add: getProject_def inherited_def)

lemma addBranch_plain:
  "proto m = None \<Longrightarrow> branch_project b \<notin> set objectPrototypeKeys \<Longrightarrow>
   \<exists>m'. addBranch m b = Inr m' \<and> proto m' = None"
  by (cases "map_of (own m) (branch_project b)")
     (simp_all add: addBranch_def getProject_plain putProject_def)

lemma addDetail_plain:
  "proto m = None \<Longrightarrow> detail_projectId d \<notin> set objectPrototypeKeys \<Longrightarrow>
   \<exists>m'. addDetail m d = Inr m' \<and> proto m' = None"
  by (cases "map_of (own m) (detail_projectId d)")
     (simp_all add: addDetail_def getProject_plain putProject_def)

lemma forEach_plain:
  assumes step: "\<And>m x. proto m = None \<Longrightarrow> x \<in> set xs \<Longrightarrow> \<exists>m'. f m x = Inr m' \<and> proto m' = None"
  shows "proto m = None \<Longrightarrow> \<exists>m'. forEach f xs m = Inr m' \<and> proto m' = None"
  using step
proof (induction xs arbitrary: m)
  case Nil
  then show ?case by simp
next
  case (Cons x xs)
  from Cons.prems(2) [OF Cons.prems(1), of x] obtain m1 where m1: "f m x = Inr m1" "proto m1 = None"
    by auto
  from Cons.IH [OF m1(2)] Cons.prems(2) obtain m' where "forEach f xs m1 = Inr m'" "proto m' = None"
    by auto
  with m1 show ?case by simp
qed

text \<open>
  When no id is the name of a member of \<^verbatim>\<open>Object.prototype\<close>, the report is built, and
  the branches and details of unknown projects change nothing in it.
\<close>

lemma reportRows_known:
  "reportRows ps (filter (\<lambda>d. detail_projectId d \<in> set (ownProjectIds ps)) ds)
              (filter (\<lambda>b. branch_project b \<in> set (ownProjectIds ps)) bs) apps
   = reportRows ps ds bs apps"
proof -
  have "rowsOfProject ps (filter (\<lambda>d. detail_projectId d \<in> set (ownProjectIds ps)) ds)
              (filter (\<lambda>b. branch_project b \<in> set (ownProjectIds ps)) bs) apps k
        = rowsOfProject ps ds bs apps k" if "k \<in> set (ownProjectIds ps)" for k
  proof -
    have "filter (\<lambda>b. branch_project b = k) (filter (\<lambda>b. branch_project b \<in> set (ownProjectIds ps)) bs)
            = filter (\<lambda>b. branch_project b = k) bs"
      using that by (auto simp: filter_filter intro: filter_cong)
    moreover have "filter (\<lambda>d. detail_projectId d = k \<and> detail_userType d = kind)
                     (filter (\<lambda>d. detail_projectId d \<in> set (ownProjectIds ps)) ds)
            = filter (\<lambda>d. detail_projectId d = k \<and> detail_userType d = kind) ds" for kind
      using that by (auto simp: filter_filter intro: filter_cong)
    ultimately show ?thesis
      by (simp add: rowsOfProject_def branchesOf_def principalsOf_def)
  qed
  moreover have "set (propertyOrder (ownProjectIds ps)) = set (ownProjectIds ps)"
    by (auto simp: propertyOrder_def)
  ultimately show ?thesis
    unfolding reportRows_def by (intro arg_cong [where f = concat] map_cong refl) simp
qed

lemma combine_plain_ids:
  assumes "\<forall>p\<in>set ps. project_id p \<noteq> ''__proto__''"
    "\<forall>b\<in>set bs. branch_project b \<notin> set objectPrototypeKeys"
    "\<forall>d\<in>set ds. detail_projectId d \<notin> set objectPrototypeKeys"
  shows "combineDataAndGenerateCsv ps ds bs apps
           = Inr (reportRows ps (filter (\<lambda>d. detail_projectId d \<in> set (ownProjectIds ps)) ds)
                             (filter (\<lambda>b. branch_project b \<in> set (ownProjectIds ps)) bs) apps)"
proof -
  have p0: "proto (buildProjectMap ps) = None"
    unfolding buildProjectMap_def using assms(1) by (intro proto_fold_setProject) simp_all
  from forEach_plain [where f = addBranch and xs = bs, OF _ p0] assms(2)
  obtain m1 where m1: "forEach addBranch bs (buildProjectMap ps) = Inr m1" "proto m1 = None"
    using addBranch_plain by blast
  from forEach_plain [where f = addDetail and xs = ds, OF _ m1(2)] assms(3)
  obtain m2 where m2: "forEach addDetail ds m1 = Inr m2"
    using addDetail_plain by blast
  from m1(1) m2 obtain rows where rows: "combineDataAndGenerateCsv ps ds bs apps = Inr rows"
    by (simp add: combineDataAndGenerateCsv_def)
  from combine_reportRows [OF rows] rows show ?thesis
    by (simp add: reportRows_known)
qed

text \<open>
  C9, at the input where the code departs from it. The projects snapshot has the one
  project \<^verbatim>\<open>P1\<close>; a branch record (or a user record) names the project \<^verbatim>\<open>constructor\<close>,
  which is not in the snapshot. The record is not dropped: the lookup finds the member
  \<^verbatim>\<open>constructor\<close> of \<^verbatim>\<open>Object.prototype\<close>, the \<^verbatim>\<open>push\<close> throws a TypeError, and no report is
  written.
\<close>

theorem inherited_name_record_throws:
  "''constructor'' \<notin> set (map project_id [listedProject ''P1''])
   \<and> combineDataAndGenerateCsv [listedProject ''P1''] [userDetail ''P1'' ''Alice'' ''alice@x.com'']
        [branchOn ''constructor'' ''main''] []
      = Inl TypeError
   \<and> combineDataAndGenerateCsv [listedProject ''P1'']
        [userDetail ''P1'' ''Alice'' ''alice@x.com'', userDetail ''constructor'' ''Bob'' ''bob@x.com'']
        [] []
      = Inl TypeError
   \<and> combineDataAndGenerateCsv [listedProject ''P1''] [userDetail ''P1'' ''Alice'' ''alice@x.com'']
        [branchOn ''P9'' ''main''] []
      = Inr [\<lparr>row_applicationName = Text ''No Application Name'', row_projectName = ''proj'',
              row_projectId = ''P1'', row_type = ''Individual User'', row_name = ''Alice'',
              row_email = ''alice@x.com'', row_branchNames = ['''', '''', '''', '''', '''']\<rparr>]"
  by (simp add: report_eval)


end
